theory Spec2Isabelle
  imports Main "HOL-Library.Word" "HOL-Library.Char_ord" "HOL-Library.List_Lexorder"
    "HOL-Library.Sublist"
begin

unbundle bit_operations_syntax

section \<open>Strings, digits and bytes\<close>

text \<open>
  A JavaScript string is a sequence of UTF-16 code units. It is modelled as a
  \<^typ>\<open>string\<close>, one character for each code unit: the strings of the model are those whose
  code units lie below 256 (ASCII and Latin-1). \<^const>\<open>length\<close>, slicing, pairing and the
  default \<^verbatim>\<open>sort()\<close> order are those of the code units, as in JavaScript. Where the code
  hashes, encrypts or escapes a string it is first encoded in UTF-8 (\<open>bytes_of\<close> below).
  A string with a code unit of 256 or more has no counterpart in the model.
\<close>

definition digit_char :: "nat \<Rightarrow> char" where
  "digit_char n = ''0123456789'' ! (n mod 10)"

fun dec_nat :: "nat \<Rightarrow> string" where
  "dec_nat n = (if n < 10 then [digit_char n] else dec_nat (n div 10) @ [digit_char (n mod 10)])"

declare dec_nat.simps [simp del]

text \<open>\<^verbatim>\<open>String(n)\<close> and \<^verbatim>\<open>n.toString()\<close> for an integral number (below 1e21 in size, where
  JavaScript still prints every digit).\<close>

definition dec_int :: "int \<Rightarrow> string" where
  "dec_int i = (if i < 0 then CHR ''-'' # dec_nat (nat (- i)) else dec_nat (nat i))"

text \<open>\<^verbatim>\<open>s.padStart(k, '0')\<close>\<close>

definition padStart0 :: "nat \<Rightarrow> string \<Rightarrow> string" where
  "padStart0 k s = replicate (k - length s) CHR ''0'' @ s"

definition is_digit :: "char \<Rightarrow> bool" where
  "is_digit c = (c \<in> set ''0123456789'')"

text \<open>The number that a string of decimal digits denotes.\<close>

definition digit_val :: "char \<Rightarrow> int" where
  "digit_val c =
     (case map_of (zip ''0123456789'' [0, 1, 2, 3, 4, 5, 6, 7, 8, 9]) c of
        Some n \<Rightarrow> n
      | None \<Rightarrow> 0)"

definition number_of :: "string \<Rightarrow> int" where
  "number_of s = foldl (\<lambda>a c. 10 * a + digit_val c) 0 s"

definition is_alnum :: "char \<Rightarrow> bool" where
  "is_alnum c =
     (c \<in> set ''ABCDEFGHIJKLMNOPQRSTUVWXYZabcdefghijklmnopqrstuvwxyz0123456789'')"

definition is_lower_hex :: "char \<Rightarrow> bool" where
  "is_lower_hex c = (c \<in> set ''0123456789abcdef'')"

definition is_upper_hex :: "char \<Rightarrow> bool" where
  "is_upper_hex c = (c \<in> set ''0123456789ABCDEF'')"

text \<open>\<^verbatim>\<open>s.toUpperCase()\<close> on ASCII text.\<close>

definition upper_char :: "char \<Rightarrow> char" where
  "upper_char c =
     (case map_of (zip ''abcdefghijklmnopqrstuvwxyz'' ''ABCDEFGHIJKLMNOPQRSTUVWXYZ'') c of
        Some u \<Rightarrow> u
      | None \<Rightarrow> c)"

definition toUpperCase :: "string \<Rightarrow> string" where
  "toUpperCase s = map upper_char s"

text \<open>\<^verbatim>\<open>xs.join(sep)\<close>\<close>

fun join :: "string \<Rightarrow> string list \<Rightarrow> string" where
  "join sep [] = []"
| "join sep [x] = x"
| "join sep (x # y # ys) = x @ sep @ join sep (y # ys)"

type_synonym bytes = "nat list"

text \<open>The UTF-8 encoding of a code unit below 256, and of a string
  (\<^verbatim>\<open>Buffer.from(s)\<close>, \<^verbatim>\<open>hash.update(s)\<close>).\<close>

definition utf8 :: "char \<Rightarrow> bytes" where
  "utf8 c =
     (if (of_char c :: nat) < 128 then [of_char c]
      else [192 + of_char c div 64, 128 + of_char c mod 64])"

definition bytes_of :: "string \<Rightarrow> bytes" where
  "bytes_of s = concat (map utf8 s)"

definition hex_digit :: "nat \<Rightarrow> char" where
  "hex_digit n = ''0123456789abcdef'' ! (n mod 16)"

text \<open>\<^verbatim>\<open>digest('hex')\<close>: two lowercase hexadecimal digits for each byte.\<close>

definition hex_of_bytes :: "bytes \<Rightarrow> string" where
  "hex_of_bytes bs = concat (map (\<lambda>b. [hex_digit (b div 16), hex_digit b]) bs)"

section \<open>The runtime's hash functions\<close>

text \<open>
  \<^verbatim>\<open>crypto.createHash('md5')\<close> and \<^verbatim>\<open>crypto.createHash('sha1')\<close> are Node's; they are modelled
  as the algorithms of RFC 1321 and RFC 3174 on 32-bit words.
\<close>

definition rotl32 :: "32 word \<Rightarrow> nat \<Rightarrow> 32 word" where
  "rotl32 x n = push_bit n x OR drop_bit (32 - n) x"

fun le_bytes :: "nat \<Rightarrow> nat \<Rightarrow> bytes" where
  "le_bytes 0 n = []"
| "le_bytes (Suc k) n = (n mod 256) # le_bytes k (n div 256)"

definition be_bytes :: "nat \<Rightarrow> nat \<Rightarrow> bytes" where
  "be_bytes k n = rev (le_bytes k n)"

fun le_words :: "bytes \<Rightarrow> 32 word list" where
  "le_words (a # b # c # d # r) =
     of_nat (a + 256 * b + 65536 * c + 16777216 * d) # le_words r"
| "le_words _ = []"

fun be_words :: "bytes \<Rightarrow> 32 word list" where
  "be_words (a # b # c # d # r) =
     of_nat (16777216 * a + 65536 * b + 256 * c + d) # be_words r"
| "be_words _ = []"

fun blocks16 :: "'a list \<Rightarrow> 'a list list" where
  "blocks16 [] = []"
| "blocks16 (x # xs) = take 16 (x # xs) # blocks16 (drop 16 (x # xs))"

definition pad_zeros :: "nat \<Rightarrow> nat" where
  "pad_zeros len = (119 - len mod 64) mod 64"

subsection \<open>MD5\<close>

definition md5_K :: "32 word list" where
  "md5_K =
    [0xd76aa478, 0xe8c7b756, 0x242070db, 0xc1bdceee, 0xf57c0faf, 0x4787c62a, 0xa8304613, 0xfd469501,
     0x698098d8, 0x8b44f7af, 0xffff5bb1, 0x895cd7be, 0x6b901122, 0xfd987193, 0xa679438e, 0x49b40821,
     0xf61e2562, 0xc040b340, 0x265e5a51, 0xe9b6c7aa, 0xd62f105d, 0x02441453, 0xd8a1e681, 0xe7d3fbc8,
     0x21e1cde6, 0xc33707d6, 0xf4d50d87, 0x455a14ed, 0xa9e3e905, 0xfcefa3f8, 0x676f02d9, 0x8d2a4c8a,
     0xfffa3942, 0x8771f681, 0x6d9d6122, 0xfde5380c, 0xa4beea44, 0x4bdecfa9, 0xf6bb4b60, 0xbebfbc70,
     0x289b7ec6, 0xeaa127fa, 0xd4ef3085, 0x04881d05, 0xd9d4d039, 0xe6db99e5, 0x1fa27cf8, 0xc4ac5665,
     0xf4292244, 0x432aff97, 0xab9423a7, 0xfc93a039, 0x655b59c3, 0x8f0ccc92, 0xffeff47d, 0x85845dd1,
     0x6fa87e4f, 0xfe2ce6e0, 0xa3014314, 0x4e0811a1, 0xf7537e82, 0xbd3af235, 0x2ad7d2bb, 0xeb86d391]"

definition md5_S :: "nat list" where
  "md5_S =
    [7, 12, 17, 22, 7, 12, 17, 22, 7, 12, 17, 22, 7, 12, 17, 22,
     5, 9, 14, 20, 5, 9, 14, 20, 5, 9, 14, 20, 5, 9, 14, 20,
     4, 11, 16, 23, 4, 11, 16, 23, 4, 11, 16, 23, 4, 11, 16, 23,
     6, 10, 15, 21, 6, 10, 15, 21, 6, 10, 15, 21, 6, 10, 15, 21]"

definition md5_F :: "nat \<Rightarrow> 32 word \<Rightarrow> 32 word \<Rightarrow> 32 word \<Rightarrow> 32 word" where
  "md5_F i b c d =
     (if i < 16 then (b AND c) OR (NOT b AND d)
      else if i < 32 then (d AND b) OR (NOT d AND c)
      else if i < 48 then b XOR c XOR d
      else c XOR (b OR NOT d))"

definition md5_g :: "nat \<Rightarrow> nat" where
  "md5_g i =
     (if i < 16 then i
      else if i < 32 then (5 * i + 1) mod 16
      else if i < 48 then (3 * i + 5) mod 16
      else (7 * i) mod 16)"

type_synonym md5_state = "32 word \<times> 32 word \<times> 32 word \<times> 32 word"

definition md5_round :: "32 word list \<Rightarrow> md5_state \<Rightarrow> nat \<Rightarrow> md5_state" where
  "md5_round m st i =
     (case st of (a, b, c, d) \<Rightarrow>
        (d, b + rotl32 (md5_F i b c d + a + md5_K ! i + m ! md5_g i) (md5_S ! i), b, c))"

definition md5_block :: "md5_state \<Rightarrow> 32 word list \<Rightarrow> md5_state" where
  "md5_block st m =
     (case st of (a0, b0, c0, d0) \<Rightarrow>
        (case foldl (md5_round m) st [0..<64] of (a, b, c, d) \<Rightarrow>
           (a0 + a, b0 + b, c0 + c, d0 + d)))"

definition md5_pad :: "bytes \<Rightarrow> bytes" where
  "md5_pad bs =
     bs @ [128] @ replicate (pad_zeros (length bs)) 0 @ le_bytes 8 (8 * length bs)"

definition md5 :: "bytes \<Rightarrow> bytes" where
  "md5 bs =
     (case foldl md5_block (0x67452301, 0xefcdab89, 0x98badcfe, 0x10325476)
             (blocks16 (le_words (md5_pad bs))) of
        (a, b, c, d) \<Rightarrow> concat (map (\<lambda>w. le_bytes 4 (unat w)) [a, b, c, d]))"

text \<open>\<^verbatim>\<open>crypto.createHash('md5').update(s).digest('hex')\<close>\<close>

definition md5_hex :: "string \<Rightarrow> string" where
  "md5_hex s = hex_of_bytes (md5 (bytes_of s))"

subsection \<open>SHA-1\<close>

primrec sha1_sched :: "nat \<Rightarrow> 32 word list \<Rightarrow> 32 word list" where
  "sha1_sched 0 w = w"
| "sha1_sched (Suc n) w =
     sha1_sched n
       (w @ [rotl32 (w ! (length w - 3) XOR w ! (length w - 8) XOR w ! (length w - 14)
                       XOR w ! (length w - 16)) 1])"

definition sha1_f :: "nat \<Rightarrow> 32 word \<Rightarrow> 32 word \<Rightarrow> 32 word \<Rightarrow> 32 word" where
  "sha1_f t b c d =
     (if t < 20 then (b AND c) OR (NOT b AND d)
      else if t < 40 then b XOR c XOR d
      else if t < 60 then (b AND c) OR (b AND d) OR (c AND d)
      else b XOR c XOR d)"

definition sha1_k :: "nat \<Rightarrow> 32 word" where
  "sha1_k t =
     (if t < 20 then 0x5a827999
      else if t < 40 then 0x6ed9eba1
      else if t < 60 then 0x8f1bbcdc
      else 0xca62c1d6)"

type_synonym sha1_state = "32 word \<times> 32 word \<times> 32 word \<times> 32 word \<times> 32 word"

definition sha1_round :: "32 word list \<Rightarrow> sha1_state \<Rightarrow> nat \<Rightarrow> sha1_state" where
  "sha1_round w st t =
     (case st of (a, b, c, d, e) \<Rightarrow>
        (rotl32 a 5 + sha1_f t b c d + e + sha1_k t + w ! t, a, rotl32 b 30, c, d))"

definition sha1_block :: "sha1_state \<Rightarrow> 32 word list \<Rightarrow> sha1_state" where
  "sha1_block st m =
     (case st of (a0, b0, c0, d0, e0) \<Rightarrow>
        (case foldl (sha1_round (sha1_sched 64 m)) st [0..<80] of (a, b, c, d, e) \<Rightarrow>
           (a0 + a, b0 + b, c0 + c, d0 + d, e0 + e)))"

definition sha1_pad :: "bytes \<Rightarrow> bytes" where
  "sha1_pad bs =
     bs @ [128] @ replicate (pad_zeros (length bs)) 0 @ be_bytes 8 (8 * length bs)"

definition sha1 :: "bytes \<Rightarrow> bytes" where
  "sha1 bs =
     (case foldl sha1_block (0x67452301, 0xefcdab89, 0x98badcfe, 0x10325476, 0xc3d2e1f0)
             (blocks16 (be_words (sha1_pad bs))) of
        (a, b, c, d, e) \<Rightarrow> concat (map (\<lambda>w. be_bytes 4 (unat w)) [a, b, c, d, e]))"

text \<open>\<^verbatim>\<open>crypto.createHash('sha1').update(s).digest('hex')\<close>\<close>

definition sha1_hex :: "string \<Rightarrow> string" where
  "sha1_hex s = hex_of_bytes (sha1 (bytes_of s))"

section \<open>Base64 and percent-encoding\<close>

definition b64_char :: "nat \<Rightarrow> char" where
  "b64_char n =
     ''ABCDEFGHIJKLMNOPQRSTUVWXYZabcdefghijklmnopqrstuvwxyz0123456789+/'' ! (n mod 64)"

fun b64 :: "bytes \<Rightarrow> string" where
  "b64 (a # b # c # r) =
     [b64_char (a div 4), b64_char ((a mod 4) * 16 + b div 16),
      b64_char ((b mod 16) * 4 + c div 64), b64_char c] @ b64 r"
| "b64 [a, b] =
     [b64_char (a div 4), b64_char ((a mod 4) * 16 + b div 16), b64_char ((b mod 16) * 4),
      CHR ''='']"
| "b64 [a] = [b64_char (a div 4), b64_char ((a mod 4) * 16), CHR ''='', CHR ''='']"
| "b64 [] = []"

text \<open>\<^verbatim>\<open>Buffer.from(s).toString('base64')\<close>\<close>

definition base64 :: "string \<Rightarrow> string" where
  "base64 s = b64 (bytes_of s)"

text \<open>The characters that \<^verbatim>\<open>encodeURIComponent\<close> and \<^verbatim>\<open>querystring.escape\<close> leave alone:
  letters, digits and \<^verbatim>\<open>- _ . ! ~ * ' ( )\<close>.\<close>

definition unreserved :: "char \<Rightarrow> bool" where
  "unreserved c = (is_alnum c \<or> c \<in> set ''-_.!~*()'' \<or> c = CHR 0x27)"

definition percent_byte :: "nat \<Rightarrow> string" where
  "percent_byte b = CHR ''%'' # toUpperCase [hex_digit (b div 16), hex_digit b]"

text \<open>Any other character becomes the bytes of its UTF-8 encoding, each as \<^verbatim>\<open>%XX\<close>.\<close>

definition encodeURIComponent :: "string \<Rightarrow> string" where
  "encodeURIComponent s =
     concat (map (\<lambda>c. if unreserved c then [c] else concat (map percent_byte (utf8 c))) s)"

section \<open>Dates\<close>

text \<open>
  A \<^verbatim>\<open>Date\<close> is its time value: milliseconds since the epoch, or \<^verbatim>\<open>NaN\<close> (Invalid Date),
  here \<^const>\<open>None\<close>. The calendar arithmetic is the proleptic Gregorian calendar of
  ECMA-262 (days since 1970-01-01).
\<close>

type_synonym Date = "int option"

definition days_from_civil :: "int \<Rightarrow> int \<Rightarrow> int \<Rightarrow> int" where
  "days_from_civil y m d =
     (let y' = (if m \<le> 2 then y - 1 else y);
          era = y' div 400;
          yoe = y' - era * 400;
          doy = (153 * (if m > 2 then m - 3 else m + 9) + 2) div 5 + d - 1;
          doe = yoe * 365 + yoe div 4 - yoe div 100 + doy
      in era * 146097 + doe - 719468)"

definition day_of_era :: "int \<Rightarrow> int" where
  "day_of_era z = (z + 719468) mod 146097"

definition year_of_era :: "int \<Rightarrow> int" where
  "year_of_era doe = (doe - doe div 1460 + doe div 36524 - doe div 146096) div 365"

definition day_of_year :: "int \<Rightarrow> int" where
  "day_of_year doe =
     doe - (365 * year_of_era doe + year_of_era doe div 4 - year_of_era doe div 100)"

definition month_index :: "int \<Rightarrow> int" where
  "month_index doy = (5 * doy + 2) div 153"

definition civil_from_days :: "int \<Rightarrow> int \<times> int \<times> int" where
  "civil_from_days z =
     (let era = (z + 719468) div 146097;
          doe = day_of_era z;
          yoe = year_of_era doe;
          doy = day_of_year doe;
          mp = month_index doy;
          d = doy - (153 * mp + 2) div 5 + 1;
          m = (if mp < 10 then mp + 3 else mp - 9)
      in (if m \<le> 2 then yoe + era * 400 + 1 else yoe + era * 400, m, d))"

definition utc_year :: "int \<Rightarrow> int" where
  "utc_year t = fst (civil_from_days (t div 86400000))"

definition pad2 :: "int \<Rightarrow> string" where
  "pad2 n = padStart0 2 (dec_int n)"

definition year_string :: "int \<Rightarrow> string" where
  "year_string y =
     (if 0 \<le> y \<and> y \<le> 9999 then padStart0 4 (dec_int y)
      else (if y < 0 then CHR ''-'' else CHR ''+'') # padStart0 6 (dec_int \<bar>y\<bar>))"

text \<open>\<^verbatim>\<open>date.toISOString()\<close> of a valid date: \<^verbatim>\<open>YYYY-MM-DDTHH:mm:ss.sssZ\<close>, in UTC.\<close>

definition iso_string :: "int \<Rightarrow> string" where
  "iso_string t =
     (case civil_from_days (t div 86400000) of (y, m, d) \<Rightarrow>
        year_string y @ ''-'' @ pad2 m @ ''-'' @ pad2 d @ ''T''
        @ pad2 (t mod 86400000 div 3600000) @ '':''
        @ pad2 (t mod 3600000 div 60000) @ '':''
        @ pad2 (t mod 60000 div 1000) @ ''.''
        @ padStart0 3 (dec_int (t mod 1000)) @ ''Z'')"

text \<open>\<^verbatim>\<open>s.replace(/-|:|T/g, '')\<close>\<close>

definition strip_marks :: "string \<Rightarrow> string" where
  "strip_marks s = filter (\<lambda>c. c \<notin> set ''-:T'') s"

text \<open>\<^verbatim>\<open>s.slice(i, j)\<close> for \<open>0 \<le> i \<le> j\<close>.\<close>

definition slice :: "nat \<Rightarrow> nat \<Rightarrow> string \<Rightarrow> string" where
  "slice i j s = drop i (take j s)"

section \<open>Values, objects and errors\<close>

text \<open>The three kinds of exception the code can end with: an \<^verbatim>\<open>Error\<close> it throws itself, and
  the runtime's \<^verbatim>\<open>TypeError\<close> (a property read on \<^verbatim>\<open>undefined\<close> or \<^verbatim>\<open>null\<close>) and
  \<^verbatim>\<open>RangeError\<close> (an invalid date or time zone), each with its message.\<close>

datatype error = Error string | TypeError string | RangeError string

text \<open>
  A decoded reply: any JSON value, or \<^verbatim>\<open>undefined\<close>. \<open>Num n\<close> is an integral number
  below \<^verbatim>\<open>1e21\<close> in size, which \<^verbatim>\<open>String\<close> prints digit by digit; any other number (it is not
  zero) is \<open>Num_other s\<close>, given by what \<^verbatim>\<open>String\<close> prints for it (\<^verbatim>\<open>1.5\<close>, \<^verbatim>\<open>1e+21\<close>). An
  object is the list of its own properties, the keys distinct.
\<close>

datatype jsval =
    Undefined
  | Null
  | JBool bool
  | Num int
  | Num_other string
  | Str string
  | Arr "jsval list"
  | Obj "(string \<times> jsval) list"

fun truthy :: "jsval \<Rightarrow> bool" where
  "truthy Undefined = False"
| "truthy Null = False"
| "truthy (JBool b) = b"
| "truthy (Num n) = (n \<noteq> 0)"
| "truthy (Num_other s) = True"
| "truthy (Str s) = (s \<noteq> [])"
| "truthy (Arr xs) = True"
| "truthy (Obj kvs) = True"

text \<open>\<^verbatim>\<open>v.k\<close> for a value that is neither \<^verbatim>\<open>undefined\<close> nor \<^verbatim>\<open>null\<close>; of the properties the
  code reads (\<^verbatim>\<open>status\<close>, \<^verbatim>\<open>info\<close>, \<^verbatim>\<open>cardNo\<close>, \<^verbatim>\<open>data\<close>, ...) only an object can have one.\<close>

fun get_prop :: "jsval \<Rightarrow> string \<Rightarrow> jsval" where
  "get_prop (Obj kvs) k = (case map_of kvs k of Some v \<Rightarrow> v | None \<Rightarrow> Undefined)"
| "get_prop v k = Undefined"

text \<open>
  The conversion of a value to a string, as \<^verbatim>\<open>String(v)\<close>, \<^verbatim>\<open>new Error(v)\<close> and the comparison
  \<^verbatim>\<open>v != 'success'\<close> make it. An array prints its elements, joined with commas. An object
  prints as \<^verbatim>\<open>[object Object]\<close>, unless it has a property \<^verbatim>\<open>toString\<close> of its own: in a decoded
  reply that is never a function, and the conversion throws a \<^verbatim>\<open>TypeError\<close> (\<^const>\<open>None\<close>).
\<close>

fun js_string :: "jsval \<Rightarrow> string option" where
  "js_string Undefined = Some ''undefined''"
| "js_string Null = Some ''null''"
| "js_string (JBool b) = Some (if b then ''true'' else ''false'')"
| "js_string (Num n) = Some (dec_int n)"
| "js_string (Num_other s) = Some s"
| "js_string (Str s) = Some s"
| "js_string (Arr xs) =
     map_option (join '','')
       (those (map (\<lambda>x. if x = Undefined \<or> x = Null then Some [] else js_string x) xs))"
| "js_string (Obj kvs) =
     (if ''toString'' \<in> fst ` set kvs then None else Some ''[object Object]'')"

definition not_primitive :: error where
  "not_primitive = TypeError ''Cannot convert object to primitive value''"

text \<open>What \<^verbatim>\<open>throw new Error(v)\<close> ends with: the error, its message empty when \<open>v\<close> is
  \<^verbatim>\<open>undefined\<close>, or the \<^verbatim>\<open>TypeError\<close> of the conversion.\<close>

definition throw_Error :: "jsval \<Rightarrow> error" where
  "throw_Error v =
     (if v = Undefined then Error []
      else (case js_string v of Some s \<Rightarrow> Error s | None \<Rightarrow> not_primitive))"

fun message :: "error \<Rightarrow> string" where
  "message (Error m) = m"
| "message (TypeError m) = m"
| "message (RangeError m) = m"

text \<open>
  The payload of a request is an object whose values are strings and numbers. It is modelled
  as the list of its entries in insertion order (the order of \<^verbatim>\<open>Object.keys\<close> and
  \<^verbatim>\<open>Object.values\<close> for keys that are not array indices, as are all the field names here),
  the keys distinct. A number is integral and below \<^verbatim>\<open>1e21\<close> in size, where \<^verbatim>\<open>String\<close> prints
  every digit: such are the flags, types, counts and Unix times the operations send.
\<close>

datatype field = FStr string | FNum int

type_synonym fields = "(string \<times> field) list"

fun field_string :: "field \<Rightarrow> string" where
  "field_string (FStr s) = s"
| "field_string (FNum n) = dec_int n"

text \<open>\<^verbatim>\<open>data[k] = v\<close>: an existing key keeps its place, a new one goes last.\<close>

definition obj_set :: "fields \<Rightarrow> string \<Rightarrow> field \<Rightarrow> fields" where
  "obj_set d k v =
     (if k \<in> fst ` set d then map (\<lambda>e. if fst e = k then (k, v) else e) d else d @ [(k, v)])"

definition Object_keys :: "fields \<Rightarrow> string list" where
  "Object_keys d = map fst d"

definition Object_values :: "fields \<Rightarrow> field list" where
  "Object_values d = map snd d"

text \<open>
  \<^verbatim>\<open>Object.keys\<close> and \<^verbatim>\<open>Object.values\<close> list the keys that are array indices first (the
  decimal numerals below \<^verbatim>\<open>2^32 - 1\<close>, in ascending order) and then the other keys in insertion
  order. The list of the model is that order for an object none of whose keys is an array
  index.
\<close>

definition array_index :: "string \<Rightarrow> bool" where
  "array_index k =
     (k \<noteq> [] \<and> list_all is_digit k \<and> (k = ''0'' \<or> hd k \<noteq> CHR ''0'')
      \<and> number_of k < 4294967295)"

definition insertion_ordered :: "fields \<Rightarrow> bool" where
  "insertion_ordered d = (distinct (map fst d) \<and> \<not> list_ex array_index (map fst d))"

text \<open>\<^verbatim>\<open>`${data[key]}`\<close>\<close>

definition template_of :: "fields \<Rightarrow> string \<Rightarrow> string" where
  "template_of d k = (case map_of d k of Some v \<Rightarrow> field_string v | None \<Rightarrow> ''undefined'')"

text \<open>\<^verbatim>\<open>qs.stringify(data)\<close>: keys and values escaped, in the order of the object's keys.\<close>

definition qs_stringify :: "fields \<Rightarrow> string" where
  "qs_stringify d =
     join ''&''
       (map (\<lambda>e. encodeURIComponent (fst e) @ ''='' @ encodeURIComponent (field_string (snd e))) d)"

section \<open>The client and its environment\<close>

record UserConfig =
  cfg_accountSid :: string
  cfg_authToken :: string
  cfg_apiHost :: "string option"
  cfg_cardHost :: "string option"
  cfg_debug :: "bool option"

text \<open>The fields of the class. \<^verbatim>\<open>communityNo\<close> is declared without an initialiser, so it is
  \<^verbatim>\<open>undefined\<close> (\<^const>\<open>None\<close>) until it is assigned; a community number is an integer
  below \<^verbatim>\<open>1e21\<close> in size, of which \<^verbatim>\<open>toString()\<close> prints every digit.\<close>

record Uclbrt =
  accountSid :: string
  authToken :: string
  apiHost :: string
  cardHost :: string
  debug :: bool
  communityTimezone :: string
  communityNo :: "int option"
  localTimezone :: string
  publicKey :: string

datatype ContentType = Form_urlencoded | Application_json

text \<open>The \<^verbatim>\<open>data\<close> of the axios request: the object itself for JSON, its
  \<^verbatim>\<open>qs.stringify\<close> for a form.\<close>

datatype body = FormBody string | JsonBody fields

record request =
  url :: string
  headers :: "(string \<times> string) list"
  body :: body

text \<open>What \<^verbatim>\<open>await axios(config)\<close> does: it resolves to a response (status and decoded
  data), or rejects with an error that has a message and perhaps a response with data.\<close>

datatype reply = Response int jsval | Rejected "jsval option" string

text \<open>
  Everything outside the class that a call reads or changes:
  the clock (\<^verbatim>\<open>Date.now()\<close>, \<^verbatim>\<open>new Date()\<close>); the integer that
  \<^verbatim>\<open>Math.floor(Math.random() * 100000000)\<close> gives; the time zone of the process
  (\<open>utc_of_local\<close>: the instant of a local wall-clock time, both in milliseconds) and the
  zones that \<^verbatim>\<open>Intl\<close> knows (\<open>zone_wall\<close>: the wall-clock time of an instant in a named
  zone; \<^const>\<open>None\<close> for a name it rejects); what the engine's lenient date parser makes of a
  malformed time (\<open>irregular_time\<close>); \<^verbatim>\<open>crypto.publicEncrypt\<close> under a key (randomised
  padding, on the bytes of the text; \<^const>\<open>None\<close> when it throws); \<^verbatim>\<open>Number(s)\<close> for a string
  (\<open>string_number\<close>: the integer it denotes, \<^const>\<open>None\<close> when it denotes none);
  \<^verbatim>\<open>new URL(s).hostname\<close>; the file system; the remote server; and the requests sent so far.
\<close>

record world =
  now_ms :: int
  math_random :: nat
  utc_of_local :: "int \<Rightarrow> int"
  zone_wall :: "string \<Rightarrow> (int \<Rightarrow> int) option"
  irregular_time :: "string \<Rightarrow> string \<Rightarrow> error + string"
  public_encrypt :: "string \<Rightarrow> bytes \<Rightarrow> bytes option"
  string_number :: "string \<Rightarrow> int option"
  url_hostname :: "string \<Rightarrow> string option"
  system_timezone :: string
  cwd :: string
  read_file :: "string \<Rightarrow> string option"
  server :: "request \<Rightarrow> reply"
  sent :: "request list"

type_synonym 'a outcome = "(error + 'a) \<times> world"

text \<open>An exception before the next step leaves the world as it is; \<^verbatim>\<open>promise.then(f)\<close>
  applies \<open>f\<close> to a result.\<close>

definition attempt :: "error + 'a \<Rightarrow> world \<Rightarrow> ('a \<Rightarrow> 'b outcome) \<Rightarrow> 'b outcome" where
  "attempt r w k = (case r of Inl e \<Rightarrow> (Inl e, w) | Inr v \<Rightarrow> k v)"

definition andThen :: "'a outcome \<Rightarrow> ('a \<Rightarrow> error + 'b) \<Rightarrow> 'b outcome" where
  "andThen p f = (case fst p of Inl e \<Rightarrow> (Inl e, snd p) | Inr v \<Rightarrow> (f v, snd p))"

definition LIB_VERSION :: string where
  "LIB_VERSION = ''1.0.7''"

definition new_Uclbrt :: "world \<Rightarrow> UserConfig \<Rightarrow> error + Uclbrt" where
  "new_Uclbrt w config =
     (let merged_apiHost = (case cfg_apiHost config of Some h \<Rightarrow> h | None \<Rightarrow> ''https://api.uclbrt.com/'');
          merged_cardHost = (case cfg_cardHost config of Some h \<Rightarrow> h | None \<Rightarrow> ''http://cz.uclbrt.com/'');
          publicKeyPath = cwd w @ ''/node_modules/uclbrt-node/resources'' @ ''/public.pem''
      in if cfg_accountSid config = [] then Inl (Error ''accountSid cannot be empty.'')
         else if cfg_authToken config = [] then Inl (Error ''authToken cannot be empty.'')
         else (case url_hostname w merged_apiHost of
                 None \<Rightarrow> Inl (TypeError ''Invalid URL'')
               | Some h1 \<Rightarrow>
                   if h1 = [] then Inl (Error ''apiHost is not a valid domain.'')
                   else (case url_hostname w merged_cardHost of
                           None \<Rightarrow> Inl (TypeError ''Invalid URL'')
                         | Some h2 \<Rightarrow>
                             if h2 = [] then Inl (Error ''cardHost is not a valid domain.'')
                             else (case read_file w publicKeyPath of
                                     None \<Rightarrow>
                                       Inl (Error (''ENOENT: no such file or directory, open ''
                                                   @ [CHR 0x27] @ publicKeyPath @ [CHR 0x27]))
                                   | Some pem \<Rightarrow>
                                       Inr \<lparr>accountSid = cfg_accountSid config,
                                            authToken = cfg_authToken config,
                                            apiHost = merged_apiHost,
                                            cardHost = merged_cardHost,
                                            debug = (case cfg_debug config of Some b \<Rightarrow> b | None \<Rightarrow> False),
                                            communityTimezone = ''Asia/Shanghai'',
                                            communityNo = None,
                                            localTimezone = system_timezone w,
                                            publicKey = pem\<rparr>))))"

definition objectToQuery :: "fields \<Rightarrow> string" where
  "objectToQuery data =
     (let keys = sort (Object_keys data);
          sortedData = map (\<lambda>key. key @ ''='' @ template_of data key) keys
      in join ''&'' sortedData)"

definition getSig :: "Uclbrt \<Rightarrow> string \<Rightarrow> string" where
  "getSig c batch = toUpperCase (md5_hex (accountSid c @ authToken c @ batch))"

definition getSig2 :: "Uclbrt \<Rightarrow> fields \<Rightarrow> string" where
  "getSig2 c data =
     (let imploded = concat (map field_string (Object_values data))
      in md5_hex (imploded @ authToken c))"

text \<open>\<^verbatim>\<open>getSig3\<close> assigns to its argument: the caller's object is the second component.\<close>

definition getSig3 :: "Uclbrt \<Rightarrow> fields \<Rightarrow> string \<times> fields" where
  "getSig3 c data =
     (let data' = obj_set data ''authToken'' (FStr (authToken c));
          query = objectToQuery data'
      in (sha1_hex query, data'))"

definition getAuth :: "Uclbrt \<Rightarrow> string \<Rightarrow> string" where
  "getAuth c batch = base64 (accountSid c @ '':'' @ batch)"

text \<open>\<^const>\<open>None\<close> when \<^verbatim>\<open>crypto.createPublicKey\<close> or \<^verbatim>\<open>crypto.publicEncrypt\<close> throws.\<close>

definition publicEncrypt :: "world \<Rightarrow> Uclbrt \<Rightarrow> string \<Rightarrow> string option" where
  "publicEncrypt w c data = map_option b64 (public_encrypt w (publicKey c) (bytes_of data))"

subsection \<open>Time conversion\<close>

text \<open>A compact time \<^verbatim>\<open>YYMMDDHHmm\<close>, or the empty string for none.\<close>

type_synonym timeString = string

definition line_terminator :: "char \<Rightarrow> bool" where
  "line_terminator c = (c = CHR 0x0A \<or> c = CHR 0x0D)"

text \<open>\<^verbatim>\<open>timeStr.match(/.{2}/g)\<close>: the successive pairs of characters, from left to right;
  a dot does not match a line terminator, and a last odd character is left over. No match
  (\<^verbatim>\<open>null\<close>) is the empty list.\<close>

fun match_pairs :: "string \<Rightarrow> string list" where
  "match_pairs (a # b # r) =
     (if line_terminator a \<or> line_terminator b then match_pairs (b # r)
      else [a, b] # match_pairs r)"
| "match_pairs r = []"

definition days_in_month :: "int \<Rightarrow> int \<Rightarrow> int" where
  "days_in_month y m =
     (if m = 2 then (if y mod 4 = 0 \<and> (y mod 100 \<noteq> 0 \<or> y mod 400 = 0) then 29 else 28)
      else if m = 4 \<or> m = 6 \<or> m = 9 \<or> m = 11 then 30
      else 31)"

definition civil_ms :: "int \<Rightarrow> int \<Rightarrow> int \<Rightarrow> int \<Rightarrow> int \<Rightarrow> int \<Rightarrow> int" where
  "civil_ms y mo d h mi sec =
     ((days_from_civil y mo d * 24 + h) * 60 + mi) * 60000 + sec * 1000"

text \<open>
  \<^verbatim>\<open>new Date(s)\<close> for a string \<^verbatim>\<open>YYYY-MM-DD HH:mm:ss\<close> of digits that name a calendar date
  and a time of day: that wall-clock time in the zone of the process. Any other string is left
  to the engine's lenient parser (\<^const>\<open>None\<close> here).
\<close>

definition local_date :: "world \<Rightarrow> string \<Rightarrow> int option" where
  "local_date w s =
     (let y = number_of (slice 0 4 s); mo = number_of (slice 5 7 s);
          d = number_of (slice 8 10 s); h = number_of (slice 11 13 s);
          mi = number_of (slice 14 16 s); sec = number_of (slice 17 19 s)
      in if length s = 19
            \<and> slice 4 5 s = ''-'' \<and> slice 7 8 s = ''-'' \<and> slice 10 11 s = '' ''
            \<and> slice 13 14 s = '':'' \<and> slice 16 17 s = '':''
            \<and> list_all is_digit
                 (slice 0 4 s @ slice 5 7 s @ slice 8 10 s @ slice 11 13 s @ slice 14 16 s
                  @ slice 17 19 s)
            \<and> 1 \<le> mo \<and> mo \<le> 12 \<and> 1 \<le> d \<and> d \<le> days_in_month y mo
            \<and> h \<le> 23 \<and> mi \<le> 59 \<and> sec \<le> 59
         then Some (utc_of_local w (civil_ms y mo d h mi sec))
         else None)"

text \<open>
  \<^verbatim>\<open>new Date(dt.toLocaleString('en-US', {timeZone: tz}))\<close> for a valid date: the wall-clock
  time of \<open>dt\<close> in the zone \<open>tz\<close>, to the second, read again as a wall-clock time in
  the zone of the process. An unknown zone is a \<^verbatim>\<open>RangeError\<close>.
\<close>

definition reparse_in_zone :: "world \<Rightarrow> string \<Rightarrow> int \<Rightarrow> error + int" where
  "reparse_in_zone w tz dt =
     (case zone_wall w tz of
        None \<Rightarrow> Inl (RangeError (''Invalid time zone specified: '' @ tz))
      | Some wall \<Rightarrow> Inr (utc_of_local w (wall dt - wall dt mod 1000)))"

definition toCommunityTime :: "world \<Rightarrow> Uclbrt \<Rightarrow> timeString \<Rightarrow> error + timeString" where
  "toCommunityTime w c timeStr =
     (if timeStr = [] then Inr []
      else if communityTimezone c = localTimezone c then Inr timeStr
      else
        let t = match_pairs timeStr in
        if t = [] \<or> length t \<noteq> 5 then Inl (Error ''time format error.'')
        else
          let s = ''20'' @ t ! 0 @ ''-'' @ t ! 1 @ ''-'' @ t ! 2 @ '' '' @ t ! 3 @ '':'' @ t ! 4
                  @ '':00''
          in (case local_date w s of
                None \<Rightarrow> irregular_time w (communityTimezone c) s
              | Some dt \<Rightarrow>
                  (case reparse_in_zone w (communityTimezone c) dt of
                     Inl e \<Rightarrow> Inl e
                   | Inr dt2 \<Rightarrow> Inr (slice 2 12 (strip_marks (iso_string dt2))))))"

subsection \<open>Preconditions and the transport\<close>

definition checkCommunityNo :: "Uclbrt \<Rightarrow> error + unit" where
  "checkCommunityNo c =
     (if communityNo c = None \<or> communityNo c = Some 0
      then Inl (Error ''communityNo cannot be empty.'')
      else Inr ())"

text \<open>\<^verbatim>\<open>this.communityNo.toString()\<close>: a \<^verbatim>\<open>TypeError\<close> when the field is \<^verbatim>\<open>undefined\<close>.\<close>

definition communityNo_toString :: "Uclbrt \<Rightarrow> error + string" where
  "communityNo_toString c =
     (case communityNo c of
        None \<Rightarrow> Inl (TypeError ''Cannot read properties of undefined (reading 'toString')'')
      | Some n \<Rightarrow> Inr (dec_int n))"

definition content_type :: "ContentType \<Rightarrow> string" where
  "content_type ct =
     (case ct of
        Form_urlencoded \<Rightarrow> ''application/x-www-form-urlencoded''
      | Application_json \<Rightarrow> ''application/json'')"

text \<open>
  The request goes out with the headers and the body of the content type. axios answers with
  a response, or rejects with an error that may carry the data of a response. Whatever is
  thrown inside the \<^verbatim>\<open>try\<close> block (the errors of the two checks, or a \<^verbatim>\<open>TypeError\<close> while one of
  them is built) is caught, a rejection as well, and thrown again as
  \<^verbatim>\<open>new Error(error.response?.data || error.message)\<close>
\<close>

definition caught :: "error \<Rightarrow> error" where
  "caught e = Error (message e)"

definition curlPost ::
  "world \<Rightarrow> string \<Rightarrow> string \<Rightarrow> fields \<Rightarrow> ContentType \<Rightarrow> jsval outcome" where
  "curlPost w url' auth data contentType =
     (let headers' =
            [(''Accept'', ''application/json''),
             (''Content-Type'', content_type contentType),
             (''User-Agent'', ''uclbrt-nodejs/'' @ LIB_VERSION)]
            @ (if auth \<noteq> [] then [(''Authorization'', auth)] else []);
          config =
            \<lparr>url = url', headers = headers',
             body = (case contentType of
                       Application_json \<Rightarrow> JsonBody data
                     | Form_urlencoded \<Rightarrow> FormBody (qs_stringify data))\<rparr>;
          w' = w\<lparr>sent := sent w @ [config]\<rparr>
      in (case server w config of
            Rejected response_data msg \<Rightarrow>
              (Inl (case response_data of
                      Some v \<Rightarrow> if truthy v then throw_Error v else Error msg
                    | None \<Rightarrow> Error msg), w')
          | Response status result \<Rightarrow>
              if status \<noteq> 200 then (Inl (caught (throw_Error result)), w')
              else if \<not> truthy result \<or> get_prop result ''status'' \<noteq> Num 200 then
                (if result = Undefined then
                   (Inl (caught (TypeError
                       ''Cannot read properties of undefined (reading 'info')'')), w')
                 else if result = Null then
                   (Inl (caught (TypeError
                       ''Cannot read properties of null (reading 'info')'')), w')
                 else (Inl (caught (throw_Error (get_prop result ''info''))), w'))
              else (Inr result, w')))"

definition setCommunityNo :: "Uclbrt \<Rightarrow> int \<Rightarrow> error + Uclbrt" where
  "setCommunityNo c n =
     (if n = 0 then Inl (Error ''communityNo cannot be empty.'')
      else Inr (c\<lparr>communityNo := Some n\<rparr>))"

definition setCommunityTimezone :: "Uclbrt \<Rightarrow> string \<Rightarrow> error + Uclbrt" where
  "setCommunityTimezone c tz =
     (if tz = [] then Inl (Error ''communityTimezone cannot be empty.'')
      else Inr (c\<lparr>communityTimezone := tz\<rparr>))"

definition setLocalTimezone :: "Uclbrt \<Rightarrow> string \<Rightarrow> error + Uclbrt" where
  "setLocalTimezone c tz =
     (if tz = [] then Inl (Error ''localTimezone cannot be empty.'')
      else Inr (c\<lparr>localTimezone := tz\<rparr>))"

text \<open>\<^verbatim>\<open>new Date().toISOString().replace(/-|:|T/g, '').slice(0, 14)\<close>\<close>

definition batch_now :: "world \<Rightarrow> string" where
  "batch_now w = slice 0 14 (strip_marks (iso_string (now_ms w)))"

section \<open>Operations\<close>

text \<open>Each method takes the world and the client and gives its result, or the exception it
  ends with, and the world after it. Optional parameters are written out; the wrappers pass the
  defaults of the source.\<close>

definition expect_cardNo :: "jsval \<Rightarrow> error + jsval" where
  "expect_cardNo result =
     (if \<not> truthy (get_prop result ''cardNo'')
      then Inl (Error ''the cardNo is not found in the return result of the server.'')
      else Inr (get_prop result ''cardNo''))"

text \<open>
  \<^verbatim>\<open>v == s\<close> for a string \<open>s\<close> that denotes no number, as \<^verbatim>\<open>'success'\<close>: true for the string
  itself and for an array or object that prints as it; the conversion of an array or object may
  throw (\<^const>\<open>None\<close>).
\<close>

definition loose_eq_string :: "jsval \<Rightarrow> string \<Rightarrow> bool option" where
  "loose_eq_string v s =
     (case v of
        Str x \<Rightarrow> Some (x = s)
      | Arr xs \<Rightarrow> map_option (\<lambda>x. x = s) (js_string (Arr xs))
      | Obj kvs \<Rightarrow> map_option (\<lambda>x. x = s) (js_string (Obj kvs))
      | _ \<Rightarrow> Some False)"

definition create ::
  "world \<Rightarrow> Uclbrt \<Rightarrow> string \<Rightarrow> string \<Rightarrow> string \<Rightarrow> string \<Rightarrow> string \<Rightarrow> timeString \<Rightarrow> timeString
   \<Rightarrow> int \<Rightarrow> int \<Rightarrow> int \<Rightarrow> int \<Rightarrow> jsval outcome" where
  "create w c mobile areaCode roomNo floorNo buildNo startTime endTime sendSms cardType times'
     opentype =
     attempt (checkCommunityNo c) w (\<lambda>_.
       let batch = batch_now w;
           sig = getSig c batch;
           url' = apiHost c @ ''?c=Qrcode&a=getLink&sig='' @ sig;
           auth = getAuth c batch
       in attempt (communityNo_toString c) w (\<lambda>no.
          attempt (toCommunityTime w c startTime) w (\<lambda>startTime'.
          attempt (toCommunityTime w c endTime) w (\<lambda>endTime'.
            andThen
              (curlPost w url' auth
                 [(''mobile'', FStr mobile), (''areaCode'', FStr areaCode),
                  (''roomNo'', FStr roomNo), (''floorNo'', FStr floorNo),
                  (''buildNo'', FStr buildNo), (''communityNo'', FStr no),
                  (''startTime'', FStr startTime'), (''endTime'', FStr endTime'),
                  (''sendSms'', FNum sendSms), (''cardType'', FNum cardType),
                  (''times'', FNum times'), (''opentype'', FNum opentype)]
                 Application_json)
              expect_cardNo))))"

definition createRoomKey ::
  "world \<Rightarrow> Uclbrt \<Rightarrow> string \<Rightarrow> string \<Rightarrow> string \<Rightarrow> string \<Rightarrow> string \<Rightarrow> timeString \<Rightarrow> timeString
   \<Rightarrow> int \<Rightarrow> int \<Rightarrow> jsval outcome" where
  "createRoomKey w c mobile areaCode roomNo floorNo buildNo startTime endTime sendSms times' =
     create w c mobile areaCode roomNo floorNo buildNo startTime endTime sendSms 0 times' 0"

definition createFloorKey ::
  "world \<Rightarrow> Uclbrt \<Rightarrow> string \<Rightarrow> string \<Rightarrow> string \<Rightarrow> string \<Rightarrow> timeString \<Rightarrow> timeString \<Rightarrow> int
   \<Rightarrow> jsval outcome" where
  "createFloorKey w c mobile areaCode floorNo buildNo startTime endTime sendSms =
     create w c mobile areaCode [] floorNo buildNo startTime endTime sendSms 1 0 0"

definition createBuildingKey ::
  "world \<Rightarrow> Uclbrt \<Rightarrow> string \<Rightarrow> string \<Rightarrow> string \<Rightarrow> timeString \<Rightarrow> timeString \<Rightarrow> int
   \<Rightarrow> jsval outcome" where
  "createBuildingKey w c mobile areaCode buildNo startTime endTime sendSms =
     create w c mobile areaCode [] [] buildNo startTime endTime sendSms 2 0 0"

definition createRoomLostKey ::
  "world \<Rightarrow> Uclbrt \<Rightarrow> string \<Rightarrow> string \<Rightarrow> string \<Rightarrow> string \<Rightarrow> string \<Rightarrow> timeString \<Rightarrow> timeString
   \<Rightarrow> jsval outcome" where
  "createRoomLostKey w c mobile areaCode roomNo floorNo buildNo startTime endTime =
     attempt (checkCommunityNo c) w (\<lambda>_.
       let batch = batch_now w;
           sig = getSig c batch;
           url' = apiHost c @ ''?c=Qrcode&a=getLink&sig='' @ sig;
           auth = getAuth c batch
       in attempt (communityNo_toString c) w (\<lambda>no.
          attempt (toCommunityTime w c startTime) w (\<lambda>startTime'.
          attempt (toCommunityTime w c endTime) w (\<lambda>endTime'.
            andThen
              (curlPost w url' auth
                 [(''mobile'', FStr mobile), (''areaCode'', FStr areaCode),
                  (''roomNo'', FStr roomNo), (''floorNo'', FStr floorNo),
                  (''buildNo'', FStr buildNo), (''communityNo'', FStr no),
                  (''startTime'', FStr startTime'), (''endTime'', FStr endTime'),
                  (''cardType'', FNum 0), (''times'', FNum 0), (''isLost'', FNum 1)]
                 Application_json)
              expect_cardNo))))"

text \<open>\<^verbatim>\<open>s.slice(0, -2) + '00'\<close>\<close>

definition to_hour :: "string \<Rightarrow> string" where
  "to_hour s = take (length s - 2) s @ ''00''"

definition generateQRPRoomCipher ::
  "world \<Rightarrow> Uclbrt \<Rightarrow> string \<Rightarrow> string \<Rightarrow> string \<Rightarrow> string \<Rightarrow> string \<Rightarrow> timeString \<Rightarrow> timeString
   \<Rightarrow> int \<Rightarrow> jsval outcome" where
  "generateQRPRoomCipher w c mobile areaCode roomNo floorNo buildNo startTime endTime cipherType =
     attempt (checkCommunityNo c) w (\<lambda>_.
       let batch = batch_now w;
           sig = getSig c batch;
           url' = apiHost c @ ''?c=Qrcode&a=getLink&sig='' @ sig;
           auth = getAuth c batch
       in attempt (toCommunityTime w c startTime) w (\<lambda>startTimeFull.
          attempt (toCommunityTime w c endTime) w (\<lambda>endTimeFull.
          attempt (communityNo_toString c) w (\<lambda>no.
            andThen
              (curlPost w url' auth
                 [(''mobile'', FStr mobile), (''areaCode'', FStr areaCode),
                  (''roomNo'', FStr roomNo), (''floorNo'', FStr floorNo),
                  (''buildNo'', FStr buildNo), (''communityNo'', FStr no),
                  (''startTime'', FStr (to_hour startTimeFull)),
                  (''endTime'', FStr (to_hour endTimeFull)),
                  (''cipherType'', FNum cipherType)]
                 Application_json)
              expect_cardNo))))"

text \<open>
  \<^verbatim>\<open>v == n\<close> for an integer \<open>n\<close> below \<^verbatim>\<open>1e21\<close> in size, as \<^verbatim>\<open>200\<close>: a boolean counts as 0 or 1,
  a string as the number it denotes, an array or object as the string it prints as.
\<close>

definition loose_eq_number :: "world \<Rightarrow> jsval \<Rightarrow> int \<Rightarrow> bool option" where
  "loose_eq_number w v n =
     (case v of
        Num m \<Rightarrow> Some (m = n)
      | JBool b \<Rightarrow> Some ((if b then 1 else 0) = n)
      | Str x \<Rightarrow> Some (string_number w x = Some n)
      | Arr xs \<Rightarrow> map_option (\<lambda>x. string_number w x = Some n) (js_string (Arr xs))
      | Obj kvs \<Rightarrow> map_option (\<lambda>x. string_number w x = Some n) (js_string (Obj kvs))
      | _ \<Rightarrow> Some False)"

definition reportCardLost :: "world \<Rightarrow> Uclbrt \<Rightarrow> string \<Rightarrow> bool \<Rightarrow> jsval outcome" where
  "reportCardLost w c cardNo wholeRoom =
     attempt (checkCommunityNo c) w (\<lambda>_.
       let batch = batch_now w;
           sig = getSig c batch;
           url' = apiHost c @ ''?c=Qrcode&a=reportLost&sig='' @ sig;
           auth = getAuth c batch
       in andThen
            (curlPost w url' auth
               [(''cardNo'', FStr cardNo), (''wholeRoom'', FNum (if wholeRoom then 1 else 0))]
               Application_json)
            (\<lambda>result.
               if \<not> truthy (get_prop result ''status'')
               then Inl (throw_Error (get_prop result ''info''))
               else (case loose_eq_number w (get_prop result ''status'') 200 of
                       None \<Rightarrow> Inl not_primitive
                     | Some False \<Rightarrow> Inl (throw_Error (get_prop result ''info''))
                     | Some True \<Rightarrow> Inr (JBool True))))"

definition getLink ::
  "world \<Rightarrow> Uclbrt \<Rightarrow> string \<Rightarrow> string \<Rightarrow> string \<Rightarrow> int \<Rightarrow> string outcome" where
  "getLink w c mobile areaCode cardNo cardType =
     (if mobile = [] then (Inl (Error ''mobile cannot be empty.''), w)
      else
        attempt (checkCommunityNo c) w (\<lambda>_.
        attempt (communityNo_toString c) w (\<lambda>no.
          let data =
                [(''id'', FStr (accountSid c)), (''token'', FStr (authToken c)),
                 (''communityNo'', FStr no), (''time'', FNum (now_ms w div 1000)),
                 (''mobile'', FStr mobile), (''areaCode'', FStr areaCode),
                 (''cardNo'', FStr cardNo), (''cardType'', FNum cardType)];
              query = objectToQuery data
          in (case publicEncrypt w c query of
                None \<Rightarrow> (Inl (Error ''failed to generate link.''), w)
              | Some encrypted \<Rightarrow>
                  (Inr (cardHost c @ ''apiLogin/?data='' @ encodeURIComponent encrypted), w)))))"

definition getRoomKeyLink :: "world \<Rightarrow> Uclbrt \<Rightarrow> string \<Rightarrow> string \<Rightarrow> string \<Rightarrow> string outcome" where
  "getRoomKeyLink w c mobile areaCode cardNo = getLink w c mobile areaCode cardNo 0"

definition getFloorKeyLink :: "world \<Rightarrow> Uclbrt \<Rightarrow> string \<Rightarrow> string \<Rightarrow> string \<Rightarrow> string outcome" where
  "getFloorKeyLink w c mobile areaCode cardNo = getLink w c mobile areaCode cardNo 1"

definition getBuildingKeyLink ::
  "world \<Rightarrow> Uclbrt \<Rightarrow> string \<Rightarrow> string \<Rightarrow> string \<Rightarrow> string outcome" where
  "getBuildingKeyLink w c mobile areaCode cardNo = getLink w c mobile areaCode cardNo 2"

definition getShare ::
  "world \<Rightarrow> Uclbrt \<Rightarrow> string \<Rightarrow> string \<Rightarrow> string \<Rightarrow> int \<Rightarrow> timeString \<Rightarrow> int \<Rightarrow> int
   \<Rightarrow> jsval outcome" where
  "getShare w c mobile areaCode roomFlag cardType openEndTime lockType resultType =
     attempt (checkCommunityNo c) w (\<lambda>_.
       let batch = batch_now w;
           sig = getSig c batch;
           url' = apiHost c @ ''?c=Qrcode&a=getCard&sig='' @ sig;
           auth = getAuth c batch
       in attempt (communityNo_toString c) w (\<lambda>no.
          attempt (toCommunityTime w c openEndTime) w (\<lambda>openEndTime'.
            curlPost w url' auth
              [(''mobile'', FStr mobile), (''areaCode'', FStr areaCode),
               (''communityNo'', FStr no), (''roomFlag'', FStr roomFlag),
               (''cardType'', FNum cardType), (''lockType'', FNum lockType),
               (''resultType'', FNum resultType), (''openEndTime'', FStr openEndTime')]
              Application_json)))"







text \<open>\<^verbatim>\<open>if (!result.info || result.info != 'success') throw ...; return v\<close>\<close>

definition expect_success :: "jsval \<Rightarrow> jsval \<Rightarrow> error + jsval" where
  "expect_success v result =
     (if \<not> truthy (get_prop result ''info'')
      then Inl (Error ''server returns an unexpected value.'')
      else (case loose_eq_string (get_prop result ''info'') ''success'' of
              None \<Rightarrow> Inl not_primitive
            | Some False \<Rightarrow> Inl (Error ''server returns an unexpected value.'')
            | Some True \<Rightarrow> Inr v))"

definition cancel :: "world \<Rightarrow> Uclbrt \<Rightarrow> string \<Rightarrow> int \<Rightarrow> jsval outcome" where
  "cancel w c cardNo cardType =
     attempt (checkCommunityNo c) w (\<lambda>_.
       let batch = batch_now w;
           sig = getSig c batch;
           url' = apiHost c @ ''?c=Qrcode&a=cancelCard&sig='' @ sig;
           auth = getAuth c batch
       in andThen
            (curlPost w url' auth [(''cardNo'', FStr cardNo), (''cardType'', FNum cardType)]
               Application_json)
            (expect_success (JBool True)))"




text \<open>A run of assignments \<^verbatim>\<open>data[k] = v\<close>, in order.\<close>

definition assign :: "fields \<Rightarrow> (string \<times> field) list \<Rightarrow> fields" where
  "assign data kvs = foldl (\<lambda>d kv. obj_set d (fst kv) (snd kv)) data kvs"

definition expect_data :: "jsval \<Rightarrow> error + jsval" where
  "expect_data result =
     (if \<not> truthy (get_prop result ''data'') then Inl (Error ''server returns an unexpected value.'')
      else Inr (get_prop result ''data''))"

definition getMacList :: "world \<Rightarrow> Uclbrt \<Rightarrow> jsval outcome" where
  "getMacList w c =
     attempt (checkCommunityNo c) w (\<lambda>_.
       let url' = apiHost c @ ''Home/Qrm/getMacList'' in
       attempt (communityNo_toString c) w (\<lambda>no.
         let data = [(''accountSid'', FStr (accountSid c)), (''communityNo'', FStr no)];
             data' = assign data [(''sig'', FStr (getSig2 c data))]
         in andThen (curlPost w url' [] data' Form_urlencoded) expect_data))"

definition makeCard ::
  "world \<Rightarrow> Uclbrt \<Rightarrow> string \<Rightarrow> string \<Rightarrow> string \<Rightarrow> string \<Rightarrow> timeString \<Rightarrow> string \<Rightarrow> string
   \<Rightarrow> string \<Rightarrow> string \<Rightarrow> int \<Rightarrow> int \<Rightarrow> string \<Rightarrow> string \<Rightarrow> string \<Rightarrow> jsval outcome" where
  "makeCard w c issueMac buildNo floorNo roomNo endTime creatorAreaCode creatorMobile
     creatorPassword owner opentype ownerGender ownerAreaCode ownerMobile creatorEmail =
     attempt (checkCommunityNo c) w (\<lambda>_.
       let url' = apiHost c @ ''Home/Qrm/makeRoomCard'' in
       attempt (toCommunityTime w c endTime) w (\<lambda>endTime'.
       attempt (communityNo_toString c) w (\<lambda>no.
         let data =
               [(''issueMac'', FStr issueMac), (''endTime'', FStr endTime'),
                (''accountSid'', FStr (accountSid c)), (''communityNo'', FStr no),
                (''buildNo'', FStr buildNo), (''floorNo'', FStr floorNo),
                (''roomNo'', FStr roomNo)];
             data' =
               assign data
                 [(''sig'', FStr (getSig2 c data)),
                  (''owner'', FStr owner),
                  (''creatorAreaCode'', FStr creatorAreaCode),
                  (''creatorMobile'', FStr creatorMobile),
                  (''creatorPassword'', FStr (md5_hex creatorPassword)),
                  (''opentype'', FNum opentype),
                  (''ownerGender'', FNum ownerGender),
                  (''ownerAreaCode'', FStr ownerAreaCode),
                  (''ownerMobile'', FStr ownerMobile),
                  (''creatorEmail'', FStr creatorEmail)]
         in andThen (curlPost w url' [] data' Form_urlencoded) (expect_success (JBool True)))))"

definition makeLostCard ::
  "world \<Rightarrow> Uclbrt \<Rightarrow> string \<Rightarrow> string \<Rightarrow> string \<Rightarrow> string \<Rightarrow> timeString \<Rightarrow> string \<Rightarrow> string
   \<Rightarrow> string \<Rightarrow> string \<Rightarrow> int \<Rightarrow> int \<Rightarrow> string \<Rightarrow> string \<Rightarrow> string \<Rightarrow> jsval outcome" where
  "makeLostCard w c issueMac buildNo floorNo roomNo endTime creatorAreaCode creatorMobile
     creatorPassword owner opentype ownerGender ownerAreaCode ownerMobile creatorEmail =
     attempt (checkCommunityNo c) w (\<lambda>_.
       let url' = apiHost c @ ''Home/Qrm/makeRoomCard'' in
       attempt (toCommunityTime w c endTime) w (\<lambda>endTime'.
       attempt (communityNo_toString c) w (\<lambda>no.
         let data =
               [(''issueMac'', FStr issueMac), (''endTime'', FStr endTime'),
                (''accountSid'', FStr (accountSid c)), (''communityNo'', FStr no),
                (''buildNo'', FStr buildNo), (''floorNo'', FStr floorNo),
                (''roomNo'', FStr roomNo)];
             data' =
               assign data
                 [(''sig'', FStr (getSig2 c data)),
                  (''owner'', FStr owner),
                  (''creatorAreaCode'', FStr creatorAreaCode),
                  (''creatorMobile'', FStr creatorMobile),
                  (''creatorPassword'', FStr (md5_hex creatorPassword)),
                  (''opentype'', FNum opentype),
                  (''ownerGender'', FNum ownerGender),
                  (''ownerAreaCode'', FStr ownerAreaCode),
                  (''ownerMobile'', FStr ownerMobile),
                  (''creatorEmail'', FStr creatorEmail),
                  (''isLost'', FStr creatorEmail)]
         in andThen (curlPost w url' [] data' Form_urlencoded) (expect_success (JBool True)))))"

definition readCard ::
  "world \<Rightarrow> Uclbrt \<Rightarrow> string \<Rightarrow> string \<Rightarrow> string \<Rightarrow> string \<Rightarrow> int \<Rightarrow> string \<Rightarrow> jsval outcome" where
  "readCard w c issueMac creatorAreaCode creatorMobile creatorPassword operateCardType
     creatorEmail =
     attempt (checkCommunityNo c) w (\<lambda>_.
       let url' = apiHost c @ ''Home/Qrm/readCard'' in
       attempt (communityNo_toString c) w (\<lambda>no.
         let data =
               [(''accountSid'', FStr (accountSid c)), (''communityNo'', FStr no),
                (''issueMac'', FStr issueMac), (''creatorAreaCode'', FStr creatorAreaCode),
                (''creatorMobile'', FStr creatorMobile),
                (''creatorPassword'', FStr (md5_hex creatorPassword))];
             data' =
               assign data
                 [(''sig'', FStr (getSig2 c data)),
                  (''operateCardType'', FNum operateCardType),
                  (''creatorEmail'', FStr creatorEmail)]
         in andThen (curlPost w url' [] data' Form_urlencoded)
              (\<lambda>result. expect_success result result)))"

definition cancelCard ::
  "world \<Rightarrow> Uclbrt \<Rightarrow> string \<Rightarrow> string \<Rightarrow> string \<Rightarrow> string \<Rightarrow> string \<Rightarrow> int \<Rightarrow> string
   \<Rightarrow> jsval outcome" where
  "cancelCard w c issueMac serialNum creatorAreaCode creatorMobile creatorPassword
     operateCardType creatorEmail =
     attempt (checkCommunityNo c) w (\<lambda>_.
       let url' = apiHost c @ ''Home/Qrm/cancelCard'' in
       attempt (communityNo_toString c) w (\<lambda>no.
         let data =
               [(''accountSid'', FStr (accountSid c)), (''communityNo'', FStr no),
                (''issueMac'', FStr issueMac), (''serialNum'', FStr serialNum),
                (''creatorAreaCode'', FStr creatorAreaCode),
                (''creatorMobile'', FStr creatorMobile),
                (''creatorPassword'', FStr (md5_hex creatorPassword))];
             data' =
               assign data
                 [(''sig'', FStr (getSig2 c data)),
                  (''operateCardType'', FNum operateCardType),
                  (''creatorEmail'', FStr creatorEmail)]
         in andThen (curlPost w url' [] data' Form_urlencoded)
              (\<lambda>result. expect_success result result)))"

definition getRoomCardInfo :: "world \<Rightarrow> Uclbrt \<Rightarrow> string \<Rightarrow> jsval outcome" where
  "getRoomCardInfo w c cardString =
     (let batch = batch_now w;
          sig = getSig c batch;
          url' = apiHost c @ ''?c=Qrcode&a=getRoomCardInfo&sig='' @ sig;
          auth = getAuth c batch
      in attempt (communityNo_toString c) w (\<lambda>no.
           andThen
             (curlPost w url' auth [(''communityNo'', FStr no), (''cardString'', FStr cardString)]
                Application_json)
             (\<lambda>result. expect_success (get_prop result ''data'') result)))"

definition getRecordsByRoom ::
  "world \<Rightarrow> Uclbrt \<Rightarrow> string \<Rightarrow> string \<Rightarrow> string \<Rightarrow> string \<Rightarrow> string \<Rightarrow> int \<Rightarrow> int
   \<Rightarrow> jsval outcome" where
  "getRecordsByRoom w c buildNo floorNo roomNo startDate endDate recordType holderFrom =
     attempt (communityNo_toString c) w (\<lambda>no.
       let data =
             [(''accountSid'', FStr (accountSid c)),
              (''timestamp'', FNum (now_ms w div 1000)),
              (''rand'', FNum (int (math_random w))),
              (''communityNo'', FStr no),
              (''buildNo'', FStr buildNo), (''floorNo'', FStr floorNo),
              (''roomNo'', FStr roomNo), (''startDate'', FStr startDate),
              (''endDate'', FStr endDate), (''recordType'', FNum recordType),
              (''holderFrom'', FNum holderFrom)];
           signed = getSig3 c data;
           url' = apiHost c @ ''Home/Records/queryByRoom?sig='' @ fst signed
       in andThen (curlPost w url' [] (snd signed) Form_urlencoded) expect_data)"

definition fetchRoomInfo :: "world \<Rightarrow> Uclbrt \<Rightarrow> jsval outcome" where
  "fetchRoomInfo w c =
     attempt (communityNo_toString c) w (\<lambda>no.
       let data =
             [(''accountSid'', FStr (accountSid c)),
              (''timestamp'', FNum (now_ms w div 1000)),
              (''communityNo'', FStr no)];
           signed = getSig3 c data;
           url' = apiHost c @ ''Home/Records/fetchRoomInfo?sig='' @ fst signed
       in andThen (curlPost w url' [] (snd signed) Form_urlencoded) expect_data)"

definition getBoxInfo :: "world \<Rightarrow> Uclbrt \<Rightarrow> jsval outcome" where
  "getBoxInfo w c =
     attempt (communityNo_toString c) w (\<lambda>no.
       let data =
             [(''accountSid'', FStr (accountSid c)),
              (''timestamp'', FNum (now_ms w div 1000)),
              (''communityNo'', FStr no)];
           signed = getSig3 c data;
           url' = apiHost c @ ''Home/Records/getBoxInfo?sig='' @ fst signed
       in andThen (curlPost w url' [] (snd signed) Form_urlencoded) expect_data)"

section \<open>The specification's words\<close>

text \<open>
  The canonical encoding of the specification, on a mapping without order: the keys in
  ascending order, each rendered \<^verbatim>\<open>key=value\<close>, joined with \<^verbatim>\<open>&\<close>, nothing escaped.
\<close>

definition canonical_encode :: "(string \<rightharpoonup> field) \<Rightarrow> string" where
  "canonical_encode m =
     join ''&'' (map (\<lambda>k. k @ ''='' @ field_string (the (m k))) (sorted_list_of_set (dom m)))"

text \<open>
  The time conversion of the specification for a well-formed time: the compact string read as
  a wall-clock time of the operator (here the zone of the process), taken to the community's
  zone and rendered again as \<^verbatim>\<open>YYMMDDHHmm\<close>.
\<close>

definition compact_time :: "int \<Rightarrow> string" where
  "compact_time wall = slice 2 12 (strip_marks (iso_string wall))"

definition spec_community_time :: "world \<Rightarrow> Uclbrt \<Rightarrow> string \<Rightarrow> string option" where
  "spec_community_time w c s =
     (case (local_date w (''20'' @ slice 0 2 s @ ''-'' @ slice 2 4 s @ ''-'' @ slice 4 6 s @ '' ''
                           @ slice 6 8 s @ '':'' @ slice 8 10 s @ '':00''),
            zone_wall w (communityTimezone c)) of
        (Some instant, Some wall) \<Rightarrow> Some (compact_time (wall instant))
      | _ \<Rightarrow> None)"

text \<open>
  The request of a batch-family operation, as the specification describes it: the signature
  \<^verbatim>\<open>upperHex(MD5(accountId + authToken + batchId))\<close> as the query parameter \<^verbatim>\<open>sig\<close>, and
  \<^verbatim>\<open>Base64(accountId + ":" + batchId)\<close> as the \<^verbatim>\<open>Authorization\<close> header, on a JSON body.
\<close>

definition batch_request :: "Uclbrt \<Rightarrow> string \<Rightarrow> string \<Rightarrow> fields \<Rightarrow> request" where
  "batch_request c batchId action data =
     \<lparr>url = apiHost c @ ''?c=Qrcode&a='' @ action @ ''&sig=''
              @ toUpperCase (md5_hex (accountSid c @ authToken c @ batchId)),
      headers =
        [(''Accept'', ''application/json''),
         (''Content-Type'', ''application/json''),
         (''User-Agent'', ''uclbrt-nodejs/1.0.7''),
         (''Authorization'', base64 (accountSid c @ '':'' @ batchId))],
      body = JsonBody data\<rparr>"


text \<open>The request that \<^verbatim>\<open>curlPost(url, '', data)\<close> sends: the object as a form, no
  \<^verbatim>\<open>Authorization\<close> header.\<close>

definition form_post :: "string \<Rightarrow> fields \<Rightarrow> request" where
  "form_post u data =
     \<lparr>url = u,
      headers =
        [(''Accept'', ''application/json''),
         (''Content-Type'', ''application/x-www-form-urlencoded''),
         (''User-Agent'', ''uclbrt-nodejs/1.0.7'')],
      body = FormBody (qs_stringify data)\<rparr>"

text \<open>The characters of a percent-encoded base64 text.\<close>

definition url_safe :: "char \<Rightarrow> bool" where
  "url_safe c = (is_alnum c \<or> c = CHR ''%'')"

section \<open>A concrete environment\<close>

text \<open>
  A world to run the model in: a process in the zone Asia/Tokyo (nine hours ahead of UTC,
  no daylight saving), at 2024-01-01T12:00:00.123Z, with the zones Asia/Shanghai (eight hours
  ahead), Asia/Tokyo and UTC. The encryption is a stand-in (any function serves: the results
  below that mention the ciphertext hold for every world), \<open>string_number\<close> reads the strings
  of decimal digits only, and the server is a parameter.
\<close>

definition example_zones :: "string \<Rightarrow> (int \<Rightarrow> int) option" where
  "example_zones tz =
     (if tz = ''Asia/Shanghai'' then Some (\<lambda>t. t + 28800000)
      else if tz = ''Asia/Tokyo'' then Some (\<lambda>t. t + 32400000)
      else if tz = ''UTC'' then Some (\<lambda>t. t)
      else None)"

definition example_hostname :: "string \<Rightarrow> string option" where
  "example_hostname u =
     (if u = ''https://api.uclbrt.com/'' then Some ''api.uclbrt.com''
      else if u = ''http://cz.uclbrt.com/'' then Some ''cz.uclbrt.com''
      else None)"

definition example_world :: "(request \<Rightarrow> reply) \<Rightarrow> world" where
  "example_world srv =
     \<lparr>now_ms = 1704110400123,
      math_random = 12345678,
      utc_of_local = (\<lambda>l. l - 32400000),
      zone_wall = example_zones,
      irregular_time = (\<lambda>tz s. Inl (RangeError ''Invalid time value'')),
      public_encrypt = (\<lambda>key data. Some (rev data)),
      string_number = (\<lambda>s. if s \<noteq> [] \<and> list_all is_digit s then Some (number_of s) else None),
      url_hostname = example_hostname,
      system_timezone = ''Asia/Tokyo'',
      cwd = ''/srv/app'',
      read_file = (\<lambda>path. Some ''PUBLIC KEY''),
      server = srv,
      sent = []\<rparr>"

definition reply_with :: "jsval \<Rightarrow> request \<Rightarrow> reply" where
  "reply_with v req = Response 200 v"

definition example_config :: UserConfig where
  "example_config =
     \<lparr>cfg_accountSid = ''A'', cfg_authToken = ''T'', cfg_apiHost = None, cfg_cardHost = None,
      cfg_debug = None\<rparr>"

text \<open>The client that \<^verbatim>\<open>new Uclbrt({accountSid: 'A', authToken: 'T'})\<close> gives in that world, and
  the same client after \<^verbatim>\<open>setCommunityNo(123456789)\<close>.\<close>

definition fresh_client :: Uclbrt where
  "fresh_client =
     \<lparr>accountSid = ''A'', authToken = ''T'', apiHost = ''https://api.uclbrt.com/'',
      cardHost = ''http://cz.uclbrt.com/'', debug = False,
      communityTimezone = ''Asia/Shanghai'', communityNo = None,
      localTimezone = ''Asia/Tokyo'', publicKey = ''PUBLIC KEY''\<rparr>"

definition ready_client :: Uclbrt where
  "ready_client = fresh_client\<lparr>communityNo := Some 123456789\<rparr>"

section \<open>Properties\<close>

subsection \<open>Decimal digits\<close>

lemma is_digit_digit_char: "is_digit (digit_char n)"
  unfolding is_digit_def digit_char_def by (rule nth_mem) simp

lemma dec_nat_digits: "list_all is_digit (dec_nat n)"
proof (induction n rule: dec_nat.induct)
  case (1 n)
  show ?case
  proof (cases "n < 10")
    case True
    then show ?thesis by (simp add: dec_nat.simps [of n] is_digit_digit_char)
  next
    case False
    with 1 show ?thesis by (simp add: dec_nat.simps [of n] is_digit_digit_char)
  qed
qed

lemma length_dec_nat: "n < 10 ^ Suc k \<Longrightarrow> length (dec_nat n) \<le> Suc k"
proof (induction k arbitrary: n)
  case 0
  then show ?case by (simp add: dec_nat.simps [of n])
next
  case (Suc k)
  show ?case
  proof (cases "n < 10")
    case True
    then show ?thesis by (simp add: dec_nat.simps [of n])
  next
    case False
    from Suc.prems have "n div 10 < 10 ^ Suc k" by simp
    then have "length (dec_nat (n div 10)) \<le> Suc k" by (rule Suc.IH)
    with False show ?thesis by (simp add: dec_nat.simps [of n])
  qed
qed

lemma dec_int_nonneg: "0 \<le> i \<Longrightarrow> dec_int i = dec_nat (nat i)"
  by (simp add: dec_int_def)

lemma is_digit_zero: "is_digit CHR ''0''"
  by (simp add: is_digit_def)

lemma padStart0_digits: "list_all is_digit s \<Longrightarrow> list_all is_digit (padStart0 k s)"
  by (simp add: padStart0_def list_all_iff is_digit_zero Ball_def)

lemma length_padStart0: "length s \<le> k \<Longrightarrow> length (padStart0 k s) = k"
  by (simp add: padStart0_def)

lemma pad2_ok:
  assumes "0 \<le> n" "n < 100"
  shows "length (pad2 n) = 2 \<and> list_all is_digit (pad2 n)"
proof -
  from assms have "nat n < 10 ^ Suc 1" by simp
  then have "length (dec_nat (nat n)) \<le> 2" using length_dec_nat [of "nat n" 1] by simp
  with assms show ?thesis
    by (simp add: pad2_def dec_int_nonneg length_padStart0 padStart0_digits dec_nat_digits)
qed

lemma year_string_ok:
  assumes "0 \<le> y" "y \<le> 9999"
  shows "length (year_string y) = 4 \<and> list_all is_digit (year_string y)"
proof -
  from assms have "nat y < 10 ^ Suc 3" by simp
  then have "length (dec_nat (nat y)) \<le> 4" using length_dec_nat [of "nat y" 3] by simp
  with assms show ?thesis
    by (simp add: year_string_def dec_int_nonneg length_padStart0 padStart0_digits dec_nat_digits)
qed

lemma digit_not_mark: "is_digit c \<Longrightarrow> c \<notin> set ''-:T''"
  by (auto simp: is_digit_def)

lemma strip_marks_digits: "list_all is_digit s \<Longrightarrow> strip_marks s = s"
proof -
  assume "list_all is_digit s"
  then have "\<forall>x\<in>set s. x \<notin> set ''-:T''"
    using digit_not_mark unfolding list_all_iff by blast
  then show ?thesis unfolding strip_marks_def by (rule filter_True)
qed

lemma strip_marks_append: "strip_marks (a @ b) = strip_marks a @ strip_marks b"
  by (simp add: strip_marks_def)

subsection \<open>The calendar\<close>

lemma day_of_era_bounds: "0 \<le> day_of_era z \<and> day_of_era z \<le> 146096"
  unfolding day_of_era_def by simp

lemma day_of_year_bounds:
  assumes "0 \<le> doe" "doe \<le> 146096"
  shows "-10 \<le> day_of_year doe \<and> day_of_year doe \<le> 380"
proof -
  define yoe where "yoe = (doe - doe div 1460 + doe div 36524 - doe div 146096) div 365"
  define doy where "doy = doe - (365 * yoe + yoe div 4 - yoe div 100)"
  have "-10 \<le> doy \<and> doy \<le> 380"
    using assms yoe_def doy_def by linarith
  then show ?thesis unfolding day_of_year_def year_of_era_def doy_def yoe_def .
qed

lemma month_index_bounds:
  assumes "-10 \<le> doy" "doy \<le> 380"
  shows "-1 \<le> month_index doy \<and> month_index doy \<le> 12"
  using assms unfolding month_index_def by linarith

lemma day_of_month_bounds:
  fixes doy :: int
  shows "1 \<le> doy - (153 * month_index doy + 2) div 5 + 1
       \<and> doy - (153 * month_index doy + 2) div 5 + 1 \<le> 31"
  unfolding month_index_def by linarith

lemma civil_month_day:
  assumes "civil_from_days z = (y, m, d)"
  shows "1 \<le> m \<and> m \<le> 12 \<and> 1 \<le> d \<and> d \<le> 31"
proof -
  define doy where "doy = day_of_year (day_of_era z)"
  define mp where "mp = month_index doy"
  have m: "m = (if mp < 10 then mp + 3 else mp - 9)"
    and d: "d = doy - (153 * mp + 2) div 5 + 1"
    using assms unfolding civil_from_days_def Let_def mp_def doy_def by simp_all
  have "-10 \<le> doy \<and> doy \<le> 380"
    unfolding doy_def using day_of_era_bounds [of z] by (intro day_of_year_bounds) simp_all
  then have "-1 \<le> mp \<and> mp \<le> 12"
    unfolding mp_def by (intro month_index_bounds) simp_all
  then have "1 \<le> m \<and> m \<le> 12" by (simp add: m)
  moreover have "1 \<le> d \<and> d \<le> 31"
    unfolding d mp_def by (rule day_of_month_bounds)
  ultimately show ?thesis by simp
qed

lemma div_range:
  fixes x :: int
  assumes "0 \<le> x" "x \<le> k" "0 < b"
  shows "0 \<le> x div b \<and> x div b \<le> k div b"
  using assms by (simp add: pos_imp_zdiv_nonneg_iff zdiv_mono1)

lemma take_exact: "length xs = n \<Longrightarrow> take n (xs @ ys) = xs"
  by simp

text \<open>The compact form of an ISO string with a four-digit year: fourteen digits.\<close>

lemma compact_parts:
  assumes "length Y = 4" "list_all is_digit Y" "length A = 2" "list_all is_digit A"
    "length B = 2" "list_all is_digit B" "length C = 2" "list_all is_digit C"
    "length D = 2" "list_all is_digit D" "length E = 2" "list_all is_digit E"
  shows "slice 0 14 (strip_marks (Y @ ''-'' @ A @ ''-'' @ B @ ''T'' @ C @ '':'' @ D @ '':'' @ E
           @ ''.'' @ F @ ''Z'')) = Y @ A @ B @ C @ D @ E"
proof -
  have marks: "strip_marks ''-'' = []" "strip_marks ''T'' = []" "strip_marks '':'' = []"
    by (simp_all add: strip_marks_def)
  have "strip_marks (Y @ ''-'' @ A @ ''-'' @ B @ ''T'' @ C @ '':'' @ D @ '':'' @ E
           @ ''.'' @ F @ ''Z'') = (Y @ A @ B @ C @ D @ E) @ strip_marks (''.'' @ F @ ''Z'')"
    unfolding strip_marks_append marks using assms
    by (simp only: strip_marks_digits append_Nil append_assoc)
  moreover have "length (Y @ A @ B @ C @ D @ E) = 14" using assms by simp
  ultimately show ?thesis unfolding slice_def drop_0 by (simp only: take_exact)
qed

lemma compact_iso:
  assumes c: "civil_from_days (t div 86400000) = (y, m, d)" and y: "0 \<le> y" "y \<le> 9999"
  shows "slice 0 14 (strip_marks (iso_string t)) =
           year_string y @ pad2 m @ pad2 d @ pad2 (t mod 86400000 div 3600000)
           @ pad2 (t mod 3600000 div 60000) @ pad2 (t mod 60000 div 1000)"
proof -
  have md: "1 \<le> m \<and> m \<le> 12 \<and> 1 \<le> d \<and> d \<le> 31" using c by (rule civil_month_day)
  have H: "0 \<le> t mod 86400000 div 3600000 \<and> t mod 86400000 div 3600000 < 100"
    using div_range [of "t mod 86400000" 86399999 3600000] by simp
  have M: "0 \<le> t mod 3600000 div 60000 \<and> t mod 3600000 div 60000 < 100"
    using div_range [of "t mod 3600000" 3599999 60000] by simp
  have S: "0 \<le> t mod 60000 div 1000 \<and> t mod 60000 div 1000 < 100"
    using div_range [of "t mod 60000" 59999 1000] by simp
  have m: "0 \<le> m" "m < 100" and d: "0 \<le> d" "d < 100" using md by simp_all
  show ?thesis
    unfolding iso_string_def c prod.case
    by (intro compact_parts conjunct1 [OF year_string_ok [OF y]]
          conjunct2 [OF year_string_ok [OF y]]
          conjunct1 [OF pad2_ok [OF m]] conjunct2 [OF pad2_ok [OF m]]
          conjunct1 [OF pad2_ok [OF d]] conjunct2 [OF pad2_ok [OF d]]
          conjunct1 [OF pad2_ok [OF conjunct1 [OF H] conjunct2 [OF H]]]
          conjunct2 [OF pad2_ok [OF conjunct1 [OF H] conjunct2 [OF H]]]
          conjunct1 [OF pad2_ok [OF conjunct1 [OF M] conjunct2 [OF M]]]
          conjunct2 [OF pad2_ok [OF conjunct1 [OF M] conjunct2 [OF M]]]
          conjunct1 [OF pad2_ok [OF conjunct1 [OF S] conjunct2 [OF S]]]
          conjunct2 [OF pad2_ok [OF conjunct1 [OF S] conjunct2 [OF S]]])
qed

lemma fourteen_digits:
  assumes "length Y = 4" "list_all is_digit Y" "length A = 2" "list_all is_digit A"
    "length B = 2" "list_all is_digit B" "length C = 2" "list_all is_digit C"
    "length D = 2" "list_all is_digit D" "length E = 2" "list_all is_digit E"
  shows "length (Y @ A @ B @ C @ D @ E) = 14 \<and> list_all is_digit (Y @ A @ B @ C @ D @ E)"
  using assms by simp

subsection \<open>Digests\<close>

lemma is_lower_hex_digit: "is_lower_hex (hex_digit n)"
  unfolding is_lower_hex_def hex_digit_def by (rule nth_mem) simp

lemma hex_of_bytes_lower: "list_all is_lower_hex (hex_of_bytes bs)"
  by (induction bs) (simp_all add: hex_of_bytes_def is_lower_hex_digit)

lemma length_hex_of_bytes: "length (hex_of_bytes bs) = 2 * length bs"
  by (induction bs) (simp_all add: hex_of_bytes_def)

lemma length_le_bytes: "length (le_bytes k n) = k"
  by (induction k arbitrary: n) simp_all

lemma length_md5: "length (md5 bs) = 16"
  by (simp add: md5_def length_le_bytes split: prod.splits)

lemma length_sha1: "length (sha1 bs) = 20"
  by (simp add: sha1_def be_bytes_def length_le_bytes split: prod.splits)

lemma md5_hex_format: "length (md5_hex s) = 32 \<and> list_all is_lower_hex (md5_hex s)"
  by (simp add: md5_hex_def length_hex_of_bytes length_md5 hex_of_bytes_lower)

lemma sha1_hex_format: "length (sha1_hex s) = 40 \<and> list_all is_lower_hex (sha1_hex s)"
  by (simp add: sha1_hex_def length_hex_of_bytes length_sha1 hex_of_bytes_lower)

lemma upper_char_hex: "is_lower_hex c \<Longrightarrow> is_upper_hex (upper_char c)"
proof -
  have "list_all (\<lambda>c. is_upper_hex (upper_char c)) ''0123456789abcdef''"
    by (simp add: is_upper_hex_def upper_char_def)
  then show "is_lower_hex c \<Longrightarrow> is_upper_hex (upper_char c)"
    unfolding is_lower_hex_def list_all_iff by (rule bspec)
qed

lemma toUpperCase_hex: "list_all is_lower_hex s \<Longrightarrow> list_all is_upper_hex (toUpperCase s)"
  by (induction s) (simp_all add: toUpperCase_def upper_char_hex)

lemma length_toUpperCase: "length (toUpperCase s) = length s"
  by (simp add: toUpperCase_def)

subsection \<open>Base64 and percent-encoding\<close>

lemma b64_empty: "b64 bs = [] \<longleftrightarrow> bs = []"
  by (induction bs rule: b64.induct) simp_all

lemma utf8_nonempty: "utf8 c \<noteq> []"
  by (simp add: utf8_def)

lemma base64_empty: "base64 s = [] \<longleftrightarrow> s = []"
  by (cases s) (simp_all add: base64_def bytes_of_def b64_empty utf8_nonempty)

subsection \<open>Sequencing\<close>

lemma attempt_Inl: "attempt (Inl e) w k = (Inl e, w)"
  by (simp add: attempt_def)

lemma attempt_Inr: "attempt (Inr v) w k = k v"
  by (simp add: attempt_def)

lemma checkCommunityNo_unset: "communityNo c = None \<Longrightarrow> checkCommunityNo c = Inl (Error ''communityNo cannot be empty.'')"
  by (simp add: checkCommunityNo_def)

lemma communityNo_toString_unset:
  "communityNo c = None \<Longrightarrow>
   communityNo_toString c = Inl (TypeError ''Cannot read properties of undefined (reading 'toString')'')"
  by (simp add: communityNo_toString_def)

subsection \<open>Time conversion\<close>

lemma length_match_pairs:
  "\<not> list_ex line_terminator s \<Longrightarrow> length (match_pairs s) = length s div 2"
  by (induction s rule: match_pairs.induct) simp_all

lemma toCommunityTime_empty: "toCommunityTime w c [] = Inr []"
  by (simp add: toCommunityTime_def)

lemma toCommunityTime_same_zone:
  "communityTimezone c = localTimezone c \<Longrightarrow> toCommunityTime w c s = Inr s"
  by (simp add: toCommunityTime_def)

text \<open>
  Claim C6, as amended. When the community's time zone differs from the operator's,
  \<^verbatim>\<open>toCommunityTime\<close> fails with the error \<^verbatim>\<open>time format error.\<close> for every non-empty input
  that \<^verbatim>\<open>match(/.{2}/g)\<close> does not split into exactly five pairs: so for every input without
  line terminators that is shorter than 10 or longer than 11 characters. Nothing is said of 11
  characters, nor of an input with line terminators, which the pairing skips; and when the two
  zones are equal the input is returned as it is, whatever its form.
\<close>

theorem toCommunityTime_format_error:
  assumes "communityTimezone c \<noteq> localTimezone c" and "timeStr \<noteq> []"
  shows "(length (match_pairs timeStr) \<noteq> 5
            \<longrightarrow> toCommunityTime w c timeStr = Inl (Error ''time format error.''))
         \<and> (\<not> list_ex line_terminator timeStr
              \<and> (length timeStr < 10 \<or> 11 < length timeStr)
            \<longrightarrow> toCommunityTime w c timeStr = Inl (Error ''time format error.''))"
proof -
  have pairs: "toCommunityTime w c timeStr = Inl (Error ''time format error.'')"
    if "length (match_pairs timeStr) \<noteq> 5"
    using that assms by (simp add: toCommunityTime_def Let_def)
  have "length (match_pairs timeStr) \<noteq> 5"
    if "\<not> list_ex line_terminator timeStr" and "length timeStr < 10 \<or> 11 < length timeStr"
  proof -
    have "length (match_pairs timeStr) = length timeStr div 2"
      using that(1) by (rule length_match_pairs)
    with that(2) show ?thesis by linarith
  qed
  with pairs show ?thesis by blast
qed

theorem toCommunityTime_format_error_witness:
  "toCommunityTime (example_world (reply_with Null)) ready_client ''240101120''
     = Inl (Error ''time format error.'')"
  using toCommunityTime_format_error
    [of ready_client "''240101120''" "example_world (reply_with Null)"]
  by (simp add: ready_client_def fresh_client_def line_terminator_def)

subsection \<open>One conversion, step by step\<close>

lemma replicate_small:
  "replicate 1 x = [x]" "replicate 2 x = [x, x]" "replicate 3 x = [x, x, x]"
  by (simp_all add: numeral_2_eq_2 numeral_3_eq_3)

lemma civil_example: "civil_from_days 19723 = (2024, 1, 1)"
proof -
  have "day_of_era 19723 = 8706" by (simp add: day_of_era_def)
  moreover have y: "year_of_era 8706 = 23" by (simp add: year_of_era_def)
  moreover have "day_of_year 8706 = 306" by (simp add: day_of_year_def y)
  moreover have "month_index 306 = 10" by (simp add: month_index_def)
  ultimately show ?thesis by (simp add: civil_from_days_def Let_def)
qed

lemma days_example: "days_from_civil 2024 1 1 = 19723"
  by (simp add: days_from_civil_def Let_def)

lemma dec_examples:
  "dec_int 0 = ''0''" "dec_int 1 = ''1''" "dec_int 2 = ''2''" "dec_int 11 = ''11''"
  "dec_int 2024 = ''2024''"
  by (simp_all add: dec_int_def dec_nat.simps digit_char_def)

lemma iso_code: "iso_string 1704074400000 = ''2024-01-01T02:00:00.000Z''"
  by (simp add: iso_string_def civil_example year_string_def pad2_def padStart0_def dec_examples
      replicate_small)

lemma iso_spec: "iso_string 1704106800000 = ''2024-01-01T11:00:00.000Z''"
  by (simp add: iso_string_def civil_example year_string_def pad2_def padStart0_def dec_examples
      replicate_small)

lemma local_date_example:
  "local_date (example_world srv) ''2024-01-01 12:00:00'' = Some 1704078000000"
  by (simp add: local_date_def example_world_def slice_def number_of_def digit_val_def is_digit_def
      days_in_month_def civil_ms_def days_example Let_def)

lemma reparse_example:
  "reparse_in_zone (example_world srv) ''Asia/Shanghai'' 1704078000000 = Inr 1704074400000"
  by (simp add: reparse_in_zone_def example_world_def example_zones_def)

lemma compact_examples:
  "slice 2 12 (strip_marks ''2024-01-01T02:00:00.000Z'') = ''2401010200''"
  "slice 2 12 (strip_marks ''2024-01-01T11:00:00.000Z'') = ''2401011100''"
  by (simp_all add: slice_def strip_marks_def)

lemma toCommunityTime_example:
  "toCommunityTime (example_world srv) ready_client ''2401011200'' = Inr ''2401010200''"
  by (simp add: toCommunityTime_def line_terminator_def local_date_example reparse_example
      iso_code compact_examples ready_client_def fresh_client_def)

lemma toCommunityTime_example_long:
  "toCommunityTime (example_world srv) ready_client ''24010112000'' = Inr ''2401010200''"
  by (simp add: toCommunityTime_def line_terminator_def local_date_example reparse_example
      iso_code compact_examples ready_client_def fresh_client_def)

lemma spec_community_time_example:
  "spec_community_time (example_world srv) ready_client ''2401011200'' = Some ''2401011100''"
proof -
  have "zone_wall (example_world srv) (communityTimezone ready_client) = Some (\<lambda>t. t + 28800000)"
    by (simp add: example_world_def example_zones_def ready_client_def fresh_client_def)
  then show ?thesis
    by (simp add: spec_community_time_def slice_def strip_marks_def local_date_example
        compact_time_def iso_spec)
qed

lemma toCommunityTime_example_feeds:
  "toCommunityTime (example_world srv) ready_client (''2401011200'' @ [CHR 0x0A, CHR 0x0A])
     = Inr ''2401010200''"
  by (simp add: toCommunityTime_def line_terminator_def local_date_example reparse_example
      iso_code compact_examples ready_client_def fresh_client_def)

text \<open>
  The claim as stated fails three times: with equal zones a malformed input comes back
  unchanged; with different zones an input of 11 characters is converted (the pattern
  \<^verbatim>\<open>/.{2}/g\<close> drops the last character); and so is an input of 12 characters that ends with two
  line feeds, which the pattern skips.
\<close>

theorem toCommunityTime_unchecked_counterexample:
  "toCommunityTime (example_world (reply_with Null))
     (ready_client\<lparr>localTimezone := ''Asia/Shanghai''\<rparr>) ''abc'' = Inr ''abc''
   \<and> toCommunityTime (example_world (reply_with Null)) ready_client ''24010112000''
       = Inr ''2401010200''
   \<and> toCommunityTime (example_world (reply_with Null)) ready_client
         (''2401011200'' @ [CHR 0x0A, CHR 0x0A])
       = Inr ''2401010200''"
  by (simp only: toCommunityTime_example_long toCommunityTime_example_feeds simp_thms)
    (simp add: toCommunityTime_def ready_client_def fresh_client_def)

text \<open>
  Claim C7. The empty string and the case of equal zones are as the claim says
  (\<open>toCommunityTime_empty\<close>, \<open>toCommunityTime_same_zone\<close>). The conversion is not: the code
  renders its result with \<^verbatim>\<open>toISOString\<close>, which is UTC, so the community's wall-clock time
  is shifted once more by the offset of the process. In a process nine hours ahead of UTC,
  12:00 of the operator is 11:00 in a community eight hours ahead; the code answers 02:00.
\<close>

theorem toCommunityTime_shifts_by_process_offset:
  "toCommunityTime (example_world (reply_with Null)) ready_client ''2401011200''
     = Inr ''2401010200''
   \<and> spec_community_time (example_world (reply_with Null)) ready_client ''2401011200''
       = Some ''2401011100''"
  by (simp only: toCommunityTime_example spec_community_time_example simp_thms)

subsection \<open>The community number\<close>

lemma checked_operations_unset_community:
  assumes "communityNo c = None"
  shows "create w c mobile areaCode roomNo floorNo buildNo startTime endTime sendSms cardType n opentype
           = (Inl (Error ''communityNo cannot be empty.''), w)"
    and "createRoomKey w c mobile areaCode roomNo floorNo buildNo startTime endTime sendSms n
           = (Inl (Error ''communityNo cannot be empty.''), w)"
    and "createFloorKey w c mobile areaCode floorNo buildNo startTime endTime sendSms
           = (Inl (Error ''communityNo cannot be empty.''), w)"
    and "createBuildingKey w c mobile areaCode buildNo startTime endTime sendSms
           = (Inl (Error ''communityNo cannot be empty.''), w)"
    and "createRoomLostKey w c mobile areaCode roomNo floorNo buildNo startTime endTime
           = (Inl (Error ''communityNo cannot be empty.''), w)"
    and "generateQRPRoomCipher w c mobile areaCode roomNo floorNo buildNo startTime endTime cipherType
           = (Inl (Error ''communityNo cannot be empty.''), w)"
    and "reportCardLost w c cardNo wholeRoom = (Inl (Error ''communityNo cannot be empty.''), w)"
    and "mobile \<noteq> [] \<Longrightarrow>
         getLink w c mobile areaCode cardNo cardType
           = (Inl (Error ''communityNo cannot be empty.''), w)"
    and "getShare w c mobile areaCode roomFlag cardType openEndTime lockType resultType
           = (Inl (Error ''communityNo cannot be empty.''), w)"
    and "cancel w c cardNo cardType = (Inl (Error ''communityNo cannot be empty.''), w)"
    and "getMacList w c = (Inl (Error ''communityNo cannot be empty.''), w)"
    and "makeCard w c issueMac buildNo floorNo roomNo endTime creatorAreaCode creatorMobile
           creatorPassword owner opentype ownerGender ownerAreaCode ownerMobile creatorEmail
           = (Inl (Error ''communityNo cannot be empty.''), w)"
    and "makeLostCard w c issueMac buildNo floorNo roomNo endTime creatorAreaCode creatorMobile
           creatorPassword owner opentype ownerGender ownerAreaCode ownerMobile creatorEmail
           = (Inl (Error ''communityNo cannot be empty.''), w)"
    and "readCard w c issueMac creatorAreaCode creatorMobile creatorPassword operateCardType
           creatorEmail = (Inl (Error ''communityNo cannot be empty.''), w)"
    and "cancelCard w c issueMac serialNum creatorAreaCode creatorMobile creatorPassword
           operateCardType creatorEmail = (Inl (Error ''communityNo cannot be empty.''), w)"
  using checkCommunityNo_unset [OF assms]
  by (simp_all add: create_def createRoomKey_def createFloorKey_def createBuildingKey_def
      createRoomLostKey_def generateQRPRoomCipher_def reportCardLost_def getLink_def
      getShare_def cancel_def getMacList_def makeCard_def makeLostCard_def readCard_def
      cancelCard_def attempt_Inl)

lemma unchecked_operations_unset_community:
  assumes "communityNo c = None"
  shows "getRoomCardInfo w c cardString
           = (Inl (TypeError ''Cannot read properties of undefined (reading 'toString')''), w)"
    and "getRecordsByRoom w c buildNo floorNo roomNo startDate endDate recordType holderFrom
           = (Inl (TypeError ''Cannot read properties of undefined (reading 'toString')''), w)"
    and "fetchRoomInfo w c
           = (Inl (TypeError ''Cannot read properties of undefined (reading 'toString')''), w)"
    and "getBoxInfo w c
           = (Inl (TypeError ''Cannot read properties of undefined (reading 'toString')''), w)"
  using communityNo_toString_unset [OF assms]
  by (simp_all add: getRoomCardInfo_def getRecordsByRoom_def fetchRoomInfo_def getBoxInfo_def
      attempt_Inl)

lemma new_Uclbrt_example:
  "new_Uclbrt (example_world srv) example_config = Inr fresh_client"
  by (simp add: new_Uclbrt_def example_world_def example_config_def example_hostname_def
      fresh_client_def)

lemma new_Uclbrt_unset: "new_Uclbrt w config = Inr c \<Longrightarrow> communityNo c = None"
  by (auto simp: new_Uclbrt_def Let_def split: if_splits option.splits)

text \<open>
  Claim C1. Twelve operations call \<^verbatim>\<open>checkCommunityNo\<close> first and end with its error while
  the community number is unset (\<open>checked_operations_unset_community\<close>; \<^verbatim>\<open>getLink\<close> tests
  its \<^verbatim>\<open>mobile\<close> argument before). The four others that send \<^verbatim>\<open>communityNo\<close> do not:
  \<^verbatim>\<open>getRoomCardInfo\<close>, \<^verbatim>\<open>getRecordsByRoom\<close>, \<^verbatim>\<open>fetchRoomInfo\<close> and \<^verbatim>\<open>getBoxInfo\<close> end with
  the runtime's \<^verbatim>\<open>TypeError\<close> of \<^verbatim>\<open>undefined.toString()\<close>, before any request, on a client just
  constructed.
\<close>

theorem records_operations_skip_the_check:
  "new_Uclbrt (example_world (reply_with Null)) example_config = Inr fresh_client
   \<and> createRoomKey (example_world (reply_with Null)) fresh_client ''13800000000'' ''86'' ''101'' []
         [] [] [] 0 0
       = (Inl (Error ''communityNo cannot be empty.''), example_world (reply_with Null))
   \<and> getRoomCardInfo (example_world (reply_with Null)) fresh_client ''card''
       = (Inl (TypeError ''Cannot read properties of undefined (reading 'toString')''),
          example_world (reply_with Null))
   \<and> getRecordsByRoom (example_world (reply_with Null)) fresh_client ''1'' ''2'' ''3''
         ''2024-01-01'' ''2024-01-02'' 0 0
       = (Inl (TypeError ''Cannot read properties of undefined (reading 'toString')''),
          example_world (reply_with Null))
   \<and> fetchRoomInfo (example_world (reply_with Null)) fresh_client
       = (Inl (TypeError ''Cannot read properties of undefined (reading 'toString')''),
          example_world (reply_with Null))
   \<and> getBoxInfo (example_world (reply_with Null)) fresh_client
       = (Inl (TypeError ''Cannot read properties of undefined (reading 'toString')''),
          example_world (reply_with Null))"
proof -
  have unset: "communityNo fresh_client = None" by (simp add: fresh_client_def)
  show ?thesis
    by (simp only: new_Uclbrt_example checked_operations_unset_community [OF unset]
        unchecked_operations_unset_community [OF unset] simp_thms)
qed

subsection \<open>The transport and the validation of a reply\<close>


lemma snd_andThen: "snd (andThen p f) = snd p"
  by (simp add: andThen_def split: sum.splits)

lemma checkCommunityNo_set:
  "communityNo c = Some n \<Longrightarrow> n \<noteq> 0 \<Longrightarrow> checkCommunityNo c = Inr ()"
  by (simp add: checkCommunityNo_def)

lemma communityNo_toString_set:
  "communityNo c = Some n \<Longrightarrow> communityNo_toString c = Inr (dec_int n)"
  by (simp add: communityNo_toString_def)


lemma caught_Error: "caught (Error m) = Error m"
  by (simp add: caught_def)






lemma create_reaches_transport:
  assumes "communityNo c = Some n" "n \<noteq> 0"
    and "toCommunityTime w c startTime = Inr s1" "toCommunityTime w c endTime = Inr s2"
  shows "create w c mobile areaCode roomNo floorNo buildNo startTime endTime sendSms cardType k
           opentype =
         andThen
           (curlPost w (apiHost c @ ''?c=Qrcode&a=getLink&sig='' @ getSig c (batch_now w))
              (getAuth c (batch_now w))
              [(''mobile'', FStr mobile), (''areaCode'', FStr areaCode),
               (''roomNo'', FStr roomNo), (''floorNo'', FStr floorNo),
               (''buildNo'', FStr buildNo), (''communityNo'', FStr (dec_int n)),
               (''startTime'', FStr s1), (''endTime'', FStr s2),
               (''sendSms'', FNum sendSms), (''cardType'', FNum cardType),
               (''times'', FNum k), (''opentype'', FNum opentype)]
              Application_json)
           expect_cardNo"
  unfolding create_def Let_def
  by (simp only: checkCommunityNo_set [OF assms(1,2)] communityNo_toString_set [OF assms(1)]
      assms(3,4) attempt_Inr)









subsection \<open>Requests\<close>

lemma sent_curlPost:
  "sent (snd (curlPost w u a d ct)) =
     sent w @
     [\<lparr>url = u,
       headers =
         [(''Accept'', ''application/json''), (''Content-Type'', content_type ct),
          (''User-Agent'', ''uclbrt-nodejs/'' @ LIB_VERSION)]
         @ (if a \<noteq> [] then [(''Authorization'', a)] else []),
       body = (case ct of Application_json \<Rightarrow> JsonBody d
               | Form_urlencoded \<Rightarrow> FormBody (qs_stringify d))\<rparr>]"
  by (simp add: curlPost_def Let_def split: reply.splits)

lemma getAuth_nonempty: "getAuth c batch \<noteq> []"
  by (simp add: getAuth_def base64_empty)

lemma sent_batch_post:
  "sent (snd (curlPost w (apiHost c @ ''?c=Qrcode&a='' @ action @ ''&sig='' @ getSig c batch)
                (getAuth c batch) data Application_json))
     = sent w @ [batch_request c batch action data]"
  unfolding sent_curlPost
  by (simp add: base64_empty batch_request_def content_type_def LIB_VERSION_def getSig_def
      getAuth_def)

lemma batch_now_format:
  assumes "0 \<le> utc_year (now_ms w)" "utc_year (now_ms w) \<le> 9999"
  shows "length (batch_now w) = 14 \<and> list_all is_digit (batch_now w)
     \<and> (case civil_from_days (now_ms w div 86400000) of
          (y, m, d) \<Rightarrow>
            batch_now w =
              year_string y @ pad2 m @ pad2 d @ pad2 (now_ms w mod 86400000 div 3600000)
              @ pad2 (now_ms w mod 3600000 div 60000) @ pad2 (now_ms w mod 60000 div 1000))"
proof -
  obtain y m d where c: "civil_from_days (now_ms w div 86400000) = (y, m, d)"
    by (cases "civil_from_days (now_ms w div 86400000)") 
  with assms have y: "0 \<le> y" "y \<le> 9999" by (simp_all add: utc_year_def)
  have md: "1 \<le> m \<and> m \<le> 12 \<and> 1 \<le> d \<and> d \<le> 31" using c by (rule civil_month_day)
  then have m: "0 \<le> m" "m < 100" and d: "0 \<le> d" "d < 100" by simp_all
  have H: "0 \<le> now_ms w mod 86400000 div 3600000 \<and> now_ms w mod 86400000 div 3600000 < 100"
    using div_range [of "now_ms w mod 86400000" 86399999 3600000] by simp
  have M: "0 \<le> now_ms w mod 3600000 div 60000 \<and> now_ms w mod 3600000 div 60000 < 100"
    using div_range [of "now_ms w mod 3600000" 3599999 60000] by simp
  have S: "0 \<le> now_ms w mod 60000 div 1000 \<and> now_ms w mod 60000 div 1000 < 100"
    using div_range [of "now_ms w mod 60000" 59999 1000] by simp
  have eq: "batch_now w =
              year_string y @ pad2 m @ pad2 d @ pad2 (now_ms w mod 86400000 div 3600000)
              @ pad2 (now_ms w mod 3600000 div 60000) @ pad2 (now_ms w mod 60000 div 1000)"
    unfolding batch_now_def by (rule compact_iso [OF c y])
  have "length (batch_now w) = 14 \<and> list_all is_digit (batch_now w)"
    unfolding eq
    by (intro fourteen_digits conjunct1 [OF year_string_ok [OF y]]
          conjunct2 [OF year_string_ok [OF y]]
          conjunct1 [OF pad2_ok [OF m]] conjunct2 [OF pad2_ok [OF m]]
          conjunct1 [OF pad2_ok [OF d]] conjunct2 [OF pad2_ok [OF d]]
          conjunct1 [OF pad2_ok [OF conjunct1 [OF H] conjunct2 [OF H]]]
          conjunct2 [OF pad2_ok [OF conjunct1 [OF H] conjunct2 [OF H]]]
          conjunct1 [OF pad2_ok [OF conjunct1 [OF M] conjunct2 [OF M]]]
          conjunct2 [OF pad2_ok [OF conjunct1 [OF M] conjunct2 [OF M]]]
          conjunct1 [OF pad2_ok [OF conjunct1 [OF S] conjunct2 [OF S]]]
          conjunct2 [OF pad2_ok [OF conjunct1 [OF S] conjunct2 [OF S]]])
  with eq c show ?thesis by simp
qed

subsection \<open>The batch family\<close>

lemmas batch_post_simps =
  sent_curlPost snd_andThen base64_empty batch_request_def content_type_def LIB_VERSION_def
  getSig_def getAuth_def

lemma sent_create:
  assumes "communityNo c = Some n" "n \<noteq> 0"
    and "toCommunityTime w c startTime = Inr s1" "toCommunityTime w c endTime = Inr s2"
  shows "sent (snd (create w c mobile areaCode roomNo floorNo buildNo startTime endTime sendSms
                     cardType k opentype)) =
         sent w @
         [batch_request c (batch_now w) ''getLink''
            [(''mobile'', FStr mobile), (''areaCode'', FStr areaCode),
             (''roomNo'', FStr roomNo), (''floorNo'', FStr floorNo),
             (''buildNo'', FStr buildNo), (''communityNo'', FStr (dec_int n)),
             (''startTime'', FStr s1), (''endTime'', FStr s2),
             (''sendSms'', FNum sendSms), (''cardType'', FNum cardType),
             (''times'', FNum k), (''opentype'', FNum opentype)]]"
  unfolding create_reaches_transport [OF assms]
  by (simp add: batch_post_simps)

lemma sent_createRoomLostKey:
  assumes "communityNo c = Some n" "n \<noteq> 0"
    and "toCommunityTime w c startTime = Inr s1" "toCommunityTime w c endTime = Inr s2"
  shows "sent (snd (createRoomLostKey w c mobile areaCode roomNo floorNo buildNo startTime
                     endTime)) =
         sent w @
         [batch_request c (batch_now w) ''getLink''
            [(''mobile'', FStr mobile), (''areaCode'', FStr areaCode),
             (''roomNo'', FStr roomNo), (''floorNo'', FStr floorNo),
             (''buildNo'', FStr buildNo), (''communityNo'', FStr (dec_int n)),
             (''startTime'', FStr s1), (''endTime'', FStr s2),
             (''cardType'', FNum 0), (''times'', FNum 0), (''isLost'', FNum 1)]]"
  unfolding createRoomLostKey_def Let_def
  by (simp only: checkCommunityNo_set [OF assms(1,2)] communityNo_toString_set [OF assms(1)]
      assms(3,4) attempt_Inr)
     (simp add: batch_post_simps)

lemma sent_generateQRPRoomCipher:
  assumes "communityNo c = Some n" "n \<noteq> 0"
    and "toCommunityTime w c startTime = Inr s1" "toCommunityTime w c endTime = Inr s2"
  shows "sent (snd (generateQRPRoomCipher w c mobile areaCode roomNo floorNo buildNo startTime
                     endTime cipherType)) =
         sent w @
         [batch_request c (batch_now w) ''getLink''
            [(''mobile'', FStr mobile), (''areaCode'', FStr areaCode),
             (''roomNo'', FStr roomNo), (''floorNo'', FStr floorNo),
             (''buildNo'', FStr buildNo), (''communityNo'', FStr (dec_int n)),
             (''startTime'', FStr (to_hour s1)), (''endTime'', FStr (to_hour s2)),
             (''cipherType'', FNum cipherType)]]"
  unfolding generateQRPRoomCipher_def Let_def
  by (simp only: checkCommunityNo_set [OF assms(1,2)] communityNo_toString_set [OF assms(1)]
      assms(3,4) attempt_Inr)
     (simp add: batch_post_simps)

lemma sent_reportCardLost:
  assumes "communityNo c = Some n" "n \<noteq> 0"
  shows "sent (snd (reportCardLost w c cardNo wholeRoom)) =
         sent w @
         [batch_request c (batch_now w) ''reportLost''
            [(''cardNo'', FStr cardNo), (''wholeRoom'', FNum (if wholeRoom then 1 else 0))]]"
  unfolding reportCardLost_def Let_def
  by (simp only: checkCommunityNo_set [OF assms(1,2)] attempt_Inr)
     (simp add: batch_post_simps)

lemma sent_getShare:
  assumes "communityNo c = Some n" "n \<noteq> 0"
    and "toCommunityTime w c openEndTime = Inr s1"
  shows "sent (snd (getShare w c mobile areaCode roomFlag cardType openEndTime lockType
                     resultType)) =
         sent w @
         [batch_request c (batch_now w) ''getCard''
            [(''mobile'', FStr mobile), (''areaCode'', FStr areaCode),
             (''communityNo'', FStr (dec_int n)), (''roomFlag'', FStr roomFlag),
             (''cardType'', FNum cardType), (''lockType'', FNum lockType),
             (''resultType'', FNum resultType), (''openEndTime'', FStr s1)]]"
  unfolding getShare_def Let_def
  by (simp only: checkCommunityNo_set [OF assms(1,2)] communityNo_toString_set [OF assms(1)]
      assms(3) attempt_Inr)
     (simp add: batch_post_simps)

lemma sent_cancel:
  assumes "communityNo c = Some n" "n \<noteq> 0"
  shows "sent (snd (cancel w c cardNo cardType)) =
         sent w @
         [batch_request c (batch_now w) ''cancelCard''
            [(''cardNo'', FStr cardNo), (''cardType'', FNum cardType)]]"
  unfolding cancel_def Let_def
  by (simp only: checkCommunityNo_set [OF assms(1,2)] attempt_Inr)
     (simp add: batch_post_simps)

lemma sent_getRoomCardInfo:
  assumes "communityNo c = Some n"
  shows "sent (snd (getRoomCardInfo w c cardString)) =
         sent w @
         [batch_request c (batch_now w) ''getRoomCardInfo''
            [(''communityNo'', FStr (dec_int n)), (''cardString'', FStr cardString)]]"
  unfolding getRoomCardInfo_def Let_def
  by (simp only: communityNo_toString_set [OF assms(1)] attempt_Inr)
     (simp add: batch_post_simps)

text \<open>
  Claim C3. While the clock shows a year of four digits, the batch id of a call is the
  UTC time of that call's clock reading as fourteen digits \<^verbatim>\<open>YYYYMMDDHHmmss\<close>. Every operation
  of the batch family that gets past its preconditions (community number set, times
  converted) sends exactly one request, and it is the specification's: the signature is the
  uppercase hexadecimal MD5 of \<^verbatim>\<open>accountSid + authToken + batch\<close>, the \<^verbatim>\<open>Authorization\<close> header
  is the base64 of \<^verbatim>\<open>accountSid:batch\<close>.
\<close>

theorem batch_family_signature:
  assumes "0 \<le> utc_year (now_ms w)" "utc_year (now_ms w) \<le> 9999"
    and "communityNo c = Some n" "n \<noteq> 0"
    and "toCommunityTime w c startTime = Inr s1" "toCommunityTime w c endTime = Inr s2"
  shows
    "(length (batch_now w) = 14 \<and> list_all is_digit (batch_now w)
      \<and> (case civil_from_days (now_ms w div 86400000) of
           (y, m, d) \<Rightarrow>
             batch_now w =
               year_string y @ pad2 m @ pad2 d @ pad2 (now_ms w mod 86400000 div 3600000)
               @ pad2 (now_ms w mod 3600000 div 60000) @ pad2 (now_ms w mod 60000 div 1000)))
     \<and> sent (snd (create w c mobile areaCode roomNo floorNo buildNo startTime endTime sendSms
                    cardType k opentype)) =
         sent w @
         [batch_request c (batch_now w) ''getLink''
            [(''mobile'', FStr mobile), (''areaCode'', FStr areaCode),
             (''roomNo'', FStr roomNo), (''floorNo'', FStr floorNo),
             (''buildNo'', FStr buildNo), (''communityNo'', FStr (dec_int n)),
             (''startTime'', FStr s1), (''endTime'', FStr s2),
             (''sendSms'', FNum sendSms), (''cardType'', FNum cardType),
             (''times'', FNum k), (''opentype'', FNum opentype)]]
     \<and> sent (snd (createRoomLostKey w c mobile areaCode roomNo floorNo buildNo startTime
                    endTime)) =
         sent w @
         [batch_request c (batch_now w) ''getLink''
            [(''mobile'', FStr mobile), (''areaCode'', FStr areaCode),
             (''roomNo'', FStr roomNo), (''floorNo'', FStr floorNo),
             (''buildNo'', FStr buildNo), (''communityNo'', FStr (dec_int n)),
             (''startTime'', FStr s1), (''endTime'', FStr s2),
             (''cardType'', FNum 0), (''times'', FNum 0), (''isLost'', FNum 1)]]
     \<and> sent (snd (generateQRPRoomCipher w c mobile areaCode roomNo floorNo buildNo startTime
                    endTime cipherType)) =
         sent w @
         [batch_request c (batch_now w) ''getLink''
            [(''mobile'', FStr mobile), (''areaCode'', FStr areaCode),
             (''roomNo'', FStr roomNo), (''floorNo'', FStr floorNo),
             (''buildNo'', FStr buildNo), (''communityNo'', FStr (dec_int n)),
             (''startTime'', FStr (to_hour s1)), (''endTime'', FStr (to_hour s2)),
             (''cipherType'', FNum cipherType)]]
     \<and> sent (snd (reportCardLost w c cardNo wholeRoom)) =
         sent w @
         [batch_request c (batch_now w) ''reportLost''
            [(''cardNo'', FStr cardNo), (''wholeRoom'', FNum (if wholeRoom then 1 else 0))]]
     \<and> sent (snd (getShare w c mobile areaCode roomFlag cardType endTime lockType resultType)) =
         sent w @
         [batch_request c (batch_now w) ''getCard''
            [(''mobile'', FStr mobile), (''areaCode'', FStr areaCode),
             (''communityNo'', FStr (dec_int n)), (''roomFlag'', FStr roomFlag),
             (''cardType'', FNum cardType), (''lockType'', FNum lockType),
             (''resultType'', FNum resultType), (''openEndTime'', FStr s2)]]
     \<and> sent (snd (cancel w c cardNo cardType)) =
         sent w @
         [batch_request c (batch_now w) ''cancelCard''
            [(''cardNo'', FStr cardNo), (''cardType'', FNum cardType)]]
     \<and> sent (snd (getRoomCardInfo w c cardString)) =
         sent w @
         [batch_request c (batch_now w) ''getRoomCardInfo''
            [(''communityNo'', FStr (dec_int n)), (''cardString'', FStr cardString)]]"
  by (intro conjI batch_now_format [OF assms(1,2)] sent_create [OF assms(3-6)]
      sent_createRoomLostKey [OF assms(3-6)] sent_generateQRPRoomCipher [OF assms(3-6)]
      sent_reportCardLost [OF assms(3,4)] sent_getShare [OF assms(3,4,6)]
      sent_cancel [OF assms(3,4)] sent_getRoomCardInfo [OF assms(3)])

theorem batch_family_signature_witness:
  "batch_now (example_world (reply_with Null)) = ''20240101120000''
   \<and> sent (snd (create (example_world (reply_with Null)) ready_client ''13800000000'' ''86''
                  ''101'' [] [] [] [] 0 0 0 0)) =
       [\<lparr>url = ''https://api.uclbrt.com/?c=Qrcode&a=getLink&sig=''
                 @ toUpperCase (md5_hex ''AT20240101120000''),
         headers =
           [(''Accept'', ''application/json''), (''Content-Type'', ''application/json''),
            (''User-Agent'', ''uclbrt-nodejs/1.0.7''),
            (''Authorization'', ''QToyMDI0MDEwMTEyMDAwMA=='')],
         body =
           JsonBody
             [(''mobile'', FStr ''13800000000''), (''areaCode'', FStr ''86''),
              (''roomNo'', FStr ''101''), (''floorNo'', FStr []), (''buildNo'', FStr []),
              (''communityNo'', FStr ''123456789''), (''startTime'', FStr []),
              (''endTime'', FStr []), (''sendSms'', FNum 0), (''cardType'', FNum 0),
              (''times'', FNum 0), (''opentype'', FNum 0)]\<rparr>]"
proof -
  let ?w = "example_world (reply_with Null)"
  have now: "now_ms ?w = 1704110400123" and sent: "sent ?w = []"
    by (simp_all add: example_world_def)
  have day: "now_ms ?w div 86400000 = 19723" by (simp add: now)
  have year: "0 \<le> utc_year (now_ms ?w)" "utc_year (now_ms ?w) \<le> 9999"
    by (simp_all add: utc_year_def day civil_example)
  have no: "communityNo ready_client = Some 123456789" "(123456789::int) \<noteq> 0"
    by (simp_all add: ready_client_def)
  note inst = batch_family_signature [OF year no toCommunityTime_empty toCommunityTime_empty]
  have "dec_int 12 = ''12''" by (simp add: dec_int_def dec_nat.simps digit_char_def)
  then have batch: "batch_now ?w = ''20240101120000''"
    using inst [THEN conjunct1] unfolding day civil_example
    by (simp add: now year_string_def pad2_def padStart0_def dec_examples replicate_small)
  have number: "dec_int 123456789 = ''123456789''"
    by (simp add: dec_int_def dec_nat.simps digit_char_def)
  have auth: "base64 ''A:20240101120000'' = ''QToyMDI0MDEwMTEyMDAwMA==''"
    by (simp add: base64_def bytes_of_def utf8_def b64_char_def)
  show ?thesis
    using inst [THEN conjunct2, THEN conjunct1]
    by (simp add: batch sent batch_request_def number auth ready_client_def fresh_client_def)
qed

subsection \<open>Digests of the examples\<close>

text \<open>The MD5 of a short text, computed round by round.\<close>

lemma le_bytes_4:
  "le_bytes 4 n = [n mod 256, n div 256 mod 256, n div 256 div 256 mod 256,
                   n div 256 div 256 div 256 mod 256]"
proof -
  have "(4::nat) = Suc (Suc (Suc (Suc 0)))" by simp
  then show ?thesis by (simp only: le_bytes.simps)
qed

lemma le_bytes_8:
  "le_bytes 8 n = le_bytes 4 n @ le_bytes 4 (n div 256 div 256 div 256 div 256)"
proof -
  have "(8::nat) = Suc (Suc (Suc (Suc (Suc (Suc (Suc (Suc 0)))))))" by simp
  then show ?thesis by (simp only: le_bytes.simps le_bytes_4 append.simps)
qed

lemma upt64: "[0..<64] =
  [0, 1, 2, 3, 4, 5, 6, 7, 8, 9, 10, 11, 12, 13, 14, 15]
  @ [16, 17, 18, 19, 20, 21, 22, 23, 24, 25, 26, 27, 28, 29, 30, 31]
  @ [32, 33, 34, 35, 36, 37, 38, 39, 40, 41, 42, 43, 44, 45, 46, 47]
  @ [48, 49, 50, 51, 52, 53, 54, 55, 56, 57, 58, 59, 60, 61, 62, 63]"
  by (simp add: upt_rec)

lemma replicate_numeral: "replicate (numeral k) x = x # replicate (pred_numeral k) x"
  by (simp add: numeral_eq_Suc)

lemma md5_12T_bytes: "bytes_of ''12T'' = [49, 50, 84]"
  by (simp add: bytes_of_def utf8_def)

lemma md5_12T_pad: "md5_pad [49, 50, 84] =
  [49, 50, 84, 128, 0, 0, 0, 0, 0, 0, 0, 0, 0, 0, 0, 0, 0, 0, 0, 0, 0, 0, 0, 0, 0, 0, 0, 0, 0, 0, 0, 0, 0, 0, 0, 0, 0, 0, 0, 0, 0, 0, 0, 0, 0, 0, 0, 0, 0, 0, 0, 0, 0, 0, 0, 0, 24, 0, 0, 0, 0, 0, 0, 0]"
  by (simp add: md5_pad_def pad_zeros_def replicate_numeral le_bytes_8 le_bytes_4)

lemma md5_12T_words: "le_words
  [49, 50, 84, 128, 0, 0, 0, 0, 0, 0, 0, 0, 0, 0, 0, 0, 0, 0, 0, 0, 0, 0, 0, 0, 0, 0, 0, 0, 0, 0, 0, 0, 0, 0, 0, 0, 0, 0, 0, 0, 0, 0, 0, 0, 0, 0, 0, 0, 0, 0, 0, 0, 0, 0, 0, 0, 24, 0, 0, 0, 0, 0, 0, 0] =
  [0x80543231, 0x00000000, 0x00000000, 0x00000000, 0x00000000, 0x00000000, 0x00000000, 0x00000000, 0x00000000, 0x00000000, 0x00000000, 0x00000000, 0x00000000, 0x00000000, 0x00000018, 0x00000000]"
  by simp

lemma md5_12T_b0_r0: "foldl (md5_round [0x80543231, 0x00000000, 0x00000000, 0x00000000, 0x00000000, 0x00000000, 0x00000000, 0x00000000, 0x00000000, 0x00000000, 0x00000000, 0x00000000, 0x00000000, 0x00000000, 0x00000018, 0x00000000])
    (0x67452301, 0xefcdab89, 0x98badcfe, 0x10325476) [0, 1, 2, 3, 4, 5, 6, 7, 8, 9, 10, 11, 12, 13, 14, 15]
  = (0x809cb002, 0xcb9904b2, 0xc9a963d8, 0x25d34646)"
  by (simp add: md5_round_def md5_F_def md5_g_def md5_K_def md5_S_def rotl32_def)

lemma md5_12T_b0_r1: "foldl (md5_round [0x80543231, 0x00000000, 0x00000000, 0x00000000, 0x00000000, 0x00000000, 0x00000000, 0x00000000, 0x00000000, 0x00000000, 0x00000000, 0x00000000, 0x00000000, 0x00000000, 0x00000018, 0x00000000])
    (0x809cb002, 0xcb9904b2, 0xc9a963d8, 0x25d34646) [16, 17, 18, 19, 20, 21, 22, 23, 24, 25, 26, 27, 28, 29, 30, 31]
  = (0x49963152, 0xefd3a6ca, 0xb84c6c36, 0xbb69d787)"
  by (simp add: md5_round_def md5_F_def md5_g_def md5_K_def md5_S_def rotl32_def)

lemma md5_12T_b0_r2: "foldl (md5_round [0x80543231, 0x00000000, 0x00000000, 0x00000000, 0x00000000, 0x00000000, 0x00000000, 0x00000000, 0x00000000, 0x00000000, 0x00000000, 0x00000000, 0x00000000, 0x00000000, 0x00000018, 0x00000000])
    (0x49963152, 0xefd3a6ca, 0xb84c6c36, 0xbb69d787) [32, 33, 34, 35, 36, 37, 38, 39, 40, 41, 42, 43, 44, 45, 46, 47]
  = (0x594e80a8, 0x9f9dde7c, 0x772a3152, 0xf4cd267b)"
  by (simp add: md5_round_def md5_F_def md5_g_def md5_K_def md5_S_def rotl32_def)

lemma md5_12T_b0_r3: "foldl (md5_round [0x80543231, 0x00000000, 0x00000000, 0x00000000, 0x00000000, 0x00000000, 0x00000000, 0x00000000, 0x00000000, 0x00000000, 0x00000000, 0x00000000, 0x00000000, 0x00000000, 0x00000018, 0x00000000])
    (0x594e80a8, 0x9f9dde7c, 0x772a3152, 0xf4cd267b) [48, 49, 50, 51, 52, 53, 54, 55, 56, 57, 58, 59, 60, 61, 62, 63]
  = (0x691c6dc9, 0x7a35127d, 0x00aa79b6, 0x7f3ade3d)"
  by (simp add: md5_round_def md5_F_def md5_g_def md5_K_def md5_S_def rotl32_def)

lemma md5_12T_b0: "md5_block (0x67452301, 0xefcdab89, 0x98badcfe, 0x10325476)
    [0x80543231, 0x00000000, 0x00000000, 0x00000000, 0x00000000, 0x00000000, 0x00000000, 0x00000000, 0x00000000, 0x00000000, 0x00000000, 0x00000000, 0x00000000, 0x00000000, 0x00000018, 0x00000000]
  = (0xd06190ca, 0x6a02be06, 0x996556b4, 0x8f6d32b3)"
proof -
  have "foldl (md5_round [0x80543231, 0x00000000, 0x00000000, 0x00000000, 0x00000000, 0x00000000, 0x00000000, 0x00000000, 0x00000000, 0x00000000, 0x00000000, 0x00000000, 0x00000000, 0x00000000, 0x00000018, 0x00000000])
      (0x67452301, 0xefcdab89, 0x98badcfe, 0x10325476) [0..<64] = (0x691c6dc9, 0x7a35127d, 0x00aa79b6, 0x7f3ade3d)"
    unfolding upt64 by (simp only: foldl_append md5_12T_b0_r0 md5_12T_b0_r1 md5_12T_b0_r2 md5_12T_b0_r3)
  then show ?thesis by (simp add: md5_block_def)
qed

lemma md5_12T_digest: "md5_hex ''12T'' = ''ca9061d006be026ab4566599b3326d8f''"
  by (simp add: md5_hex_def md5_def md5_12T_bytes md5_12T_pad md5_12T_words md5_12T_b0 le_bytes_4
      hex_of_bytes_def hex_digit_def)

lemma md5_21T_bytes: "bytes_of ''21T'' = [50, 49, 84]"
  by (simp add: bytes_of_def utf8_def)

lemma md5_21T_pad: "md5_pad [50, 49, 84] =
  [50, 49, 84, 128, 0, 0, 0, 0, 0, 0, 0, 0, 0, 0, 0, 0, 0, 0, 0, 0, 0, 0, 0, 0, 0, 0, 0, 0, 0, 0, 0, 0, 0, 0, 0, 0, 0, 0, 0, 0, 0, 0, 0, 0, 0, 0, 0, 0, 0, 0, 0, 0, 0, 0, 0, 0, 24, 0, 0, 0, 0, 0, 0, 0]"
  by (simp add: md5_pad_def pad_zeros_def replicate_numeral le_bytes_8 le_bytes_4)

lemma md5_21T_words: "le_words
  [50, 49, 84, 128, 0, 0, 0, 0, 0, 0, 0, 0, 0, 0, 0, 0, 0, 0, 0, 0, 0, 0, 0, 0, 0, 0, 0, 0, 0, 0, 0, 0, 0, 0, 0, 0, 0, 0, 0, 0, 0, 0, 0, 0, 0, 0, 0, 0, 0, 0, 0, 0, 0, 0, 0, 0, 24, 0, 0, 0, 0, 0, 0, 0] =
  [0x80543132, 0x00000000, 0x00000000, 0x00000000, 0x00000000, 0x00000000, 0x00000000, 0x00000000, 0x00000000, 0x00000000, 0x00000000, 0x00000000, 0x00000000, 0x00000000, 0x00000018, 0x00000000]"
  by simp

lemma md5_21T_b0_r0: "foldl (md5_round [0x80543132, 0x00000000, 0x00000000, 0x00000000, 0x00000000, 0x00000000, 0x00000000, 0x00000000, 0x00000000, 0x00000000, 0x00000000, 0x00000000, 0x00000000, 0x00000000, 0x00000018, 0x00000000])
    (0x67452301, 0xefcdab89, 0x98badcfe, 0x10325476) [0, 1, 2, 3, 4, 5, 6, 7, 8, 9, 10, 11, 12, 13, 14, 15]
  = (0x13a8c2ed, 0x69a16f59, 0x566dfaaf, 0x164f00f4)"
  by (simp add: md5_round_def md5_F_def md5_g_def md5_K_def md5_S_def rotl32_def)

lemma md5_21T_b0_r1: "foldl (md5_round [0x80543132, 0x00000000, 0x00000000, 0x00000000, 0x00000000, 0x00000000, 0x00000000, 0x00000000, 0x00000000, 0x00000000, 0x00000000, 0x00000000, 0x00000000, 0x00000000, 0x00000018, 0x00000000])
    (0x13a8c2ed, 0x69a16f59, 0x566dfaaf, 0x164f00f4) [16, 17, 18, 19, 20, 21, 22, 23, 24, 25, 26, 27, 28, 29, 30, 31]
  = (0x6a7de47e, 0x4c5a1b37, 0xa42664b2, 0x35d8d897)"
  by (simp add: md5_round_def md5_F_def md5_g_def md5_K_def md5_S_def rotl32_def)

lemma md5_21T_b0_r2: "foldl (md5_round [0x80543132, 0x00000000, 0x00000000, 0x00000000, 0x00000000, 0x00000000, 0x00000000, 0x00000000, 0x00000000, 0x00000000, 0x00000000, 0x00000000, 0x00000000, 0x00000000, 0x00000018, 0x00000000])
    (0x6a7de47e, 0x4c5a1b37, 0xa42664b2, 0x35d8d897) [32, 33, 34, 35, 36, 37, 38, 39, 40, 41, 42, 43, 44, 45, 46, 47]
  = (0x8e0a28bf, 0x3deb0e4f, 0xa35d1dcc, 0x3cf8b077)"
  by (simp add: md5_round_def md5_F_def md5_g_def md5_K_def md5_S_def rotl32_def)

lemma md5_21T_b0_r3: "foldl (md5_round [0x80543132, 0x00000000, 0x00000000, 0x00000000, 0x00000000, 0x00000000, 0x00000000, 0x00000000, 0x00000000, 0x00000000, 0x00000000, 0x00000000, 0x00000000, 0x00000000, 0x00000018, 0x00000000])
    (0x8e0a28bf, 0x3deb0e4f, 0xa35d1dcc, 0x3cf8b077) [48, 49, 50, 51, 52, 53, 54, 55, 56, 57, 58, 59, 60, 61, 62, 63]
  = (0x1d73cc7b, 0x5b57b51a, 0x2ba75815, 0xc26bf0c0)"
  by (simp add: md5_round_def md5_F_def md5_g_def md5_K_def md5_S_def rotl32_def)

lemma md5_21T_b0: "md5_block (0x67452301, 0xefcdab89, 0x98badcfe, 0x10325476)
    [0x80543132, 0x00000000, 0x00000000, 0x00000000, 0x00000000, 0x00000000, 0x00000000, 0x00000000, 0x00000000, 0x00000000, 0x00000000, 0x00000000, 0x00000000, 0x00000000, 0x00000018, 0x00000000]
  = (0x84b8ef7c, 0x4b2560a3, 0xc4623513, 0xd29e4536)"
proof -
  have "foldl (md5_round [0x80543132, 0x00000000, 0x00000000, 0x00000000, 0x00000000, 0x00000000, 0x00000000, 0x00000000, 0x00000000, 0x00000000, 0x00000000, 0x00000000, 0x00000000, 0x00000000, 0x00000018, 0x00000000])
      (0x67452301, 0xefcdab89, 0x98badcfe, 0x10325476) [0..<64] = (0x1d73cc7b, 0x5b57b51a, 0x2ba75815, 0xc26bf0c0)"
    unfolding upt64 by (simp only: foldl_append md5_21T_b0_r0 md5_21T_b0_r1 md5_21T_b0_r2 md5_21T_b0_r3)
  then show ?thesis by (simp add: md5_block_def)
qed

lemma md5_21T_digest: "md5_hex ''21T'' = ''7cefb884a360254b133562c436459ed2''"
  by (simp add: md5_hex_def md5_def md5_21T_bytes md5_21T_pad md5_21T_words md5_21T_b0 le_bytes_4
      hex_of_bytes_def hex_digit_def)

subsection \<open>The concatenation signature\<close>

lemma getSig2_concat:
  "getSig2 c data = md5_hex (concat (map (\<lambda>e. field_string (snd e)) data) @ authToken c)"
  by (simp add: getSig2_def Object_values_def comp_def)

text \<open>
  Claim C4, as amended. For an object whose keys come in insertion order, the concatenation
  signature is the lowercase hexadecimal MD5 (32 digits) of the values of the mapping, joined
  in insertion order, followed by the token. The order matters through that string only: two
  orders of one mapping whose values join to the same string have the same digest. For
  \<^verbatim>\<open>{a: "1", b: "2"}\<close> the orders a,b and b,a hash the different strings \<^verbatim>\<open>12\<close> + token and
  \<^verbatim>\<open>21\<close> + token.
\<close>

theorem concatenation_signature:
  assumes "insertion_ordered data"
  shows "getSig2 c data = md5_hex (concat (map (\<lambda>e. field_string (snd e)) data) @ authToken c)
   \<and> length (getSig2 c data) = 32 \<and> list_all is_lower_hex (getSig2 c data)
   \<and> (\<forall>data'. concat (map (\<lambda>e. field_string (snd e)) data')
                   = concat (map (\<lambda>e. field_string (snd e)) data)
                 \<longrightarrow> getSig2 c data' = getSig2 c data)
   \<and> getSig2 c [(''a'', FStr ''1''), (''b'', FStr ''2'')] = md5_hex (''12'' @ authToken c)
   \<and> getSig2 c [(''b'', FStr ''2''), (''a'', FStr ''1'')] = md5_hex (''21'' @ authToken c)
   \<and> ''12'' @ authToken c \<noteq> ''21'' @ authToken c"
  by (simp add: getSig2_concat md5_hex_format)

text \<open>With the token \<^verbatim>\<open>T\<close> the two orders of \<^verbatim>\<open>{a: "1", b: "2"}\<close> have different digests.\<close>

theorem concatenation_signature_witness:
  "insertion_ordered [(''a'', FStr ''1''), (''b'', FStr ''2'')]
   \<and> getSig2 ready_client [(''a'', FStr ''1''), (''b'', FStr ''2'')]
       = ''ca9061d006be026ab4566599b3326d8f''
   \<and> getSig2 ready_client [(''b'', FStr ''2''), (''a'', FStr ''1'')]
       = ''7cefb884a360254b133562c436459ed2''
   \<and> getSig2 ready_client [(''a'', FStr ''1''), (''b'', FStr ''2'')]
       \<noteq> getSig2 ready_client [(''b'', FStr ''2''), (''a'', FStr ''1'')]"
proof -
  have ordered: "insertion_ordered [(''a'', FStr ''1''), (''b'', FStr ''2'')]"
    by (simp add: insertion_ordered_def array_index_def is_digit_def)
  have tok: "authToken ready_client = ''T''" by (simp add: ready_client_def fresh_client_def)
  from concatenation_signature [OF ordered, of ready_client]
  have "getSig2 ready_client [(''a'', FStr ''1''), (''b'', FStr ''2'')] = md5_hex ''12T''"
    and "getSig2 ready_client [(''b'', FStr ''2''), (''a'', FStr ''1'')] = md5_hex ''21T''"
    by (simp_all add: tok)
  with ordered show ?thesis by (simp add: md5_12T_digest md5_21T_digest)
qed

text \<open>Two insertion orders of one mapping with the same digest: the claim's \<open>must differ\<close>
  fails where the values, joined, read the same.\<close>

theorem concatenation_signature_order_counterexample:
  "getSig2 ready_client [(''a'', FStr ''1''), (''b'', FStr ''1'')]
     = getSig2 ready_client [(''b'', FStr ''1''), (''a'', FStr ''1'')]"
  by (simp add: getSig2_def Object_values_def)

subsection \<open>The canonical encoding\<close>

lemma fst_replace: "map fst (map (\<lambda>e. if fst e = k then (k, v) else e) d) = map fst d"
  by (induction d) simp_all

lemma keys_obj_set:
  "map fst (obj_set d k v) = (if k \<in> set (map fst d) then map fst d else map fst d @ [k])"
  unfolding obj_set_def by (simp add: fst_replace del: map_map)

lemma distinct_obj_set:
  "distinct (map fst d) \<Longrightarrow> distinct (map fst (obj_set d k v))"
  by (simp add: keys_obj_set)

lemma map_of_replace_same:
  "map_of (map (\<lambda>e. if fst e = k then (k, v) else e) d) k =
     (if k \<in> fst ` set d then Some v else None)"
  by (induction d) auto

lemma map_of_replace_other:
  "x \<noteq> k \<Longrightarrow> map_of (map (\<lambda>e. if fst e = k then (k, v) else e) d) x = map_of d x"
  by (induction d) auto

lemma map_of_obj_set:
  "map_of (obj_set d k v) = (map_of d)(k \<mapsto> v)"
proof (rule ext)
  fix x
  show "map_of (obj_set d k v) x = ((map_of d)(k \<mapsto> v)) x"
  proof (cases "k \<in> fst ` set d")
    case True
    then show ?thesis
      by (cases "x = k") (simp_all add: obj_set_def map_of_replace_same map_of_replace_other)
  next
    case False
    then have "map_of d k = None" by (simp add: map_of_eq_None_iff)
    then show ?thesis
      using False by (simp add: obj_set_def map_add_def split: option.splits)
  qed
qed


lemma sorted_keys:
  assumes "distinct (map fst d)"
  shows "sort (Object_keys d) = sorted_list_of_set (dom (map_of d))"
    and "sorted_wrt (<) (sort (Object_keys d))"
proof -
  have "sorted_list_of_set (dom (map_of d)) = sort (remdups (map fst d))"
    by (simp only: dom_map_of_conv_image_fst sorted_list_of_set_sort_remdups flip: set_map)
  with assms show "sort (Object_keys d) = sorted_list_of_set (dom (map_of d))"
    by (simp only: Object_keys_def distinct_remdups_id)
  from assms have "distinct (sort (Object_keys d))" by (simp only: Object_keys_def distinct_sort)
  then show "sorted_wrt (<) (sort (Object_keys d))"
    by (simp only: strict_sorted_iff sorted_sort simp_thms)
qed

lemma template_of_field:
  "k \<in> set (map fst d) \<Longrightarrow> template_of d k = field_string (the (map_of d k))"
proof -
  assume "k \<in> set (map fst d)"
  then have "map_of d k \<noteq> None" by (simp add: map_of_eq_None_iff)
  then show ?thesis by (cases "map_of d k") (simp_all add: template_of_def)
qed

lemma objectToQuery_canonical:
  assumes "distinct (map fst d)"
  shows "objectToQuery d = canonical_encode (map_of d)"
proof -
  have "map (\<lambda>key. key @ ''='' @ template_of d key) (sort (Object_keys d))
      = map (\<lambda>k. k @ ''='' @ field_string (the (map_of d k))) (sort (Object_keys d))"
  proof (rule map_cong [OF refl])
    fix k assume "k \<in> set (sort (Object_keys d))"
    then have "k \<in> set (map fst d)" by (simp only: Object_keys_def set_sort)
    then show "k @ ''='' @ template_of d k = k @ ''='' @ field_string (the (map_of d k))"
      by (simp only: template_of_field)
  qed
  then show ?thesis
    unfolding objectToQuery_def canonical_encode_def Let_def sorted_keys(1) [OF assms]
    by (rule arg_cong)
qed

text \<open>
  Claim C5. For an object (its keys distinct, as an object's are) the canonical-query
  signature is the lowercase hexadecimal SHA-1 (40 digits) of the specification's canonical
  encoding of the mapping with the extra field \<^verbatim>\<open>authToken\<close>: the keys, strictly ascending,
  each as \<^verbatim>\<open>key=value\<close>, joined with \<^verbatim>\<open>&\<close>, nothing escaped.
\<close>

theorem canonical_query_signature:
  assumes "distinct (map fst data)"
  shows "fst (getSig3 c data)
           = sha1_hex (canonical_encode ((map_of data)(''authToken'' \<mapsto> FStr (authToken c))))
     \<and> length (fst (getSig3 c data)) = 40 \<and> list_all is_lower_hex (fst (getSig3 c data))
     \<and> sorted_wrt (<) (sort (Object_keys (snd (getSig3 c data))))
     \<and> map_of (snd (getSig3 c data)) = (map_of data)(''authToken'' \<mapsto> FStr (authToken c))"
proof -
  let ?d = "obj_set data ''authToken'' (FStr (authToken c))"
  have d: "distinct (map fst ?d)" using assms by (rule distinct_obj_set)
  have "objectToQuery ?d = canonical_encode ((map_of data)(''authToken'' \<mapsto> FStr (authToken c)))"
    using objectToQuery_canonical [OF d] by (simp only: map_of_obj_set)
  moreover have "sorted_wrt (<) (sort (Object_keys ?d))" using d by (rule sorted_keys(2))
  ultimately show ?thesis
    by (simp add: getSig3_def Let_def sha1_hex_format map_of_obj_set)
qed

theorem canonical_query_signature_witness:
  "distinct (map fst [(''b'', FStr ''2''), (''a'', FNum 1)])
   \<and> fst (getSig3 ready_client [(''b'', FStr ''2''), (''a'', FNum 1)])
       = sha1_hex (canonical_encode
           ((map_of [(''b'', FStr ''2''), (''a'', FNum 1)])(''authToken'' \<mapsto> FStr ''T'')))
   \<and> fst (getSig3 ready_client [(''b'', FStr ''2''), (''a'', FNum 1)])
       = sha1_hex ''a=1&authToken=T&b=2''"
proof -
  have d: "distinct (map fst [(''b'', FStr ''2''), (''a'', FNum 1)])" by simp
  have tok: "authToken ready_client = ''T''" by (simp add: ready_client_def fresh_client_def)
  have "fst (getSig3 ready_client [(''b'', FStr ''2''), (''a'', FNum 1)])
          = sha1_hex ''a=1&authToken=T&b=2''"
    by (simp add: getSig3_def objectToQuery_def obj_set_def Object_keys_def template_of_def tok
        dec_examples)
  with d canonical_query_signature [OF d, of ready_client] show ?thesis
    by (simp add: tok)
qed

subsection \<open>The link\<close>

lemma encodeURIComponent_Cons:
  "encodeURIComponent (c # s) = encodeURIComponent [c] @ encodeURIComponent s"
  by (simp add: encodeURIComponent_def)

lemma encodeURIComponent_append:
  "encodeURIComponent (s @ t) = encodeURIComponent s @ encodeURIComponent t"
  by (simp add: encodeURIComponent_def)

lemma b64_char_escaped: "\<forall>x\<in>set (encodeURIComponent [b64_char n]). url_safe x"
proof -
  define P where "P c \<longleftrightarrow> (\<forall>x\<in>set (encodeURIComponent [c]). url_safe x)" for c
  have "list_all (\<lambda>c. list_all url_safe (encodeURIComponent [c]))
          ''ABCDEFGHIJKLMNOPQRSTUVWXYZabcdefghijklmnopqrstuvwxyz0123456789+/''"
    by (simp add: encodeURIComponent_def unreserved_def is_alnum_def url_safe_def percent_byte_def
        utf8_def toUpperCase_def upper_char_def hex_digit_def)
  then have all: "\<forall>c\<in>set ''ABCDEFGHIJKLMNOPQRSTUVWXYZabcdefghijklmnopqrstuvwxyz0123456789+/''. P c"
    unfolding P_def list_all_iff .
  have "b64_char n \<in> set ''ABCDEFGHIJKLMNOPQRSTUVWXYZabcdefghijklmnopqrstuvwxyz0123456789+/''"
    unfolding b64_char_def by (rule nth_mem) simp
  with all have "P (b64_char n)" by (rule bspec)
  then show ?thesis unfolding P_def .
qed

lemma equals_escaped: "\<forall>x\<in>set (encodeURIComponent ''=''). url_safe x"
  by (simp add: encodeURIComponent_def unreserved_def is_alnum_def url_safe_def percent_byte_def
      utf8_def toUpperCase_def upper_char_def hex_digit_def)

lemma b64_escaped: "\<forall>x\<in>set (encodeURIComponent (b64 bs)). url_safe x"
proof (induction bs rule: b64.induct)
  case (1 a b c r)
  have "\<forall>x\<in>set (encodeURIComponent
            ([b64_char (a div 4)] @ [b64_char ((a mod 4) * 16 + b div 16)]
             @ [b64_char ((b mod 16) * 4 + c div 64)] @ [b64_char c] @ b64 r)). url_safe x"
    unfolding encodeURIComponent_append using 1 b64_char_escaped by (simp add: ball_Un)
  then show ?case by simp
next
  case (2 a b)
  have "\<forall>x\<in>set (encodeURIComponent
            ([b64_char (a div 4)] @ [b64_char ((a mod 4) * 16 + b div 16)]
             @ [b64_char ((b mod 16) * 4)] @ ''='')). url_safe x"
    unfolding encodeURIComponent_append using b64_char_escaped equals_escaped
    by (simp add: ball_Un)
  then show ?case by simp
next
  case (3 a)
  have "\<forall>x\<in>set (encodeURIComponent
            ([b64_char (a div 4)] @ [b64_char ((a mod 4) * 16)] @ ''='' @ ''='')). url_safe x"
    unfolding encodeURIComponent_append using b64_char_escaped equals_escaped
    by (simp add: ball_Un)
  then show ?case by simp
next
  case 4
  show ?case by (simp add: encodeURIComponent_def)
qed

lemma getLink_reaches:
  assumes "mobile \<noteq> []" "communityNo c = Some n" "n \<noteq> 0"
  shows "getLink w c mobile areaCode cardNo cardType =
     (case public_encrypt w (publicKey c)
             (bytes_of (objectToQuery
                [(''id'', FStr (accountSid c)), (''token'', FStr (authToken c)),
                 (''communityNo'', FStr (dec_int n)), (''time'', FNum (now_ms w div 1000)),
                 (''mobile'', FStr mobile), (''areaCode'', FStr areaCode),
                 (''cardNo'', FStr cardNo), (''cardType'', FNum cardType)])) of
        None \<Rightarrow> (Inl (Error ''failed to generate link.''), w)
      | Some ct \<Rightarrow> (Inr (cardHost c @ ''apiLogin/?data='' @ encodeURIComponent (b64 ct)), w))"
proof -
  let ?q = "objectToQuery
              [(''id'', FStr (accountSid c)), (''token'', FStr (authToken c)),
               (''communityNo'', FStr (dec_int n)), (''time'', FNum (now_ms w div 1000)),
               (''mobile'', FStr mobile), (''areaCode'', FStr areaCode),
               (''cardNo'', FStr cardNo), (''cardType'', FNum cardType)]"
  have step: "getLink w c mobile areaCode cardNo cardType =
     (case publicEncrypt w c ?q of
        None \<Rightarrow> (Inl (Error ''failed to generate link.''), w)
      | Some encrypted \<Rightarrow>
          (Inr (cardHost c @ ''apiLogin/?data='' @ encodeURIComponent encrypted), w))"
    unfolding getLink_def Let_def
    by (simp only: checkCommunityNo_set [OF assms(2,3)] communityNo_toString_set [OF assms(2)]
        assms(1) attempt_Inr if_False)
  show ?thesis
    unfolding step publicEncrypt_def
    by (cases "public_encrypt w (publicKey c) (bytes_of ?q)") simp_all
qed

lemma link_query:
  "objectToQuery
     [(''id'', FStr sid), (''token'', FStr tok), (''communityNo'', FStr no), (''time'', FNum t),
      (''mobile'', FStr mobile), (''areaCode'', FStr areaCode), (''cardNo'', FStr cardNo),
      (''cardType'', FNum cardType)]
   = ''areaCode='' @ areaCode @ ''&cardNo='' @ cardNo @ ''&cardType='' @ dec_int cardType
     @ ''&communityNo='' @ no @ ''&id='' @ sid @ ''&mobile='' @ mobile
     @ ''&time='' @ dec_int t @ ''&token='' @ tok"
  by (simp add: objectToQuery_def Object_keys_def template_of_def)

lemma unsafe_not_within:
  assumes "\<forall>x\<in>set e. url_safe x" and "ch \<in> set tok" "\<not> url_safe ch" "ch \<notin> set p"
  shows "\<not> sublist tok (p @ e)"
proof
  assume "sublist tok (p @ e)"
  then have "set tok \<subseteq> set (p @ e)" by (rule set_mono_sublist)
  with assms(2) have "ch \<in> set p \<or> ch \<in> set e" by auto
  with assms(1,3,4) show False by auto
qed

text \<open>
  Claim C8, as amended. With the community number set and a mobile number given,
  \<^verbatim>\<open>getLink\<close> encrypts the canonical encoding of its eight fields (the token among them) and
  returns \<^verbatim>\<open>{cardHost}apiLogin/?data=\<close> followed by the percent-encoded base64 of the
  ciphertext; when the encryption fails it fails with \<^verbatim>\<open>failed to generate link.\<close> What
  follows the prefix consists of letters, digits and \<^verbatim>\<open>%\<close>, so that a token with a character
  that is none of these, and is not in the prefix either, is not contained in the link.
\<close>

theorem getLink_encrypted_url:
  assumes "mobile \<noteq> []" "communityNo c = Some n" "n \<noteq> 0"
  shows
    "getLink w c mobile areaCode cardNo cardType =
       (case public_encrypt w (publicKey c)
               (bytes_of (canonical_encode (map_of
                 [(''id'', FStr (accountSid c)), (''token'', FStr (authToken c)),
                  (''communityNo'', FStr (dec_int n)), (''time'', FNum (now_ms w div 1000)),
                  (''mobile'', FStr mobile), (''areaCode'', FStr areaCode),
                  (''cardNo'', FStr cardNo), (''cardType'', FNum cardType)]))) of
          None \<Rightarrow> (Inl (Error ''failed to generate link.''), w)
        | Some ct \<Rightarrow>
            (Inr (cardHost c @ ''apiLogin/?data='' @ encodeURIComponent (b64 ct)), w))
     \<and> canonical_encode (map_of
                 [(''id'', FStr (accountSid c)), (''token'', FStr (authToken c)),
                  (''communityNo'', FStr (dec_int n)), (''time'', FNum (now_ms w div 1000)),
                  (''mobile'', FStr mobile), (''areaCode'', FStr areaCode),
                  (''cardNo'', FStr cardNo), (''cardType'', FNum cardType)])
         = ''areaCode='' @ areaCode @ ''&cardNo='' @ cardNo @ ''&cardType='' @ dec_int cardType
           @ ''&communityNo='' @ dec_int n @ ''&id='' @ accountSid c @ ''&mobile='' @ mobile
           @ ''&time='' @ dec_int (now_ms w div 1000) @ ''&token='' @ authToken c
     \<and> (\<forall>url. fst (getLink w c mobile areaCode cardNo cardType) = Inr url \<longrightarrow>
            take (length (cardHost c @ ''apiLogin/?data='')) url = cardHost c @ ''apiLogin/?data=''
            \<and> list_all url_safe (drop (length (cardHost c @ ''apiLogin/?data='')) url)
            \<and> ((\<exists>ch\<in>set (authToken c).
                    \<not> url_safe ch \<and> ch \<notin> set (cardHost c @ ''apiLogin/?data=''))
                 \<longrightarrow> \<not> sublist (authToken c) url))"
proof -
  let ?fields = "[(''id'', FStr (accountSid c)), (''token'', FStr (authToken c)),
                  (''communityNo'', FStr (dec_int n)), (''time'', FNum (now_ms w div 1000)),
                  (''mobile'', FStr mobile), (''areaCode'', FStr areaCode),
                  (''cardNo'', FStr cardNo), (''cardType'', FNum cardType)]"
  let ?p = "cardHost c @ ''apiLogin/?data=''"
  have canon: "objectToQuery ?fields = canonical_encode (map_of ?fields)"
    by (rule objectToQuery_canonical) simp
  note reach = getLink_reaches [OF assms, of w areaCode cardNo cardType, unfolded canon]
  have url: "take (length ?p) url = ?p \<and> list_all url_safe (drop (length ?p) url)
             \<and> ((\<exists>ch\<in>set (authToken c). \<not> url_safe ch \<and> ch \<notin> set ?p)
                  \<longrightarrow> \<not> sublist (authToken c) url)"
    if "fst (getLink w c mobile areaCode cardNo cardType) = Inr url" for url
  proof -
    from that obtain ct where u: "url = ?p @ encodeURIComponent (b64 ct)"
      unfolding reach by (auto split: option.splits)
    have safe: "\<forall>x\<in>set (encodeURIComponent (b64 ct)). url_safe x" by (rule b64_escaped)
    have "\<not> sublist (authToken c) url"
      if "\<exists>ch\<in>set (authToken c). \<not> url_safe ch \<and> ch \<notin> set ?p"
    proof -
      from that obtain ch where "ch \<in> set (authToken c)" "\<not> url_safe ch" "ch \<notin> set ?p"
        by blast
      with safe show ?thesis unfolding u by (rule unsafe_not_within)
    qed
    moreover have "take (length ?p) url = ?p" unfolding u by simp
    moreover have "list_all url_safe (drop (length ?p) url)"
      unfolding u using safe by (simp add: list_all_iff)
    ultimately show ?thesis by blast
  qed
  have "canonical_encode (map_of ?fields)
         = ''areaCode='' @ areaCode @ ''&cardNo='' @ cardNo @ ''&cardType='' @ dec_int cardType
           @ ''&communityNo='' @ dec_int n @ ''&id='' @ accountSid c @ ''&mobile='' @ mobile
           @ ''&time='' @ dec_int (now_ms w div 1000) @ ''&token='' @ authToken c"
    unfolding canon [symmetric] by (rule link_query)
  with reach url show ?thesis by blast
qed

lemma dec_example_numbers:
  "dec_int 123456789 = ''123456789''" "dec_int 1704110400 = ''1704110400''"
  by (simp_all add: dec_int_def dec_nat.simps digit_char_def)

theorem getLink_encrypted_url_witness:
  "fst (getLink (example_world (reply_with Null)) (ready_client\<lparr>authToken := ''s3cr#t''\<rparr>)
          ''13800000000'' ''021'' [] 0)
     = Inr (''http://cz.uclbrt.com/apiLogin/?data=''
            @ encodeURIComponent (b64 (rev (bytes_of
                (''areaCode=021&cardNo=&cardType=0&communityNo=123456789&id=A''
                 @ ''&mobile=13800000000&time=1704110400&token=s3cr#t'')))))
   \<and> \<not> sublist ''s3cr#t''
         (''http://cz.uclbrt.com/apiLogin/?data=''
          @ encodeURIComponent (b64 (rev (bytes_of
              (''areaCode=021&cardNo=&cardType=0&communityNo=123456789&id=A''
               @ ''&mobile=13800000000&time=1704110400&token=s3cr#t'')))))"
proof -
  let ?c = "ready_client\<lparr>authToken := ''s3cr#t''\<rparr>"
  let ?w = "example_world (reply_with Null)"
  let ?url = "''http://cz.uclbrt.com/apiLogin/?data=''
          @ encodeURIComponent (b64 (rev (bytes_of
              (''areaCode=021&cardNo=&cardType=0&communityNo=123456789&id=A''
               @ ''&mobile=13800000000&time=1704110400&token=s3cr#t''))))"
  have m: "''13800000000'' \<noteq> []" by simp
  have no: "communityNo ?c = Some 123456789" "(123456789::int) \<noteq> 0"
    by (simp_all add: ready_client_def)
  have fields: "accountSid ?c = ''A''" "authToken ?c = ''s3cr#t''"
    "cardHost ?c = ''http://cz.uclbrt.com/''" "now_ms ?w div 1000 = 1704110400"
    "public_encrypt ?w = (\<lambda>key data. Some (rev data))"
    by (simp_all add: ready_client_def fresh_client_def example_world_def)
  note inst = getLink_encrypted_url [OF m no, of ?w "''021''" "[]" 0]
  have link: "fst (getLink ?w ?c ''13800000000'' ''021'' [] 0) = Inr ?url"
    using inst by (simp add: fields dec_examples dec_example_numbers)
  have unsafe: "\<exists>ch\<in>set (authToken ?c).
                  \<not> url_safe ch \<and> ch \<notin> set (cardHost ?c @ ''apiLogin/?data='')"
    by (simp add: fields url_safe_def is_alnum_def)
  from inst link unsafe have "\<not> sublist (authToken ?c) ?url" by blast
  with link show ?thesis by (simp only: fields simp_thms)
qed

text \<open>The claim's \<open>never\<close> fails for a token that the prefix of the link happens to contain:
  with the token \<^verbatim>\<open>data\<close> the link \<^verbatim>\<open>http://cz.uclbrt.com/apiLogin/?data=...\<close> contains it.\<close>

theorem getLink_contains_token_counterexample:
  "(case fst (getLink (example_world (reply_with Null)) (ready_client\<lparr>authToken := ''data''\<rparr>)
                ''13800000000'' ''021'' [] 0) of
      Inl e \<Rightarrow> False
    | Inr link \<Rightarrow> sublist (authToken (ready_client\<lparr>authToken := ''data''\<rparr>)) link)"
proof -
  let ?c = "ready_client\<lparr>authToken := ''data''\<rparr>"
  let ?w = "example_world (reply_with Null)"
  have m: "''13800000000'' \<noteq> []" by simp
  have no: "communityNo ?c = Some 123456789" "(123456789::int) \<noteq> 0"
    by (simp_all add: ready_client_def)
  have fields: "cardHost ?c = ''http://cz.uclbrt.com/''" "authToken ?c = ''data''"
    "public_encrypt ?w = (\<lambda>key data. Some (rev data))"
    by (simp_all add: ready_client_def fresh_client_def example_world_def)
  obtain e where link: "fst (getLink ?w ?c ''13800000000'' ''021'' [] 0)
      = Inr (''http://cz.uclbrt.com/apiLogin/?'' @ ''data'' @ (''='' @ e))"
    unfolding getLink_reaches [OF m no] by (simp add: fields)
  have "sublist ''data'' (''http://cz.uclbrt.com/apiLogin/?'' @ ''data'' @ (''='' @ e))"
    by (rule sublist_appendI)
  then show ?thesis unfolding link fields by simp
qed

subsection \<open>The records family\<close>

lemma sent_form_post:
  "sent (snd (andThen (curlPost w u [] d Form_urlencoded) f)) = sent w @ [form_post u d]"
  by (simp add: snd_andThen sent_curlPost form_post_def content_type_def LIB_VERSION_def)

lemma obj_set_new: "k \<notin> fst ` set d \<Longrightarrow> obj_set d k v = d @ [(k, v)]"
  by (simp add: obj_set_def)

lemma qs_stringify_snoc:
  "d \<noteq> [] \<Longrightarrow>
   qs_stringify (d @ [(k, v)])
     = qs_stringify d @ ''&'' @ encodeURIComponent k @ ''='' @ encodeURIComponent (field_string v)"
proof -
  have "xs \<noteq> [] \<Longrightarrow> join sep (xs @ [y]) = join sep xs @ sep @ y" for sep xs y
    by (induction sep xs rule: join.induct) simp_all
  then show "d \<noteq> [] \<Longrightarrow> ?thesis" by (simp add: qs_stringify_def)
qed

lemma encodeURIComponent_unreserved:
  "list_all unreserved s \<Longrightarrow> encodeURIComponent s = s"
  by (induction s) (simp_all add: encodeURIComponent_def)

lemma encodeURIComponent_authToken: "encodeURIComponent ''authToken'' = ''authToken''"
  by (rule encodeURIComponent_unreserved) (simp add: unreserved_def is_alnum_def)

lemma getSig3_new:
  "''authToken'' \<notin> fst ` set data \<Longrightarrow>
   snd (getSig3 c data) = data @ [(''authToken'', FStr (authToken c))]"
  by (simp add: getSig3_def Let_def obj_set_new)

lemma sent_getRecordsByRoom:
  assumes "communityNo c = Some n"
  shows "sent (snd (getRecordsByRoom w c buildNo floorNo roomNo startDate endDate recordType holderFrom))
         = sent w @
           [form_post
              (apiHost c @ ''Home/Records/queryByRoom?sig='' @ fst (getSig3 c
                [(''accountSid'', FStr (accountSid c)),
                 (''timestamp'', FNum (now_ms w div 1000)),
                 (''rand'', FNum (int (math_random w))),
                 (''communityNo'', FStr (dec_int n)),
                 (''buildNo'', FStr buildNo), (''floorNo'', FStr floorNo),
                 (''roomNo'', FStr roomNo), (''startDate'', FStr startDate),
                 (''endDate'', FStr endDate), (''recordType'', FNum recordType),
                 (''holderFrom'', FNum holderFrom)]))
              ([(''accountSid'', FStr (accountSid c)),
                 (''timestamp'', FNum (now_ms w div 1000)),
                 (''rand'', FNum (int (math_random w))),
                 (''communityNo'', FStr (dec_int n)),
                 (''buildNo'', FStr buildNo), (''floorNo'', FStr floorNo),
                 (''roomNo'', FStr roomNo), (''startDate'', FStr startDate),
                 (''endDate'', FStr endDate), (''recordType'', FNum recordType),
                 (''holderFrom'', FNum holderFrom)]
               @ [(''authToken'', FStr (authToken c))])]"
  unfolding getRecordsByRoom_def Let_def
  by (simp only: communityNo_toString_set [OF assms] attempt_Inr sent_form_post)
    (simp add: getSig3_new)

lemma sent_fetchRoomInfo:
  assumes "communityNo c = Some n"
  shows "sent (snd (fetchRoomInfo w c))
         = sent w @
           [form_post
              (apiHost c @ ''Home/Records/fetchRoomInfo?sig='' @ fst (getSig3 c
                [(''accountSid'', FStr (accountSid c)),
                 (''timestamp'', FNum (now_ms w div 1000)),
                 (''communityNo'', FStr (dec_int n))]))
              ([(''accountSid'', FStr (accountSid c)),
                 (''timestamp'', FNum (now_ms w div 1000)),
                 (''communityNo'', FStr (dec_int n))]
               @ [(''authToken'', FStr (authToken c))])]"
  unfolding fetchRoomInfo_def Let_def
  by (simp only: communityNo_toString_set [OF assms] attempt_Inr sent_form_post)
    (simp add: getSig3_new)

lemma sent_getBoxInfo:
  assumes "communityNo c = Some n"
  shows "sent (snd (getBoxInfo w c))
         = sent w @
           [form_post
              (apiHost c @ ''Home/Records/getBoxInfo?sig='' @ fst (getSig3 c
                [(''accountSid'', FStr (accountSid c)),
                 (''timestamp'', FNum (now_ms w div 1000)),
                 (''communityNo'', FStr (dec_int n))]))
              ([(''accountSid'', FStr (accountSid c)),
                 (''timestamp'', FNum (now_ms w div 1000)),
                 (''communityNo'', FStr (dec_int n))]
               @ [(''authToken'', FStr (authToken c))])]"
  unfolding getBoxInfo_def Let_def
  by (simp only: communityNo_toString_set [OF assms] attempt_Inr sent_form_post)
    (simp add: getSig3_new)

text \<open>
  Claim C9, as amended. \<^verbatim>\<open>getSig3\<close> assigns the client's token to the field \<^verbatim>\<open>authToken\<close> of the
  object it is given. The three operations of the records family post that same object as a
  form: the one request each of them sends carries the fields it signed and then
  \<^verbatim>\<open>authToken\<close>, so that its body ends with \<^verbatim>\<open>&authToken=\<close> and the token, percent-encoded:
  the token itself when all its characters are unreserved.
\<close>

theorem records_body_carries_token:
  assumes "communityNo c = Some n"
  shows
    "snd (getSig3 c data) = obj_set data ''authToken'' (FStr (authToken c))
     \<and> sent (snd (getRecordsByRoom w c buildNo floorNo roomNo startDate endDate recordType holderFrom))
         = sent w @
           [form_post
              (apiHost c @ ''Home/Records/queryByRoom?sig='' @ fst (getSig3 c
                [(''accountSid'', FStr (accountSid c)),
                 (''timestamp'', FNum (now_ms w div 1000)),
                 (''rand'', FNum (int (math_random w))),
                 (''communityNo'', FStr (dec_int n)),
                 (''buildNo'', FStr buildNo), (''floorNo'', FStr floorNo),
                 (''roomNo'', FStr roomNo), (''startDate'', FStr startDate),
                 (''endDate'', FStr endDate), (''recordType'', FNum recordType),
                 (''holderFrom'', FNum holderFrom)]))
              ([(''accountSid'', FStr (accountSid c)),
                 (''timestamp'', FNum (now_ms w div 1000)),
                 (''rand'', FNum (int (math_random w))),
                 (''communityNo'', FStr (dec_int n)),
                 (''buildNo'', FStr buildNo), (''floorNo'', FStr floorNo),
                 (''roomNo'', FStr roomNo), (''startDate'', FStr startDate),
                 (''endDate'', FStr endDate), (''recordType'', FNum recordType),
                 (''holderFrom'', FNum holderFrom)]
               @ [(''authToken'', FStr (authToken c))])]
     \<and> sent (snd (fetchRoomInfo w c))
         = sent w @
           [form_post
              (apiHost c @ ''Home/Records/fetchRoomInfo?sig='' @ fst (getSig3 c
                [(''accountSid'', FStr (accountSid c)),
                 (''timestamp'', FNum (now_ms w div 1000)),
                 (''communityNo'', FStr (dec_int n))]))
              ([(''accountSid'', FStr (accountSid c)),
                 (''timestamp'', FNum (now_ms w div 1000)),
                 (''communityNo'', FStr (dec_int n))]
               @ [(''authToken'', FStr (authToken c))])]
     \<and> sent (snd (getBoxInfo w c))
         = sent w @
           [form_post
              (apiHost c @ ''Home/Records/getBoxInfo?sig='' @ fst (getSig3 c
                [(''accountSid'', FStr (accountSid c)),
                 (''timestamp'', FNum (now_ms w div 1000)),
                 (''communityNo'', FStr (dec_int n))]))
              ([(''accountSid'', FStr (accountSid c)),
                 (''timestamp'', FNum (now_ms w div 1000)),
                 (''communityNo'', FStr (dec_int n))]
               @ [(''authToken'', FStr (authToken c))])]
     \<and> (\<forall>d. d \<noteq> [] \<longrightarrow>
            qs_stringify (d @ [(''authToken'', FStr (authToken c))])
              = qs_stringify d @ ''&authToken='' @ encodeURIComponent (authToken c))
     \<and> (list_all unreserved (authToken c) \<longrightarrow> encodeURIComponent (authToken c) = authToken c)"
proof -
  have "snd (getSig3 c data) = obj_set data ''authToken'' (FStr (authToken c))"
    by (simp add: getSig3_def Let_def)
  moreover have "\<forall>d. d \<noteq> [] \<longrightarrow>
            qs_stringify (d @ [(''authToken'', FStr (authToken c))])
              = qs_stringify d @ ''&authToken='' @ encodeURIComponent (authToken c)"
    by (simp add: qs_stringify_snoc encodeURIComponent_authToken)
  moreover have "list_all unreserved (authToken c) \<longrightarrow> encodeURIComponent (authToken c) = authToken c"
    by (simp add: encodeURIComponent_unreserved)
  ultimately show ?thesis
    by (simp only: sent_getRecordsByRoom [OF assms] sent_fetchRoomInfo [OF assms]
        sent_getBoxInfo [OF assms] simp_thms)
qed

lemma escape_simps:
  "encodeURIComponent [] = []"
  "encodeURIComponent (ch # t) =
     (if unreserved ch then [ch] else concat (map percent_byte (utf8 ch))) @ encodeURIComponent t"
  by (simp_all add: encodeURIComponent_def)

lemmas form_body_simps =
  form_post_def qs_stringify_def escape_simps unreserved_def is_alnum_def percent_byte_def
  utf8_def toUpperCase_def upper_char_def hex_digit_def dec_example_numbers

theorem records_body_carries_token_witness:
  "map body (sent (snd (fetchRoomInfo (example_world (reply_with Null)) ready_client)))
     = [FormBody ''accountSid=A&timestamp=1704110400&communityNo=123456789&authToken=T'']
   \<and> map body (sent (snd (getBoxInfo (example_world (reply_with Null)) ready_client)))
     = [FormBody ''accountSid=A&timestamp=1704110400&communityNo=123456789&authToken=T'']"
proof -
  let ?w = "example_world (reply_with Null)"
  have no: "communityNo ready_client = Some 123456789" by (simp add: ready_client_def)
  have fields: "accountSid ready_client = ''A''" "authToken ready_client = ''T''"
    "now_ms ?w div 1000 = 1704110400" "sent ?w = []"
    by (simp_all add: ready_client_def fresh_client_def example_world_def)
  note inst = records_body_carries_token [OF no, where w = ?w and data = "[]"]
  show ?thesis by (simp add: inst fields form_body_simps)
qed

text \<open>A token with a space is not in the body as it is: the form encoding writes the space
  as \<^verbatim>\<open>%20\<close>.\<close>

theorem records_body_escapes_token_counterexample:
  "map body (sent (snd (fetchRoomInfo (example_world (reply_with Null))
                          (ready_client\<lparr>authToken := ''a b''\<rparr>))))
     = [FormBody ''accountSid=A&timestamp=1704110400&communityNo=123456789&authToken=a%20b'']
   \<and> \<not> sublist (authToken (ready_client\<lparr>authToken := ''a b''\<rparr>))
         ''accountSid=A&timestamp=1704110400&communityNo=123456789&authToken=a%20b''"
proof -
  let ?w = "example_world (reply_with Null)"
  let ?c = "ready_client\<lparr>authToken := ''a b''\<rparr>"
  have no: "communityNo ?c = Some 123456789" by (simp add: ready_client_def)
  have fields: "accountSid ?c = ''A''" "authToken ?c = ''a b''"
    "now_ms ?w div 1000 = 1704110400" "sent ?w = []"
    by (simp_all add: ready_client_def fresh_client_def example_world_def)
  have sent: "map body (sent (snd (fetchRoomInfo ?w ?c)))
     = [FormBody ''accountSid=A&timestamp=1704110400&communityNo=123456789&authToken=a%20b'']"
    by (simp add: sent_fetchRoomInfo [OF no] fields form_body_simps)
  have "\<not> sublist ''a b''
         ''accountSid=A&timestamp=1704110400&communityNo=123456789&authToken=a%20b''"
  proof
    assume "sublist ''a b''
         ''accountSid=A&timestamp=1704110400&communityNo=123456789&authToken=a%20b''"
    then have "set ''a b''
        \<subseteq> set ''accountSid=A&timestamp=1704110400&communityNo=123456789&authToken=a%20b''"
      by (rule set_mono_sublist)
    then show False by simp
  qed
  with sent show ?thesis by (simp only: fields simp_thms)
qed

subsection \<open>The card family\<close>

lemma sent_makeCard:
  assumes "communityNo c = Some n" "n \<noteq> 0"
    and "toCommunityTime w c endTime = Inr t"
  shows "sent (snd (makeCard w c issueMac buildNo floorNo roomNo endTime creatorAreaCode creatorMobile
                     creatorPassword owner opentype ownerGender ownerAreaCode ownerMobile
                     creatorEmail))
         = sent w @
           [form_post (apiHost c @ ''Home/Qrm/makeRoomCard'')
              ([(''issueMac'', FStr issueMac), (''endTime'', FStr t),
               (''accountSid'', FStr (accountSid c)), (''communityNo'', FStr (dec_int n)),
               (''buildNo'', FStr buildNo), (''floorNo'', FStr floorNo),
               (''roomNo'', FStr roomNo),
               (''sig'', FStr (md5_hex (issueMac @ t @ accountSid c @ dec_int n @ buildNo
                                       @ floorNo @ roomNo @ authToken c)))]
               @ [(''owner'', FStr owner),
                 (''creatorAreaCode'', FStr creatorAreaCode),
                 (''creatorMobile'', FStr creatorMobile),
                 (''creatorPassword'', FStr (md5_hex creatorPassword)),
                 (''opentype'', FNum opentype),
                 (''ownerGender'', FNum ownerGender),
                 (''ownerAreaCode'', FStr ownerAreaCode),
                 (''ownerMobile'', FStr ownerMobile),
                 (''creatorEmail'', FStr creatorEmail)])]"
  unfolding makeCard_def Let_def
  by (simp only: checkCommunityNo_set [OF assms(1,2)] communityNo_toString_set [OF assms(1)] assms(3) attempt_Inr sent_form_post)
    (simp add: assign_def obj_set_def getSig2_concat)

lemma sent_makeLostCard:
  assumes "communityNo c = Some n" "n \<noteq> 0"
    and "toCommunityTime w c endTime = Inr t"
  shows "sent (snd (makeLostCard w c issueMac buildNo floorNo roomNo endTime creatorAreaCode creatorMobile
                     creatorPassword owner opentype ownerGender ownerAreaCode ownerMobile
                     creatorEmail))
         = sent w @
           [form_post (apiHost c @ ''Home/Qrm/makeRoomCard'')
              ([(''issueMac'', FStr issueMac), (''endTime'', FStr t),
               (''accountSid'', FStr (accountSid c)), (''communityNo'', FStr (dec_int n)),
               (''buildNo'', FStr buildNo), (''floorNo'', FStr floorNo),
               (''roomNo'', FStr roomNo),
               (''sig'', FStr (md5_hex (issueMac @ t @ accountSid c @ dec_int n @ buildNo
                                       @ floorNo @ roomNo @ authToken c)))]
               @ [(''owner'', FStr owner),
                 (''creatorAreaCode'', FStr creatorAreaCode),
                 (''creatorMobile'', FStr creatorMobile),
                 (''creatorPassword'', FStr (md5_hex creatorPassword)),
                 (''opentype'', FNum opentype),
                 (''ownerGender'', FNum ownerGender),
                 (''ownerAreaCode'', FStr ownerAreaCode),
                 (''ownerMobile'', FStr ownerMobile),
                 (''creatorEmail'', FStr creatorEmail),
                 (''isLost'', FStr creatorEmail)])]"
  unfolding makeLostCard_def Let_def
  by (simp only: checkCommunityNo_set [OF assms(1,2)] communityNo_toString_set [OF assms(1)] assms(3) attempt_Inr sent_form_post)
    (simp add: assign_def obj_set_def getSig2_concat)

lemma sent_readCard:
  assumes "communityNo c = Some n" "n \<noteq> 0"
  shows "sent (snd (readCard w c issueMac creatorAreaCode creatorMobile creatorPassword
                     operateCardType creatorEmail))
         = sent w @
           [form_post (apiHost c @ ''Home/Qrm/readCard'')
              ([(''accountSid'', FStr (accountSid c)), (''communityNo'', FStr (dec_int n)),
               (''issueMac'', FStr issueMac), (''creatorAreaCode'', FStr creatorAreaCode),
               (''creatorMobile'', FStr creatorMobile),
               (''creatorPassword'', FStr (md5_hex creatorPassword)),
               (''sig'', FStr (md5_hex (accountSid c @ dec_int n @ issueMac @ creatorAreaCode
                                       @ creatorMobile @ md5_hex creatorPassword
                                       @ authToken c)))]
               @ [(''operateCardType'', FNum operateCardType),
                 (''creatorEmail'', FStr creatorEmail)])]"
  unfolding readCard_def Let_def
  by (simp only: checkCommunityNo_set [OF assms(1,2)] communityNo_toString_set [OF assms(1)] attempt_Inr sent_form_post)
    (simp add: assign_def obj_set_def getSig2_concat)

lemma sent_cancelCard:
  assumes "communityNo c = Some n" "n \<noteq> 0"
  shows "sent (snd (cancelCard w c issueMac serialNum creatorAreaCode creatorMobile
                     creatorPassword operateCardType creatorEmail))
         = sent w @
           [form_post (apiHost c @ ''Home/Qrm/cancelCard'')
              ([(''accountSid'', FStr (accountSid c)), (''communityNo'', FStr (dec_int n)),
               (''issueMac'', FStr issueMac), (''serialNum'', FStr serialNum),
               (''creatorAreaCode'', FStr creatorAreaCode),
               (''creatorMobile'', FStr creatorMobile),
               (''creatorPassword'', FStr (md5_hex creatorPassword)),
               (''sig'', FStr (md5_hex (accountSid c @ dec_int n @ issueMac @ serialNum
                                       @ creatorAreaCode @ creatorMobile
                                       @ md5_hex creatorPassword @ authToken c)))]
               @ [(''operateCardType'', FNum operateCardType),
                 (''creatorEmail'', FStr creatorEmail)])]"
  unfolding cancelCard_def Let_def
  by (simp only: checkCommunityNo_set [OF assms(1,2)] communityNo_toString_set [OF assms(1)] attempt_Inr sent_form_post)
    (simp add: assign_def obj_set_def getSig2_concat)

text \<open>The digests of the examples below.\<close>

lemma md5_p_bytes: "bytes_of ''p'' = [112]"
  by (simp add: bytes_of_def utf8_def)

lemma md5_p_pad: "md5_pad [112] =
  [112, 128, 0, 0, 0, 0, 0, 0, 0, 0, 0, 0, 0, 0, 0, 0, 0, 0, 0, 0, 0, 0, 0, 0, 0, 0, 0, 0, 0, 0, 0, 0, 0, 0, 0, 0, 0, 0, 0, 0, 0, 0, 0, 0, 0, 0, 0, 0, 0, 0, 0, 0, 0, 0, 0, 0, 8, 0, 0, 0, 0, 0, 0, 0]"
  by (simp add: md5_pad_def pad_zeros_def replicate_numeral le_bytes_8 le_bytes_4)

lemma md5_p_words: "le_words
  [112, 128, 0, 0, 0, 0, 0, 0, 0, 0, 0, 0, 0, 0, 0, 0, 0, 0, 0, 0, 0, 0, 0, 0, 0, 0, 0, 0, 0, 0, 0, 0, 0, 0, 0, 0, 0, 0, 0, 0, 0, 0, 0, 0, 0, 0, 0, 0, 0, 0, 0, 0, 0, 0, 0, 0, 8, 0, 0, 0, 0, 0, 0, 0] =
  [0x00008070, 0x00000000, 0x00000000, 0x00000000, 0x00000000, 0x00000000, 0x00000000, 0x00000000, 0x00000000, 0x00000000, 0x00000000, 0x00000000, 0x00000000, 0x00000000, 0x00000008, 0x00000000]"
  by simp

lemma md5_p_b0_r0: "foldl (md5_round [0x00008070, 0x00000000, 0x00000000, 0x00000000, 0x00000000, 0x00000000, 0x00000000, 0x00000000, 0x00000000, 0x00000000, 0x00000000, 0x00000000, 0x00000000, 0x00000000, 0x00000008, 0x00000000])
    (0x67452301, 0xefcdab89, 0x98badcfe, 0x10325476) [0, 1, 2, 3, 4, 5, 6, 7, 8, 9, 10, 11, 12, 13, 14, 15]
  = (0x36ac71c0, 0x4da567b9, 0x230f28f3, 0x48ebd2b0)"
  by (simp add: md5_round_def md5_F_def md5_g_def md5_K_def md5_S_def rotl32_def)

lemma md5_p_b0_r1: "foldl (md5_round [0x00008070, 0x00000000, 0x00000000, 0x00000000, 0x00000000, 0x00000000, 0x00000000, 0x00000000, 0x00000000, 0x00000000, 0x00000000, 0x00000000, 0x00000000, 0x00000000, 0x00000008, 0x00000000])
    (0x36ac71c0, 0x4da567b9, 0x230f28f3, 0x48ebd2b0) [16, 17, 18, 19, 20, 21, 22, 23, 24, 25, 26, 27, 28, 29, 30, 31]
  = (0x108f25ce, 0x2327e89e, 0xfd7d354a, 0x32845f67)"
  by (simp add: md5_round_def md5_F_def md5_g_def md5_K_def md5_S_def rotl32_def)

lemma md5_p_b0_r2: "foldl (md5_round [0x00008070, 0x00000000, 0x00000000, 0x00000000, 0x00000000, 0x00000000, 0x00000000, 0x00000000, 0x00000000, 0x00000000, 0x00000000, 0x00000000, 0x00000000, 0x00000000, 0x00000008, 0x00000000])
    (0x108f25ce, 0x2327e89e, 0xfd7d354a, 0x32845f67) [32, 33, 34, 35, 36, 37, 38, 39, 40, 41, 42, 43, 44, 45, 46, 47]
  = (0x0b9a1012, 0x8e76485d, 0xa4182b60, 0x79dcecf8)"
  by (simp add: md5_round_def md5_F_def md5_g_def md5_K_def md5_S_def rotl32_def)

lemma md5_p_b0_r3: "foldl (md5_round [0x00008070, 0x00000000, 0x00000000, 0x00000000, 0x00000000, 0x00000000, 0x00000000, 0x00000000, 0x00000000, 0x00000000, 0x00000000, 0x00000000, 0x00000000, 0x00000000, 0x00000008, 0x00000000])
    (0x0b9a1012, 0x8e76485d, 0xa4182b60, 0x79dcecf8) [48, 49, 50, 51, 52, 53, 54, 55, 56, 57, 58, 59, 60, 61, 62, 63]
  = (0x2a476482, 0xa06a678e, 0x63253230, 0x6a925421)"
  by (simp add: md5_round_def md5_F_def md5_g_def md5_K_def md5_S_def rotl32_def)

lemma md5_p_b0: "md5_block (0x67452301, 0xefcdab89, 0x98badcfe, 0x10325476)
    [0x00008070, 0x00000000, 0x00000000, 0x00000000, 0x00000000, 0x00000000, 0x00000000, 0x00000000, 0x00000000, 0x00000000, 0x00000000, 0x00000000, 0x00000000, 0x00000000, 0x00000008, 0x00000000]
  = (0x918c8783, 0x90381317, 0xfbe00f2e, 0x7ac4a897)"
proof -
  have "foldl (md5_round [0x00008070, 0x00000000, 0x00000000, 0x00000000, 0x00000000, 0x00000000, 0x00000000, 0x00000000, 0x00000000, 0x00000000, 0x00000000, 0x00000000, 0x00000000, 0x00000000, 0x00000008, 0x00000000])
      (0x67452301, 0xefcdab89, 0x98badcfe, 0x10325476) [0..<64] = (0x2a476482, 0xa06a678e, 0x63253230, 0x6a925421)"
    unfolding upt64 by (simp only: foldl_append md5_p_b0_r0 md5_p_b0_r1 md5_p_b0_r2 md5_p_b0_r3)
  then show ?thesis by (simp add: md5_block_def)
qed

lemma md5_p_digest: "md5_hex ''p'' = ''83878c91171338902e0fe0fb97a8c47a''"
  by (simp add: md5_hex_def md5_def md5_p_bytes md5_p_pad md5_p_words md5_p_b0 le_bytes_4
      hex_of_bytes_def hex_digit_def)

lemma md5_read1_bytes: "bytes_of ''A123456789M86183878c91171338902e0fe0fb97a8c47aT'' = [65, 49, 50, 51, 52, 53, 54, 55, 56, 57, 77, 56, 54, 49, 56, 51, 56, 55, 56, 99, 57, 49, 49, 55, 49, 51, 51, 56, 57, 48, 50, 101, 48, 102, 101, 48, 102, 98, 57, 55, 97, 56, 99, 52, 55, 97, 84]"
  by (simp add: bytes_of_def utf8_def)

lemma md5_read1_pad: "md5_pad [65, 49, 50, 51, 52, 53, 54, 55, 56, 57, 77, 56, 54, 49, 56, 51, 56, 55, 56, 99, 57, 49, 49, 55, 49, 51, 51, 56, 57, 48, 50, 101, 48, 102, 101, 48, 102, 98, 57, 55, 97, 56, 99, 52, 55, 97, 84] =
  [65, 49, 50, 51, 52, 53, 54, 55, 56, 57, 77, 56, 54, 49, 56, 51, 56, 55, 56, 99, 57, 49, 49, 55, 49, 51, 51, 56, 57, 48, 50, 101, 48, 102, 101, 48, 102, 98, 57, 55, 97, 56, 99, 52, 55, 97, 84, 128, 0, 0, 0, 0, 0, 0, 0, 0, 120, 1, 0, 0, 0, 0, 0, 0]"
  by (simp add: md5_pad_def pad_zeros_def replicate_numeral le_bytes_8 le_bytes_4)

lemma md5_read1_words: "le_words
  [65, 49, 50, 51, 52, 53, 54, 55, 56, 57, 77, 56, 54, 49, 56, 51, 56, 55, 56, 99, 57, 49, 49, 55, 49, 51, 51, 56, 57, 48, 50, 101, 48, 102, 101, 48, 102, 98, 57, 55, 97, 56, 99, 52, 55, 97, 84, 128, 0, 0, 0, 0, 0, 0, 0, 0, 120, 1, 0, 0, 0, 0, 0, 0] =
  [0x33323141, 0x37363534, 0x384d3938, 0x33383136, 0x63383738, 0x37313139, 0x38333331, 0x65323039, 0x30656630, 0x37396266, 0x34633861, 0x80546137, 0x00000000, 0x00000000, 0x00000178, 0x00000000]"
  by simp

lemma md5_read1_b0_r0: "foldl (md5_round [0x33323141, 0x37363534, 0x384d3938, 0x33383136, 0x63383738, 0x37313139, 0x38333331, 0x65323039, 0x30656630, 0x37396266, 0x34633861, 0x80546137, 0x00000000, 0x00000000, 0x00000178, 0x00000000])
    (0x67452301, 0xefcdab89, 0x98badcfe, 0x10325476) [0, 1, 2, 3, 4, 5, 6, 7, 8, 9, 10, 11, 12, 13, 14, 15]
  = (0x59ffb030, 0xd588e89b, 0x00232fb1, 0x7bd8ac09)"
  by (simp add: md5_round_def md5_F_def md5_g_def md5_K_def md5_S_def rotl32_def)

lemma md5_read1_b0_r1: "foldl (md5_round [0x33323141, 0x37363534, 0x384d3938, 0x33383136, 0x63383738, 0x37313139, 0x38333331, 0x65323039, 0x30656630, 0x37396266, 0x34633861, 0x80546137, 0x00000000, 0x00000000, 0x00000178, 0x00000000])
    (0x59ffb030, 0xd588e89b, 0x00232fb1, 0x7bd8ac09) [16, 17, 18, 19, 20, 21, 22, 23, 24, 25, 26, 27, 28, 29, 30, 31]
  = (0x8d7f8355, 0x77595fbd, 0xce44b3c7, 0x4b5ff712)"
  by (simp add: md5_round_def md5_F_def md5_g_def md5_K_def md5_S_def rotl32_def)

lemma md5_read1_b0_r2: "foldl (md5_round [0x33323141, 0x37363534, 0x384d3938, 0x33383136, 0x63383738, 0x37313139, 0x38333331, 0x65323039, 0x30656630, 0x37396266, 0x34633861, 0x80546137, 0x00000000, 0x00000000, 0x00000178, 0x00000000])
    (0x8d7f8355, 0x77595fbd, 0xce44b3c7, 0x4b5ff712) [32, 33, 34, 35, 36, 37, 38, 39, 40, 41, 42, 43, 44, 45, 46, 47]
  = (0xe5d03e99, 0xb87c076b, 0x419284a9, 0x6a661f02)"
  by (simp add: md5_round_def md5_F_def md5_g_def md5_K_def md5_S_def rotl32_def)

lemma md5_read1_b0_r3: "foldl (md5_round [0x33323141, 0x37363534, 0x384d3938, 0x33383136, 0x63383738, 0x37313139, 0x38333331, 0x65323039, 0x30656630, 0x37396266, 0x34633861, 0x80546137, 0x00000000, 0x00000000, 0x00000178, 0x00000000])
    (0xe5d03e99, 0xb87c076b, 0x419284a9, 0x6a661f02) [48, 49, 50, 51, 52, 53, 54, 55, 56, 57, 58, 59, 60, 61, 62, 63]
  = (0x62d760c1, 0x2627d84a, 0x291ede03, 0x1ac572af)"
  by (simp add: md5_round_def md5_F_def md5_g_def md5_K_def md5_S_def rotl32_def)

lemma md5_read1_b0: "md5_block (0x67452301, 0xefcdab89, 0x98badcfe, 0x10325476)
    [0x33323141, 0x37363534, 0x384d3938, 0x33383136, 0x63383738, 0x37313139, 0x38333331, 0x65323039, 0x30656630, 0x37396266, 0x34633861, 0x80546137, 0x00000000, 0x00000000, 0x00000178, 0x00000000]
  = (0xca1c83c2, 0x15f583d3, 0xc1d9bb01, 0x2af7c725)"
proof -
  have "foldl (md5_round [0x33323141, 0x37363534, 0x384d3938, 0x33383136, 0x63383738, 0x37313139, 0x38333331, 0x65323039, 0x30656630, 0x37396266, 0x34633861, 0x80546137, 0x00000000, 0x00000000, 0x00000178, 0x00000000])
      (0x67452301, 0xefcdab89, 0x98badcfe, 0x10325476) [0..<64] = (0x62d760c1, 0x2627d84a, 0x291ede03, 0x1ac572af)"
    unfolding upt64 by (simp only: foldl_append md5_read1_b0_r0 md5_read1_b0_r1 md5_read1_b0_r2 md5_read1_b0_r3)
  then show ?thesis by (simp add: md5_block_def)
qed

lemma md5_read1_digest: "md5_hex ''A123456789M86183878c91171338902e0fe0fb97a8c47aT'' = ''c2831ccad383f51501bbd9c125c7f72a''"
  by (simp add: md5_hex_def md5_def md5_read1_bytes md5_read1_pad md5_read1_words md5_read1_b0 le_bytes_4
      hex_of_bytes_def hex_digit_def)

lemma md5_read2_bytes: "bytes_of ''A123456789M86283878c91171338902e0fe0fb97a8c47aT'' = [65, 49, 50, 51, 52, 53, 54, 55, 56, 57, 77, 56, 54, 50, 56, 51, 56, 55, 56, 99, 57, 49, 49, 55, 49, 51, 51, 56, 57, 48, 50, 101, 48, 102, 101, 48, 102, 98, 57, 55, 97, 56, 99, 52, 55, 97, 84]"
  by (simp add: bytes_of_def utf8_def)

lemma md5_read2_pad: "md5_pad [65, 49, 50, 51, 52, 53, 54, 55, 56, 57, 77, 56, 54, 50, 56, 51, 56, 55, 56, 99, 57, 49, 49, 55, 49, 51, 51, 56, 57, 48, 50, 101, 48, 102, 101, 48, 102, 98, 57, 55, 97, 56, 99, 52, 55, 97, 84] =
  [65, 49, 50, 51, 52, 53, 54, 55, 56, 57, 77, 56, 54, 50, 56, 51, 56, 55, 56, 99, 57, 49, 49, 55, 49, 51, 51, 56, 57, 48, 50, 101, 48, 102, 101, 48, 102, 98, 57, 55, 97, 56, 99, 52, 55, 97, 84, 128, 0, 0, 0, 0, 0, 0, 0, 0, 120, 1, 0, 0, 0, 0, 0, 0]"
  by (simp add: md5_pad_def pad_zeros_def replicate_numeral le_bytes_8 le_bytes_4)

lemma md5_read2_words: "le_words
  [65, 49, 50, 51, 52, 53, 54, 55, 56, 57, 77, 56, 54, 50, 56, 51, 56, 55, 56, 99, 57, 49, 49, 55, 49, 51, 51, 56, 57, 48, 50, 101, 48, 102, 101, 48, 102, 98, 57, 55, 97, 56, 99, 52, 55, 97, 84, 128, 0, 0, 0, 0, 0, 0, 0, 0, 120, 1, 0, 0, 0, 0, 0, 0] =
  [0x33323141, 0x37363534, 0x384d3938, 0x33383236, 0x63383738, 0x37313139, 0x38333331, 0x65323039, 0x30656630, 0x37396266, 0x34633861, 0x80546137, 0x00000000, 0x00000000, 0x00000178, 0x00000000]"
  by simp

lemma md5_read2_b0_r0: "foldl (md5_round [0x33323141, 0x37363534, 0x384d3938, 0x33383236, 0x63383738, 0x37313139, 0x38333331, 0x65323039, 0x30656630, 0x37396266, 0x34633861, 0x80546137, 0x00000000, 0x00000000, 0x00000178, 0x00000000])
    (0x67452301, 0xefcdab89, 0x98badcfe, 0x10325476) [0, 1, 2, 3, 4, 5, 6, 7, 8, 9, 10, 11, 12, 13, 14, 15]
  = (0x937361de, 0x5d7b07dc, 0x49297745, 0x95be5be6)"
  by (simp add: md5_round_def md5_F_def md5_g_def md5_K_def md5_S_def rotl32_def)

lemma md5_read2_b0_r1: "foldl (md5_round [0x33323141, 0x37363534, 0x384d3938, 0x33383236, 0x63383738, 0x37313139, 0x38333331, 0x65323039, 0x30656630, 0x37396266, 0x34633861, 0x80546137, 0x00000000, 0x00000000, 0x00000178, 0x00000000])
    (0x937361de, 0x5d7b07dc, 0x49297745, 0x95be5be6) [16, 17, 18, 19, 20, 21, 22, 23, 24, 25, 26, 27, 28, 29, 30, 31]
  = (0x80c13636, 0xc7f00c39, 0x64f31881, 0x72ccd7e1)"
  by (simp add: md5_round_def md5_F_def md5_g_def md5_K_def md5_S_def rotl32_def)

lemma md5_read2_b0_r2: "foldl (md5_round [0x33323141, 0x37363534, 0x384d3938, 0x33383236, 0x63383738, 0x37313139, 0x38333331, 0x65323039, 0x30656630, 0x37396266, 0x34633861, 0x80546137, 0x00000000, 0x00000000, 0x00000178, 0x00000000])
    (0x80c13636, 0xc7f00c39, 0x64f31881, 0x72ccd7e1) [32, 33, 34, 35, 36, 37, 38, 39, 40, 41, 42, 43, 44, 45, 46, 47]
  = (0xda3484f6, 0xa04a9e9f, 0x0d59eb46, 0xac243481)"
  by (simp add: md5_round_def md5_F_def md5_g_def md5_K_def md5_S_def rotl32_def)

lemma md5_read2_b0_r3: "foldl (md5_round [0x33323141, 0x37363534, 0x384d3938, 0x33383236, 0x63383738, 0x37313139, 0x38333331, 0x65323039, 0x30656630, 0x37396266, 0x34633861, 0x80546137, 0x00000000, 0x00000000, 0x00000178, 0x00000000])
    (0xda3484f6, 0xa04a9e9f, 0x0d59eb46, 0xac243481) [48, 49, 50, 51, 52, 53, 54, 55, 56, 57, 58, 59, 60, 61, 62, 63]
  = (0x77a47ed9, 0x22f747ce, 0x56507f53, 0xc23faf57)"
  by (simp add: md5_round_def md5_F_def md5_g_def md5_K_def md5_S_def rotl32_def)

lemma md5_read2_b0: "md5_block (0x67452301, 0xefcdab89, 0x98badcfe, 0x10325476)
    [0x33323141, 0x37363534, 0x384d3938, 0x33383236, 0x63383738, 0x37313139, 0x38333331, 0x65323039, 0x30656630, 0x37396266, 0x34633861, 0x80546137, 0x00000000, 0x00000000, 0x00000178, 0x00000000]
  = (0xdee9a1da, 0x12c4f357, 0xef0b5c51, 0xd27203cd)"
proof -
  have "foldl (md5_round [0x33323141, 0x37363534, 0x384d3938, 0x33383236, 0x63383738, 0x37313139, 0x38333331, 0x65323039, 0x30656630, 0x37396266, 0x34633861, 0x80546137, 0x00000000, 0x00000000, 0x00000178, 0x00000000])
      (0x67452301, 0xefcdab89, 0x98badcfe, 0x10325476) [0..<64] = (0x77a47ed9, 0x22f747ce, 0x56507f53, 0xc23faf57)"
    unfolding upt64 by (simp only: foldl_append md5_read2_b0_r0 md5_read2_b0_r1 md5_read2_b0_r2 md5_read2_b0_r3)
  then show ?thesis by (simp add: md5_block_def)
qed

lemma md5_read2_digest: "md5_hex ''A123456789M86283878c91171338902e0fe0fb97a8c47aT'' = ''daa1e9de57f3c412515c0befcd0372d2''"
  by (simp add: md5_hex_def md5_def md5_read2_bytes md5_read2_pad md5_read2_words md5_read2_b0 le_bytes_4
      hex_of_bytes_def hex_digit_def)

text \<open>
  Claim C10, as amended. Each of the four card operations signs the fields that its object
  holds when \<^verbatim>\<open>sig\<close> is assigned, and no other: the one request it sends carries those fields,
  then \<^verbatim>\<open>sig\<close>, the MD5 of their values and the token, then the fields assigned afterwards,
  which the signature does not mention. For \<^verbatim>\<open>makeCard\<close> and \<^verbatim>\<open>makeLostCard\<close> the later fields
  are \<^verbatim>\<open>owner\<close>, \<^verbatim>\<open>creatorAreaCode\<close>, \<^verbatim>\<open>creatorMobile\<close>, \<^verbatim>\<open>creatorPassword\<close>, \<^verbatim>\<open>opentype\<close>,
  \<^verbatim>\<open>ownerGender\<close>, \<^verbatim>\<open>ownerAreaCode\<close>, \<^verbatim>\<open>ownerMobile\<close>, \<^verbatim>\<open>creatorEmail\<close> (and \<^verbatim>\<open>isLost\<close>); for
  \<^verbatim>\<open>readCard\<close> and \<^verbatim>\<open>cancelCard\<close> they are \<^verbatim>\<open>operateCardType\<close> and \<^verbatim>\<open>creatorEmail\<close> only:
  \<^verbatim>\<open>creatorAreaCode\<close>, \<^verbatim>\<open>creatorMobile\<close> and the hashed \<^verbatim>\<open>creatorPassword\<close> are signed there.
\<close>

theorem card_signature_covers_first_fields:
  assumes "communityNo c = Some n" "n \<noteq> 0"
    and "toCommunityTime w c endTime = Inr t"
  shows
    "sent (snd (makeCard w c issueMac buildNo floorNo roomNo endTime creatorAreaCode creatorMobile
                     creatorPassword owner opentype ownerGender ownerAreaCode ownerMobile
                     creatorEmail))
         = sent w @
           [form_post (apiHost c @ ''Home/Qrm/makeRoomCard'')
              ([(''issueMac'', FStr issueMac), (''endTime'', FStr t),
               (''accountSid'', FStr (accountSid c)), (''communityNo'', FStr (dec_int n)),
               (''buildNo'', FStr buildNo), (''floorNo'', FStr floorNo),
               (''roomNo'', FStr roomNo),
               (''sig'', FStr (md5_hex (issueMac @ t @ accountSid c @ dec_int n @ buildNo
                                       @ floorNo @ roomNo @ authToken c)))]
               @ [(''owner'', FStr owner),
                 (''creatorAreaCode'', FStr creatorAreaCode),
                 (''creatorMobile'', FStr creatorMobile),
                 (''creatorPassword'', FStr (md5_hex creatorPassword)),
                 (''opentype'', FNum opentype),
                 (''ownerGender'', FNum ownerGender),
                 (''ownerAreaCode'', FStr ownerAreaCode),
                 (''ownerMobile'', FStr ownerMobile),
                 (''creatorEmail'', FStr creatorEmail)])]
     \<and> sent (snd (makeLostCard w c issueMac buildNo floorNo roomNo endTime creatorAreaCode creatorMobile
                     creatorPassword owner opentype ownerGender ownerAreaCode ownerMobile
                     creatorEmail))
         = sent w @
           [form_post (apiHost c @ ''Home/Qrm/makeRoomCard'')
              ([(''issueMac'', FStr issueMac), (''endTime'', FStr t),
               (''accountSid'', FStr (accountSid c)), (''communityNo'', FStr (dec_int n)),
               (''buildNo'', FStr buildNo), (''floorNo'', FStr floorNo),
               (''roomNo'', FStr roomNo),
               (''sig'', FStr (md5_hex (issueMac @ t @ accountSid c @ dec_int n @ buildNo
                                       @ floorNo @ roomNo @ authToken c)))]
               @ [(''owner'', FStr owner),
                 (''creatorAreaCode'', FStr creatorAreaCode),
                 (''creatorMobile'', FStr creatorMobile),
                 (''creatorPassword'', FStr (md5_hex creatorPassword)),
                 (''opentype'', FNum opentype),
                 (''ownerGender'', FNum ownerGender),
                 (''ownerAreaCode'', FStr ownerAreaCode),
                 (''ownerMobile'', FStr ownerMobile),
                 (''creatorEmail'', FStr creatorEmail),
                 (''isLost'', FStr creatorEmail)])]
     \<and> sent (snd (readCard w c issueMac creatorAreaCode creatorMobile creatorPassword
                     operateCardType creatorEmail))
         = sent w @
           [form_post (apiHost c @ ''Home/Qrm/readCard'')
              ([(''accountSid'', FStr (accountSid c)), (''communityNo'', FStr (dec_int n)),
               (''issueMac'', FStr issueMac), (''creatorAreaCode'', FStr creatorAreaCode),
               (''creatorMobile'', FStr creatorMobile),
               (''creatorPassword'', FStr (md5_hex creatorPassword)),
               (''sig'', FStr (md5_hex (accountSid c @ dec_int n @ issueMac @ creatorAreaCode
                                       @ creatorMobile @ md5_hex creatorPassword
                                       @ authToken c)))]
               @ [(''operateCardType'', FNum operateCardType),
                 (''creatorEmail'', FStr creatorEmail)])]
     \<and> sent (snd (cancelCard w c issueMac serialNum creatorAreaCode creatorMobile
                     creatorPassword operateCardType creatorEmail))
         = sent w @
           [form_post (apiHost c @ ''Home/Qrm/cancelCard'')
              ([(''accountSid'', FStr (accountSid c)), (''communityNo'', FStr (dec_int n)),
               (''issueMac'', FStr issueMac), (''serialNum'', FStr serialNum),
               (''creatorAreaCode'', FStr creatorAreaCode),
               (''creatorMobile'', FStr creatorMobile),
               (''creatorPassword'', FStr (md5_hex creatorPassword)),
               (''sig'', FStr (md5_hex (accountSid c @ dec_int n @ issueMac @ serialNum
                                       @ creatorAreaCode @ creatorMobile
                                       @ md5_hex creatorPassword @ authToken c)))]
               @ [(''operateCardType'', FNum operateCardType),
                 (''creatorEmail'', FStr creatorEmail)])]"
  by (simp only: sent_makeCard [OF assms] sent_makeLostCard [OF assms]
      sent_readCard [OF assms(1,2)] sent_cancelCard [OF assms(1,2)] simp_thms)

text \<open>Two calls of \<^verbatim>\<open>readCard\<close> that differ in \<^verbatim>\<open>operateCardType\<close> and \<^verbatim>\<open>creatorEmail\<close> carry the
  same signature.\<close>

theorem card_signature_covers_first_fields_witness:
  "map body (sent (snd (readCard (example_world (reply_with Null)) ready_client
                          ''M'' ''86'' ''1'' ''p'' 0 [])))
     = [FormBody
         (''accountSid=A&communityNo=123456789&issueMac=M&creatorAreaCode=86''
          @ ''&creatorMobile=1&creatorPassword=83878c91171338902e0fe0fb97a8c47a''
          @ ''&sig=c2831ccad383f51501bbd9c125c7f72a''
          @ ''&operateCardType=0&creatorEmail='')]
   \<and> map body (sent (snd (readCard (example_world (reply_with Null)) ready_client
                            ''M'' ''86'' ''1'' ''p'' 1 ''e'')))
     = [FormBody
         (''accountSid=A&communityNo=123456789&issueMac=M&creatorAreaCode=86''
          @ ''&creatorMobile=1&creatorPassword=83878c91171338902e0fe0fb97a8c47a''
          @ ''&sig=c2831ccad383f51501bbd9c125c7f72a''
          @ ''&operateCardType=1&creatorEmail=e'')]"
proof -
  let ?w = "example_world (reply_with Null)"
  have no: "communityNo ready_client = Some 123456789" "(123456789::int) \<noteq> 0"
    by (simp_all add: ready_client_def)
  have fields: "accountSid ready_client = ''A''" "authToken ready_client = ''T''"
    "sent ?w = []"
    by (simp_all add: ready_client_def fresh_client_def example_world_def)
  note inst = card_signature_covers_first_fields [OF no toCommunityTime_empty, where w = ?w]
  show ?thesis
    by (simp add: inst fields form_body_simps dec_examples md5_p_digest md5_read1_digest)
qed

text \<open>Two calls of \<^verbatim>\<open>readCard\<close> that differ in \<^verbatim>\<open>creatorMobile\<close> only, one of the fields that
  the claim lists as added after the signature, carry different signatures.\<close>

theorem readCard_signs_creator_counterexample:
  "map body (sent (snd (readCard (example_world (reply_with Null)) ready_client
                          ''M'' ''86'' ''1'' ''p'' 0 [])))
     = [FormBody
         (''accountSid=A&communityNo=123456789&issueMac=M&creatorAreaCode=86''
          @ ''&creatorMobile=1&creatorPassword=83878c91171338902e0fe0fb97a8c47a''
          @ ''&sig=c2831ccad383f51501bbd9c125c7f72a''
          @ ''&operateCardType=0&creatorEmail='')]
   \<and> map body (sent (snd (readCard (example_world (reply_with Null)) ready_client
                            ''M'' ''86'' ''2'' ''p'' 0 [])))
     = [FormBody
         (''accountSid=A&communityNo=123456789&issueMac=M&creatorAreaCode=86''
          @ ''&creatorMobile=2&creatorPassword=83878c91171338902e0fe0fb97a8c47a''
          @ ''&sig=daa1e9de57f3c412515c0befcd0372d2''
          @ ''&operateCardType=0&creatorEmail='')]"
proof -
  let ?w = "example_world (reply_with Null)"
  have no: "communityNo ready_client = Some 123456789" "(123456789::int) \<noteq> 0"
    by (simp_all add: ready_client_def)
  have fields: "accountSid ready_client = ''A''" "authToken ready_client = ''T''"
    "sent ?w = []"
    by (simp_all add: ready_client_def fresh_client_def example_world_def)
  show ?thesis
    by (simp add: sent_readCard [OF no] fields form_body_simps dec_examples md5_p_digest
        md5_read1_digest md5_read2_digest)
qed

end
